theory Spec2Isabelle
  imports Complex_Main
begin

section \<open>Values of the shading language\<close>

text \<open>
  The two headers are HLSL compute kernels. A \<open>float\<close> is modelled by a real number:
  rounding, infinities and NaN are outside the model. An \<open>int\<close> thread or texel
  coordinate is an unbounded integer (the coordinates of a dispatch stay far below
  \<open>2^31\<close>); where the source compares an \<open>int\<close> with a \<open>uint\<close> the conversion is
  written out. \<open>floatx\<close> is the four-component vector the shared tiles hold.
\<close>

type_synonym int2 = "int \<times> int"
type_synonym uint2 = "nat \<times> nat"

datatype float2 = float2 (x2: real) (y2: real)
datatype float3 = float3 (x3: real) (y3: real) (z3: real)
datatype float4 = float4 (x4: real) (y4: real) (z4: real) (w4: real)

instantiation float4 :: comm_monoid_add
begin
definition zero_float4 :: float4 where
  "zero_float4 = float4 0 0 0 0"
definition plus_float4 :: "float4 \<Rightarrow> float4 \<Rightarrow> float4" where
  "plus_float4 a b = float4 (x4 a + x4 b) (y4 a + y4 b) (z4 a + z4 b) (w4 a + w4 b)"
instance
  by standard (simp_all add: zero_float4_def plus_float4_def)
end

definition add_int2 :: "int2 \<Rightarrow> int2 \<Rightarrow> int2" where
  "add_int2 a b = (fst a + fst b, snd a + snd b)"

definition sub_int2 :: "int2 \<Rightarrow> int2 \<Rightarrow> int2" where
  "sub_int2 a b = (fst a - fst b, snd a - snd b)"

definition scale4 :: "real \<Rightarrow> float4 \<Rightarrow> float4" where
  "scale4 s a = float4 (s * x4 a) (s * y4 a) (s * z4 a) (s * w4 a)"

definition mul4 :: "float4 \<Rightarrow> float4 \<Rightarrow> float4" where
  "mul4 a b = float4 (x4 a * x4 b) (y4 a * y4 b) (z4 a * z4 b) (w4 a * w4 b)"

definition sub4 :: "float4 \<Rightarrow> float4 \<Rightarrow> float4" where
  "sub4 a b = float4 (x4 a - x4 b) (y4 a - y4 b) (z4 a - z4 b) (w4 a - w4 b)"

definition div4 :: "float4 \<Rightarrow> real \<Rightarrow> float4" where
  "div4 a s = float4 (x4 a / s) (y4 a / s) (z4 a / s) (w4 a / s)"

definition abs4 :: "float4 \<Rightarrow> float4" where
  "abs4 a = float4 (abs (x4 a)) (abs (y4 a)) (abs (z4 a)) (abs (w4 a))"

definition xyz :: "float4 \<Rightarrow> float3" where
  "xyz a = float3 (x4 a) (y4 a) (z4 a)"

definition set_xyz :: "float4 \<Rightarrow> float3 \<Rightarrow> float4" where
  "set_xyz a v = float4 (x3 v) (y3 v) (z3 v) (w4 a)"

definition float4_of :: "float3 \<Rightarrow> real \<Rightarrow> float4" where
  "float4_of v s = float4 (x3 v) (y3 v) (z3 v) s"

definition add3 :: "float3 \<Rightarrow> float3 \<Rightarrow> float3" where
  "add3 a b = float3 (x3 a + x3 b) (y3 a + y3 b) (z3 a + z3 b)"

definition sub3 :: "float3 \<Rightarrow> float3 \<Rightarrow> float3" where
  "sub3 a b = float3 (x3 a - x3 b) (y3 a - y3 b) (z3 a - z3 b)"

definition scale3 :: "real \<Rightarrow> float3 \<Rightarrow> float3" where
  "scale3 s a = float3 (s * x3 a) (s * y3 a) (s * z3 a)"

definition dot :: "float3 \<Rightarrow> float3 \<Rightarrow> real" where
  "dot a b = x3 a * x3 b + y3 a * y3 b + z3 a * z3 b"

definition length3 :: "float3 \<Rightarrow> real" where
  "length3 a = sqrt (dot a a)"

definition normalize :: "float3 \<Rightarrow> float3" where
  "normalize a = float3 (x3 a / length3 a) (y3 a / length3 a) (z3 a / length3 a)"

definition lerp :: "real \<Rightarrow> real \<Rightarrow> real \<Rightarrow> real" where
  "lerp a b t = a + t * (b - a)"

definition lerp3 :: "float3 \<Rightarrow> float3 \<Rightarrow> real \<Rightarrow> float3" where
  "lerp3 a b t = float3 (lerp (x3 a) (x3 b) t) (lerp (y3 a) (y3 b) t) (lerp (z3 a) (z3 b) t)"

definition saturate :: "real \<Rightarrow> real" where
  "saturate v = min 1 (max 0 v)"

definition add2 :: "float2 \<Rightarrow> float2 \<Rightarrow> float2" where
  "add2 a b = float2 (x2 a + x2 b) (y2 a + y2 b)"

definition mul2 :: "float2 \<Rightarrow> float2 \<Rightarrow> float2" where
  "mul2 a b = float2 (x2 a * x2 b) (y2 a * y2 b)"

definition div2 :: "float2 \<Rightarrow> float2 \<Rightarrow> float2" where
  "div2 a b = float2 (x2 a / x2 b) (y2 a / y2 b)"

definition float2_of_int2 :: "int2 \<Rightarrow> float2" where
  "float2_of_int2 a = float2 (real_of_int (fst a)) (real_of_int (snd a))"

definition float2_of_uint2 :: "uint2 \<Rightarrow> float2" where
  "float2_of_uint2 a = float2 (real (fst a)) (real (snd a))"

text \<open>The conversion of a \<open>float\<close> to \<open>int\<close> drops the fraction (towards zero).\<close>

definition int_of_float :: "real \<Rightarrow> int" where
  "int_of_float v = (if 0 \<le> v then \<lfloor>v\<rfloor> else \<lceil>v\<rceil>)"

text \<open>An \<open>int\<close> compared with a \<open>uint\<close> is first converted to \<open>uint\<close> (modulo \<open>2^32\<close>).\<close>

definition uint_of_int :: "int \<Rightarrow> nat" where
  "uint_of_int i = nat (i mod 2 ^ 32)"

section \<open>Thread-group shared memory\<close>

text \<open>
  A \<open>groupshared T g[16][16]\<close> tile starts uninitialised and is shared by the threads
  of a group. It is modelled by the sequence of stores made to it, the latest first;
  a load reads the latest store to its index. An index outside \<open>[0,16)\<^sup>2\<close> and a load
  of an entry no store has reached are undefined in the shading language: they are
  errors of the model.
\<close>

datatype error = OutOfBounds int2 | Uninitialised int2

definition ebind :: "error + 'a \<Rightarrow> ('a \<Rightarrow> error + 'b) \<Rightarrow> error + 'b" where
  "ebind m f = (case m of Inl e \<Rightarrow> Inl e | Inr v \<Rightarrow> f v)"

fun efold :: "('a \<Rightarrow> 's \<Rightarrow> error + 's) \<Rightarrow> 'a list \<Rightarrow> 's \<Rightarrow> error + 's" where
  "efold f [] s = Inr s"
| "efold f (a # as) s = ebind (f a s) (efold f as)"

type_synonym 'a tile = "(int2 \<times> 'a) list"

definition in_tile :: "int2 \<Rightarrow> bool" where
  "in_tile idx = (0 \<le> fst idx \<and> fst idx < 16 \<and> 0 \<le> snd idx \<and> snd idx < 16)"

definition tile_load :: "'a tile \<Rightarrow> int2 \<Rightarrow> error + 'a" where
  "tile_load t idx =
     (if in_tile idx
      then (case map_of t idx of None \<Rightarrow> Inl (Uninitialised idx) | Some v \<Rightarrow> Inr v)
      else Inl (OutOfBounds idx))"

definition tile_store :: "'a tile \<Rightarrow> int2 \<Rightarrow> 'a \<Rightarrow> error + 'a tile" where
  "tile_store t idx v = (if in_tile idx then Inr ((idx, v) # t) else Inl (OutOfBounds idx))"

section \<open>What the headers take from outside\<close>

text \<open>
  Both headers include \<open>ffx_denoiser_reflections_common.h\<close>, which is not among the
  sources, and call the host's texture callbacks. Its constants, its macros and its
  kernel weight are the fields of \<open>config\<close>; the functions and callbacks that
  classify the roughness, read the current-frame inputs and project positions are the
  fields of \<open>env\<close>. Nothing is assumed about either beyond their types.
\<close>

record config =
  DISPATCH_OFFSET :: int2
  FFX_DNSR_REFLECTIONS_PREFILTER_NORMAL_SIGMA :: real
  FFX_DNSR_REFLECTIONS_PREFILTER_DEPTH_SIGMA :: real
  FFX_DNSR_REFLECTIONS_RADIANCE_WEIGHT_BIAS :: real
  FFX_DNSR_REFLECTIONS_RADIANCE_WEIGHT_VARIANCE_K :: real
  FFX_DNSR_REFLECTIONS_PREFILTER_VARIANCE_BIAS :: real
  FFX_DNSR_REFLECTIONS_PREFILTER_VARIANCE_WEIGHT :: real
  FFX_DNSR_REFLECTIONS_AVG_RADIANCE_LUMINANCE_WEIGHT :: real
  FFX_DNSR_REFLECTIONS_DISOCCLUSION_NORMAL_WEIGHT :: real
  FFX_DNSR_REFLECTIONS_DISOCCLUSION_DEPTH_WEIGHT :: real
  FFX_DNSR_REFLECTIONS_DISOCCLUSION_THRESHOLD :: real
  FFX_DNSR_REFLECTIONS_REPROJECTION_NORMAL_SIMILARITY_THRESHOLD :: real
  FFX_DNSR_REFLECTIONS_LOCAL_NEIGHBORHOOD_RADIUS :: int
  FFX_DNSR_REFLECTIONS_SAMPLES_FOR_ROUGHNESS :: "real \<Rightarrow> real"
  FFX_DNSR_Reflections_LocalNeighborhoodKernelWeight :: "int \<Rightarrow> real"
  SampleCountIntersection :: real

record env =
  FFX_DNSR_Reflections_LoadRoughness :: "int2 \<Rightarrow> real"
  FFX_DNSR_Reflections_LoadNeighborhood :: "int2 \<Rightarrow> int2 \<Rightarrow> float4 \<times> real \<times> float3 \<times> real"
  FFX_DNSR_Reflections_IsGlossyReflection :: "real \<Rightarrow> bool"
  FFX_DNSR_Reflections_IsMirrorReflection :: "real \<Rightarrow> bool"
  FFX_DNSR_Reflections_RoundUp8 :: "uint2 \<Rightarrow> uint2"
  FFX_DNSR_Reflections_SampleAverageRadiance :: "float2 \<Rightarrow> float4"
  FFX_DNSR_Reflections_LoadRadiance :: "int2 \<Rightarrow> float4"
  FFX_DNSR_Reflections_LoadRayLength :: "int2 \<Rightarrow> real"
  FFX_DNSR_Reflections_LoadDepth :: "int2 \<Rightarrow> real"
  FFX_DNSR_Reflections_LoadWorldSpaceNormal :: "int2 \<Rightarrow> float3"
  FFX_DNSR_Reflections_LoadMotionVector :: "int2 \<Rightarrow> float2"
  FFX_DNSR_Reflections_GetLinearDepth :: "float2 \<Rightarrow> real \<Rightarrow> real"
  FFX_DNSR_Reflections_Luminance :: "float3 \<Rightarrow> real"
  FFX_DNSR_Reflections_ComputeTemporalVariance :: "float3 \<Rightarrow> float3 \<Rightarrow> real"
  InvProjectPosition :: "float3 \<Rightarrow> float3"
  ProjectPosition :: "float3 \<Rightarrow> float3"
  g_vCameraPositionWs :: float3
  Dimensions :: float2
  InvDimensions :: float2
  Motion_Get :: "float2 \<Rightarrow> float2"

text \<open>
  The external textures the kernels can reach. A history texture is what its two read
  accesses return: \<open>load\<close> at a texel, \<open>sample\<close> (filtered) at a uv coordinate. An
  output texture is the map of the texels stored so far.
\<close>

record 'a texture =
  load :: "int2 \<Rightarrow> 'a"
  sample :: "float2 \<Rightarrow> 'a"

record textures =
  radiance_history :: "float4 texture"
  variance_history :: "real texture"
  num_samples_history :: "real texture"
  depth_history :: "real texture"
  normal_history :: "float3 texture"
  roughness_history :: "real texture"
  radiance_reprojected :: "int2 \<rightharpoonup> float4"
  variance_out :: "int2 \<rightharpoonup> real"
  num_samples_out :: "int2 \<rightharpoonup> real"
  average_radiance :: "int2 \<rightharpoonup> float4"
  prefiltered_reflections :: "int2 \<rightharpoonup> float4 \<times> real"

text \<open>
  Modelled from the spec: the history callbacks of the missing
  \<open>ffx_denoiser_reflections_common.h\<close>. Each reads the history texture it is named
  after, which the host owns and persists across frames.
\<close>

definition FFX_DNSR_Reflections_SampleRadianceHistory :: "textures \<Rightarrow> float2 \<Rightarrow> float4" where
  "FFX_DNSR_Reflections_SampleRadianceHistory tex uv = sample (radiance_history tex) uv"

definition FFX_DNSR_Reflections_SampleVarianceHistory :: "textures \<Rightarrow> float2 \<Rightarrow> real" where
  "FFX_DNSR_Reflections_SampleVarianceHistory tex uv = sample (variance_history tex) uv"

definition FFX_DNSR_Reflections_SampleNumSamplesHistory :: "textures \<Rightarrow> float2 \<Rightarrow> real" where
  "FFX_DNSR_Reflections_SampleNumSamplesHistory tex uv = sample (num_samples_history tex) uv"

definition FFX_DNSR_Reflections_SampleDepthHistory :: "textures \<Rightarrow> float2 \<Rightarrow> real" where
  "FFX_DNSR_Reflections_SampleDepthHistory tex uv = sample (depth_history tex) uv"

definition FFX_DNSR_Reflections_SampleWorldSpaceNormalHistory :: "textures \<Rightarrow> float2 \<Rightarrow> float3" where
  "FFX_DNSR_Reflections_SampleWorldSpaceNormalHistory tex uv = sample (normal_history tex) uv"

definition FFX_DNSR_Reflections_SampleRoughnessHistory :: "textures \<Rightarrow> float2 \<Rightarrow> real" where
  "FFX_DNSR_Reflections_SampleRoughnessHistory tex uv = sample (roughness_history tex) uv"

definition FFX_DNSR_Reflections_LoadWorldSpaceNormalHistory :: "textures \<Rightarrow> int2 \<Rightarrow> float3" where
  "FFX_DNSR_Reflections_LoadWorldSpaceNormalHistory tex p = load (normal_history tex) p"

definition FFX_DNSR_Reflections_LoadDepthHistory :: "textures \<Rightarrow> int2 \<Rightarrow> real" where
  "FFX_DNSR_Reflections_LoadDepthHistory tex p = load (depth_history tex) p"

text \<open>
  Modelled from the spec: the store callbacks of the missing
  \<open>ffx_denoiser_reflections_common.h\<close>. Each writes one texel of the output texture
  it is named after (reprojected radiance, variance, sample count, average radiance,
  prefiltered reflections), which the host consumes.
\<close>

definition FFX_DNSR_Reflections_StoreRadianceReprojected :: "int2 \<Rightarrow> float4 \<Rightarrow> textures \<Rightarrow> textures" where
  "FFX_DNSR_Reflections_StoreRadianceReprojected p v tex =
     tex\<lparr>radiance_reprojected := (radiance_reprojected tex)(p \<mapsto> v)\<rparr>"

definition FFX_DNSR_Reflections_StoreVariance :: "int2 \<Rightarrow> real \<Rightarrow> textures \<Rightarrow> textures" where
  "FFX_DNSR_Reflections_StoreVariance p v tex =
     tex\<lparr>variance_out := (variance_out tex)(p \<mapsto> v)\<rparr>"

definition FFX_DNSR_Reflections_StoreNumSamples :: "int2 \<Rightarrow> real \<Rightarrow> textures \<Rightarrow> textures" where
  "FFX_DNSR_Reflections_StoreNumSamples p v tex =
     tex\<lparr>num_samples_out := (num_samples_out tex)(p \<mapsto> v)\<rparr>"

definition FFX_DNSR_Reflections_StoreAverageRadiance :: "int2 \<Rightarrow> float4 \<Rightarrow> textures \<Rightarrow> textures" where
  "FFX_DNSR_Reflections_StoreAverageRadiance p v tex =
     tex\<lparr>average_radiance := (average_radiance tex)(p \<mapsto> v)\<rparr>"

definition FFX_DNSR_Reflections_StorePrefilteredReflections ::
  "int2 \<Rightarrow> float4 \<Rightarrow> real \<Rightarrow> textures \<Rightarrow> textures" where
  "FFX_DNSR_Reflections_StorePrefilteredReflections p radiance variance tex =
     tex\<lparr>prefiltered_reflections := (prefiltered_reflections tex)(p \<mapsto> (radiance, variance))\<rparr>"

text \<open>The implicit conversion of a \<open>uint2\<close> argument to an \<open>int2\<close> parameter.\<close>

definition int_of_uint :: "nat \<Rightarrow> int" where
  "int_of_uint n = (let m = int n mod 2 ^ 32 in if m < 2 ^ 31 then m else m - 2 ^ 32)"

definition int2_of_uint2 :: "uint2 \<Rightarrow> int2" where
  "int2_of_uint2 s = (int_of_uint (fst s), int_of_uint (snd s))"

section \<open>The prefilter kernel (ffx_denoiser_reflections_prefilter.h)\<close>

record shared_pf =
  g_ffx_dnsr_shared_0_pf :: "float4 tile"
  g_ffx_dnsr_shared_1_pf :: "float4 tile"
  g_ffx_dnsr_shared_depth_pf :: "real tile"

record NeighborhoodSample_pf =
  radiance_pf :: float4
  variance_pf :: real
  normal_pf :: float3
  depth_pf :: real

definition FFX_DNSR_Reflections_LoadFromGroupSharedMemory_pf ::
  "shared_pf \<Rightarrow> int2 \<Rightarrow> error + NeighborhoodSample_pf" where
  "FFX_DNSR_Reflections_LoadFromGroupSharedMemory_pf sh idx =
     ebind (tile_load (g_ffx_dnsr_shared_0_pf sh) idx) (\<lambda>unpacked_radiance.
     ebind (tile_load (g_ffx_dnsr_shared_1_pf sh) idx) (\<lambda>unpacked_normal_variance.
     ebind (tile_load (g_ffx_dnsr_shared_depth_pf sh) idx) (\<lambda>depth.
       Inr \<lparr>radiance_pf = unpacked_radiance,
            variance_pf = w4 unpacked_normal_variance,
            normal_pf = xyz unpacked_normal_variance,
            depth_pf = depth\<rparr>)))"

definition FFX_DNSR_Reflections_StoreInGroupSharedMemory_pf ::
  "shared_pf \<Rightarrow> int2 \<Rightarrow> float4 \<Rightarrow> real \<Rightarrow> float3 \<Rightarrow> real \<Rightarrow> error + shared_pf" where
  "FFX_DNSR_Reflections_StoreInGroupSharedMemory_pf sh group_thread_id radiance variance normal depth =
     ebind (tile_store (g_ffx_dnsr_shared_0_pf sh) group_thread_id radiance) (\<lambda>t0.
     ebind (tile_store (g_ffx_dnsr_shared_1_pf sh) group_thread_id (float4_of normal variance)) (\<lambda>t1.
     ebind (tile_store (g_ffx_dnsr_shared_depth_pf sh) group_thread_id depth) (\<lambda>td.
       Inr \<lparr>g_ffx_dnsr_shared_0_pf = t0, g_ffx_dnsr_shared_1_pf = t1,
            g_ffx_dnsr_shared_depth_pf = td\<rparr>)))"

text \<open>The four 8x8 blocks of the 16x16 region.\<close>

definition offset :: "int2 list" where
  "offset = [(0, 0), (8, 0), (0, 8), (8, 8)]"

text \<open>
  The first loop caches the four loads in registers, the second moves them to shared
  memory: \<open>map\<close> builds the registers, \<open>efold\<close> stores them in the order of \<open>offset\<close>.
\<close>

definition FFX_DNSR_Reflections_InitializeGroupSharedMemory_pf ::
  "config \<Rightarrow> env \<Rightarrow> shared_pf \<Rightarrow> int2 \<Rightarrow> int2 \<Rightarrow> int2 \<Rightarrow> error + shared_pf" where
  "FFX_DNSR_Reflections_InitializeGroupSharedMemory_pf cfg e sh dispatch_thread_id group_thread_id screen_size =
     (let dispatch_thread_id = sub_int2 dispatch_thread_id (DISPATCH_OFFSET cfg);
          registers = map (\<lambda>off. (off, FFX_DNSR_Reflections_LoadNeighborhood e
                                          (add_int2 dispatch_thread_id off) screen_size)) offset
      in efold (\<lambda>(off, radiance, variance, normal, depth) sh.
                  FFX_DNSR_Reflections_StoreInGroupSharedMemory_pf sh
                    (add_int2 group_thread_id off) radiance variance normal depth)
               registers sh)"

definition FFX_DNSR_Reflections_GetEdgeStoppingNormalWeight :: "config \<Rightarrow> float3 \<Rightarrow> float3 \<Rightarrow> real" where
  "FFX_DNSR_Reflections_GetEdgeStoppingNormalWeight cfg normal_p normal_q =
     max (dot normal_p normal_q) 0 powr FFX_DNSR_REFLECTIONS_PREFILTER_NORMAL_SIGMA cfg"

definition FFX_DNSR_Reflections_GetEdgeStoppingDepthWeight :: "config \<Rightarrow> real \<Rightarrow> real \<Rightarrow> real" where
  "FFX_DNSR_Reflections_GetEdgeStoppingDepthWeight cfg center_depth neighbor_depth =
     exp (- abs (center_depth - neighbor_depth) * center_depth
            * FFX_DNSR_REFLECTIONS_PREFILTER_DEPTH_SIGMA cfg)"

definition FFX_DNSR_Reflections_GetRadianceWeight :: "config \<Rightarrow> float4 \<Rightarrow> float4 \<Rightarrow> real \<Rightarrow> real" where
  "FFX_DNSR_Reflections_GetRadianceWeight cfg center_radiance neighbor_radiance variance =
     max (exp (- (FFX_DNSR_REFLECTIONS_RADIANCE_WEIGHT_BIAS cfg
                  + variance * FFX_DNSR_REFLECTIONS_RADIANCE_WEIGHT_VARIANCE_K cfg)
               * length3 (sub3 (xyz center_radiance) (xyz neighbor_radiance))))
         (1 / 100)"

text \<open>The first 15 numbers of Halton(2,3) stretched to [-3,3], without the center.\<close>

definition sample_offsets :: "int2 list" where
  "sample_offsets =
     [(0, 1), (-2, 1), (2, -3), (-3, 0), (1, 2), (-1, -2), (3, 0), (-3, 3),
      (0, -3), (-1, -1), (2, 1), (-2, -2), (1, 0), (0, 2), (3, -1)]"

text \<open>
  One iteration of the loop of \<open>Resolve\<close>, on the accumulators
  \<open>(accumulated_weight, accumulated_radiance, accumulated_variance)\<close>.
\<close>

definition Resolve_step ::
  "config \<Rightarrow> shared_pf \<Rightarrow> int2 \<Rightarrow> float4 \<Rightarrow> NeighborhoodSample_pf \<Rightarrow> real \<Rightarrow> int2
     \<Rightarrow> real \<times> float4 \<times> real \<Rightarrow> error + real \<times> float4 \<times> real" where
  "Resolve_step cfg sh group_thread_id avg_radiance center variance_weight off acc =
     (case acc of (accumulated_weight, accumulated_radiance, accumulated_variance) \<Rightarrow>
      let new_idx = add_int2 group_thread_id off
      in ebind (FFX_DNSR_Reflections_LoadFromGroupSharedMemory_pf sh new_idx) (\<lambda>neighbor.
         let weight = 1;
             weight = weight * FFX_DNSR_Reflections_GetEdgeStoppingNormalWeight cfg
                                 (normal_pf center) (normal_pf neighbor);
             weight = weight * FFX_DNSR_Reflections_GetEdgeStoppingDepthWeight cfg
                                 (depth_pf center) (depth_pf neighbor);
             weight = weight * FFX_DNSR_Reflections_GetRadianceWeight cfg avg_radiance
                                 (radiance_pf neighbor) (variance_pf center);
             weight = weight * variance_weight
         in Inr (accumulated_weight + weight,
                 accumulated_radiance + scale4 weight (radiance_pf neighbor),
                 accumulated_variance + weight * weight * variance_pf neighbor)))"

text \<open>The accumulators of \<open>Resolve\<close> before its loop and after it, before the division.\<close>

definition Resolve_init :: "config \<Rightarrow> float4 \<Rightarrow> NeighborhoodSample_pf \<Rightarrow> real \<times> float4 \<times> real" where
  "Resolve_init cfg avg_radiance center =
     (let accumulated_weight = FFX_DNSR_Reflections_GetRadianceWeight cfg avg_radiance
                                 (radiance_pf center) (variance_pf center);
          accumulated_radiance = scale4 accumulated_weight (radiance_pf center);
          accumulated_variance = variance_pf center * accumulated_weight * accumulated_weight
      in (accumulated_weight, accumulated_radiance, accumulated_variance))"

definition Resolve_accumulate ::
  "config \<Rightarrow> shared_pf \<Rightarrow> int2 \<Rightarrow> float4 \<Rightarrow> NeighborhoodSample_pf \<Rightarrow> error + real \<times> float4 \<times> real" where
  "Resolve_accumulate cfg sh group_thread_id avg_radiance center =
     (let variance_weight =
            max (FFX_DNSR_REFLECTIONS_PREFILTER_VARIANCE_BIAS cfg)
                (1 - exp (- (variance_pf center * FFX_DNSR_REFLECTIONS_PREFILTER_VARIANCE_WEIGHT cfg)))
      in efold (Resolve_step cfg sh group_thread_id avg_radiance center variance_weight)
               sample_offsets (Resolve_init cfg avg_radiance center))"

text \<open>\<open>Resolve\<close> returns \<open>(resolved_radiance, resolved_variance)\<close>, its two \<open>out\<close> parameters.\<close>

definition FFX_DNSR_Reflections_Resolve ::
  "config \<Rightarrow> shared_pf \<Rightarrow> int2 \<Rightarrow> float4 \<Rightarrow> NeighborhoodSample_pf \<Rightarrow> error + float4 \<times> real" where
  "FFX_DNSR_Reflections_Resolve cfg sh group_thread_id avg_radiance center =
     ebind (Resolve_accumulate cfg sh group_thread_id avg_radiance center)
       (\<lambda>(accumulated_weight, accumulated_radiance, accumulated_variance).
          let accumulated_radiance = div4 accumulated_radiance accumulated_weight;
              accumulated_variance = accumulated_variance / (accumulated_weight * accumulated_weight)
          in Inr (accumulated_radiance, accumulated_variance))"

text \<open>
  A kernel is the program of one thread. \<open>GroupMemoryBarrierWithGroupSync\<close> is where
  the stores of the other threads of the group become visible to it: the parameter
  \<open>barrier\<close> maps the number of the barrier and the shared memory as this thread left
  it to the shared memory it sees after the barrier.
\<close>

definition FFX_DNSR_Reflections_Prefilter ::
  "config \<Rightarrow> env \<Rightarrow> (nat \<Rightarrow> shared_pf \<Rightarrow> shared_pf) \<Rightarrow> textures \<Rightarrow> shared_pf
     \<Rightarrow> int2 \<Rightarrow> int2 \<Rightarrow> uint2 \<Rightarrow> error + textures \<times> shared_pf" where
  "FFX_DNSR_Reflections_Prefilter cfg e barrier tex sh dispatch_thread_id group_thread_id screen_size =
     (let center_roughness = FFX_DNSR_Reflections_LoadRoughness e dispatch_thread_id
      in ebind (FFX_DNSR_Reflections_InitializeGroupSharedMemory_pf cfg e sh dispatch_thread_id
                  group_thread_id (int2_of_uint2 screen_size)) (\<lambda>sh.
         let sh = barrier 0 sh;
             group_thread_id = add_int2 group_thread_id (4, 4)
         in ebind (FFX_DNSR_Reflections_LoadFromGroupSharedMemory_pf sh group_thread_id) (\<lambda>center.
            let resolved = (radiance_pf center, variance_pf center);
                needs_denoiser = (variance_pf center > 0
                   \<and> FFX_DNSR_Reflections_IsGlossyReflection e center_roughness
                   \<and> \<not> FFX_DNSR_Reflections_IsMirrorReflection e center_roughness)
            in ebind (if needs_denoiser
                      then (let uv8 = div2 (add2 (float2_of_int2 dispatch_thread_id) (float2 (1/2) (1/2)))
                                           (float2_of_uint2 (FFX_DNSR_Reflections_RoundUp8 e screen_size));
                                avg_radiance = FFX_DNSR_Reflections_SampleAverageRadiance e uv8
                            in FFX_DNSR_Reflections_Resolve cfg sh group_thread_id avg_radiance center)
                      else Inr resolved) (\<lambda>(resolved_radiance, resolved_variance).
               Inr (FFX_DNSR_Reflections_StorePrefilteredReflections dispatch_thread_id
                      resolved_radiance resolved_variance tex, sh)))))"

section \<open>The reprojection kernel (ffx_denoiser_reflections_reproject.h)\<close>

record shared_rp =
  g_ffx_dnsr_shared_0_rp :: "float4 tile"
  g_ffx_dnsr_shared_1_rp :: "real tile"

record NeighborhoodSample_rp =
  radiance_rp :: float4

definition FFX_DNSR_Reflections_LoadFromGroupSharedMemory_rp ::
  "shared_rp \<Rightarrow> int2 \<Rightarrow> error + NeighborhoodSample_rp" where
  "FFX_DNSR_Reflections_LoadFromGroupSharedMemory_rp sh idx =
     ebind (tile_load (g_ffx_dnsr_shared_0_rp sh) idx) (\<lambda>unpacked_radiance.
       Inr \<lparr>radiance_rp = unpacked_radiance\<rparr>)"

text \<open>The third parameter \<open>flWeight\<close> has the default value 0.\<close>

definition FFX_DNSR_Reflections_StoreInGroupSharedMemory_rp ::
  "shared_rp \<Rightarrow> int2 \<Rightarrow> float4 \<Rightarrow> real \<Rightarrow> error + shared_rp" where
  "FFX_DNSR_Reflections_StoreInGroupSharedMemory_rp sh group_thread_id radiance_variance flWeight =
     ebind (tile_store (g_ffx_dnsr_shared_0_rp sh) group_thread_id radiance_variance) (\<lambda>t0.
     ebind (tile_store (g_ffx_dnsr_shared_1_rp sh) group_thread_id flWeight) (\<lambda>t1.
       Inr \<lparr>g_ffx_dnsr_shared_0_rp = t0, g_ffx_dnsr_shared_1_rp = t1\<rparr>))"

definition FFX_DNSR_Reflections_InitializeGroupSharedMemory_rp ::
  "config \<Rightarrow> env \<Rightarrow> shared_rp \<Rightarrow> int2 \<Rightarrow> int2 \<Rightarrow> int2 \<Rightarrow> error + shared_rp" where
  "FFX_DNSR_Reflections_InitializeGroupSharedMemory_rp cfg e sh dispatch_thread_id group_thread_id screen_size =
     (let dispatch_thread_id = sub_int2 dispatch_thread_id (DISPATCH_OFFSET cfg);
          registers = map (\<lambda>off. (off, FFX_DNSR_Reflections_LoadRadiance e
                                          (add_int2 dispatch_thread_id off))) offset
      in efold (\<lambda>(off, radiance) sh.
                  FFX_DNSR_Reflections_StoreInGroupSharedMemory_rp sh
                    (add_int2 group_thread_id off) radiance 0)
               registers sh)"

definition FFX_DNSR_Reflections_LoadFromGroupSharedMemoryRaw :: "shared_rp \<Rightarrow> int2 \<Rightarrow> error + float4" where
  "FFX_DNSR_Reflections_LoadFromGroupSharedMemoryRaw sh idx = tile_load (g_ffx_dnsr_shared_0_rp sh) idx"

definition FFX_DNSR_Reflections_GetLuminanceWeight :: "config \<Rightarrow> env \<Rightarrow> float3 \<Rightarrow> real" where
  "FFX_DNSR_Reflections_GetLuminanceWeight cfg e val =
     (let luma = FFX_DNSR_Reflections_Luminance e val;
          weight = max (exp (- luma * FFX_DNSR_REFLECTIONS_AVG_RADIANCE_LUMINANCE_WEIGHT cfg)) (1 / 100)
      in weight)"

definition FFX_DNSR_Reflections_GetHitPositionReprojection ::
  "env \<Rightarrow> int2 \<Rightarrow> float2 \<Rightarrow> real \<Rightarrow> float2" where
  "FFX_DNSR_Reflections_GetHitPositionReprojection e dispatch_thread_id uv reflected_ray_length =
     (let z = FFX_DNSR_Reflections_LoadDepth e dispatch_thread_id;
          view_space_ray = InvProjectPosition e (float3 (x2 uv) (y2 uv) z);
          surface_depth = length3 view_space_ray;
          ray_length = surface_depth + reflected_ray_length;
          view_space_ray = normalize view_space_ray;
          vHitPositionWs = add3 (g_vCameraPositionWs e) (scale3 ray_length view_space_ray);
          projected = ProjectPosition e vHitPositionWs;
          vHitPositionSs = mul2 (float2 (x3 projected) (y3 projected)) (Dimensions e)
      in mul2 (Motion_Get e (add2 vHitPositionSs (float2 (1/2) (1/2)))) (InvDimensions e))"

definition FFX_DNSR_Reflections_GetDisocclusionFactor ::
  "config \<Rightarrow> float3 \<Rightarrow> float3 \<Rightarrow> real \<Rightarrow> real \<Rightarrow> real" where
  "FFX_DNSR_Reflections_GetDisocclusionFactor cfg normal history_normal linear_depth history_linear_depth =
     (let normalWeight = FFX_DNSR_REFLECTIONS_DISOCCLUSION_NORMAL_WEIGHT cfg;
          depthWeight = FFX_DNSR_REFLECTIONS_DISOCCLUSION_DEPTH_WEIGHT cfg;
          depthWeight = depthWeight * saturate (1 - linear_depth * (1 / 100));
          factor = 1
                   * exp (- abs (1 - max 0 (dot normal history_normal)) * normalWeight)
                   * exp (- abs (history_linear_depth - linear_depth) / linear_depth * depthWeight)
      in factor)"

record Moments =
  mean :: float4
  variance :: float4

text \<open>
  The body of the inner loop of \<open>EstimateLocalNeighborhoodInGroup\<close>, on
  \<open>(accumulated_weight, estimate.mean, estimate.variance)\<close>.
\<close>

definition Estimate_step ::
  "config \<Rightarrow> shared_rp \<Rightarrow> int2 \<Rightarrow> int \<Rightarrow> int \<Rightarrow> real \<times> float4 \<times> float4
     \<Rightarrow> error + real \<times> float4 \<times> float4" where
  "Estimate_step cfg sh group_thread_id j i acc =
     (case acc of (accumulated_weight, estimate_mean, estimate_variance) \<Rightarrow>
      let new_idx = add_int2 group_thread_id (i, j)
      in ebind (FFX_DNSR_Reflections_LoadFromGroupSharedMemory_rp sh new_idx) (\<lambda>smp.
         let radiance = radiance_rp smp;
             weight = FFX_DNSR_Reflections_LocalNeighborhoodKernelWeight cfg i
                      * FFX_DNSR_Reflections_LocalNeighborhoodKernelWeight cfg j
         in Inr (accumulated_weight + weight,
                 estimate_mean + scale4 weight radiance,
                 estimate_variance + scale4 weight (mul4 radiance radiance))))"

definition FFX_DNSR_Reflections_EstimateLocalNeighborhoodInGroup ::
  "config \<Rightarrow> shared_rp \<Rightarrow> int2 \<Rightarrow> error + Moments" where
  "FFX_DNSR_Reflections_EstimateLocalNeighborhoodInGroup cfg sh group_thread_id =
     (let R = FFX_DNSR_REFLECTIONS_LOCAL_NEIGHBORHOOD_RADIUS cfg
      in ebind (efold (\<lambda>j. efold (Estimate_step cfg sh group_thread_id j) [- R .. R])
                  [- R .. R] (0, 0, 0))
           (\<lambda>(accumulated_weight, estimate_mean, estimate_variance).
              let estimate_mean = div4 estimate_mean accumulated_weight;
                  estimate_variance = div4 estimate_variance accumulated_weight;
                  estimate_variance = abs4 (sub4 estimate_variance (mul4 estimate_mean estimate_mean))
              in Inr \<lparr>mean = estimate_mean, variance = estimate_variance\<rparr>))"

definition GetContactHardenedRadiance :: "env \<Rightarrow> int2 \<Rightarrow> float4" where
  "GetContactHardenedRadiance e dispatch_thread_id =
     (let radiance = FFX_DNSR_Reflections_LoadRadiance e dispatch_thread_id;
          flRayLength = FFX_DNSR_Reflections_LoadRayLength e dispatch_thread_id
      in radiance)"

definition GetContactHardenedRadianceHistory :: "textures \<Rightarrow> float2 \<Rightarrow> float4" where
  "GetContactHardenedRadianceHistory tex vUV =
     (let radiance = FFX_DNSR_Reflections_SampleRadianceHistory tex vUV in radiance)"

text \<open>
  \<open>PickReprojection\<close> in its three stages. The first (up to the early out) chooses
  between the hit and the surface reprojection and returns
  \<open>(disocclusion_factor, reprojection_uv, reprojection)\<close> with \<open>normal\<close> and
  \<open>linear_depth\<close>, which the later stages read.
\<close>

definition PickReprojection_choose ::
  "config \<Rightarrow> env \<Rightarrow> textures \<Rightarrow> int2 \<Rightarrow> uint2 \<Rightarrow> real \<Rightarrow> real
     \<Rightarrow> (real \<times> float2 \<times> float4) \<times> float3 \<times> real" where
  "PickReprojection_choose cfg e tex dispatch_thread_id screen_size roughness ray_length =
     (let uv = div2 (float2 (real_of_int (fst dispatch_thread_id) + 1/2)
                            (real_of_int (snd dispatch_thread_id) + 1/2))
                    (float2_of_uint2 screen_size);
          normal = FFX_DNSR_Reflections_LoadWorldSpaceNormal e dispatch_thread_id;
          surface_reprojection_uv = FFX_DNSR_Reflections_LoadMotionVector e dispatch_thread_id;
          hit_reprojection_uv = FFX_DNSR_Reflections_GetHitPositionReprojection e dispatch_thread_id uv ray_length;
          surface_normal = FFX_DNSR_Reflections_SampleWorldSpaceNormalHistory tex surface_reprojection_uv;
          hit_normal = FFX_DNSR_Reflections_SampleWorldSpaceNormalHistory tex hit_reprojection_uv;
          surface_history = GetContactHardenedRadianceHistory tex surface_reprojection_uv;
          hit_history = GetContactHardenedRadianceHistory tex hit_reprojection_uv;
          hit_normal_similarity = dot (normalize hit_normal) (normalize normal);
          surface_normal_similarity = dot (normalize surface_normal) (normalize normal);
          hit_roughness = FFX_DNSR_Reflections_SampleRoughnessHistory tex hit_reprojection_uv;
          surface_roughness = FFX_DNSR_Reflections_SampleRoughnessHistory tex surface_reprojection_uv;
          (history_normal, history_linear_depth, reprojection_uv, reprojection) =
            (if hit_normal_similarity > FFX_DNSR_REFLECTIONS_REPROJECTION_NORMAL_SIMILARITY_THRESHOLD cfg
                \<and> hit_normal_similarity + 1 / 1000 > surface_normal_similarity
             then (let hit_history_depth = FFX_DNSR_Reflections_SampleDepthHistory tex hit_reprojection_uv;
                       hit_history_linear_depth =
                         FFX_DNSR_Reflections_GetLinearDepth e hit_reprojection_uv hit_history_depth
                   in (hit_normal, hit_history_linear_depth, hit_reprojection_uv, hit_history))
             else (let surface_history_depth = FFX_DNSR_Reflections_SampleDepthHistory tex surface_reprojection_uv;
                       surface_history_linear_depth =
                         FFX_DNSR_Reflections_GetLinearDepth e surface_reprojection_uv surface_history_depth
                   in (surface_normal, surface_history_linear_depth, surface_reprojection_uv, surface_history)));
          depth = FFX_DNSR_Reflections_LoadDepth e dispatch_thread_id;
          linear_depth = FFX_DNSR_Reflections_GetLinearDepth e uv depth;
          disocclusion_factor =
            FFX_DNSR_Reflections_GetDisocclusionFactor cfg normal history_normal linear_depth history_linear_depth
      in ((disocclusion_factor, reprojection_uv, reprojection), normal, linear_depth))"

definition spiral_offsets :: "int2 list" where
  "spiral_offsets = [(1, 0), (1, 1), (0, 1), (-1, 1), (-1, 0), (-1, -1), (0, -1), (1, -1)]"

text \<open>
  The body of the spiral search, on \<open>(disocclusion_factor, closest_uv, reprojection_uv)\<close>.
  The offsets are taken from the current \<open>reprojection_uv\<close>, which the body itself moves.
\<close>

definition search_step ::
  "config \<Rightarrow> env \<Rightarrow> textures \<Rightarrow> float3 \<Rightarrow> real \<Rightarrow> float2 \<Rightarrow> int \<Rightarrow> int2
     \<Rightarrow> real \<times> float2 \<times> float2 \<Rightarrow> real \<times> float2 \<times> float2" where
  "search_step cfg e tex normal linear_depth dudv r off st =
     (case st of (disocclusion_factor, closest_uv, reprojection_uv) \<Rightarrow>
      let uv = add2 reprojection_uv (mul2 (float2_of_int2 (fst off * r, snd off * r)) dudv);
          history_normal = FFX_DNSR_Reflections_SampleWorldSpaceNormalHistory tex uv;
          history_depth = FFX_DNSR_Reflections_SampleDepthHistory tex uv;
          history_linear_depth = FFX_DNSR_Reflections_GetLinearDepth e uv history_depth;
          weight = FFX_DNSR_Reflections_GetDisocclusionFactor cfg normal history_normal linear_depth history_linear_depth
      in if weight > disocclusion_factor then (weight, uv, uv)
         else (disocclusion_factor, closest_uv, reprojection_uv))"

text \<open>The second stage: the search in the vicinity, entered below the threshold.\<close>

definition PickReprojection_search ::
  "config \<Rightarrow> env \<Rightarrow> textures \<Rightarrow> uint2 \<Rightarrow> real \<Rightarrow> float3 \<Rightarrow> real
     \<Rightarrow> real \<times> float2 \<times> float4 \<Rightarrow> real \<times> float2 \<times> float4" where
  "PickReprojection_search cfg e tex screen_size roughness normal linear_depth st =
     (case st of (disocclusion_factor, reprojection_uv, reprojection) \<Rightarrow>
      let closest_uv = reprojection_uv;
          dudv = float2 (1 / real (fst screen_size)) (1 / real (snd screen_size));
          base_search_radius = 1;
          rough_search_radius = (if roughness > 1/2 then 2 else base_search_radius);
          (disocclusion_factor, closest_uv, reprojection_uv) =
            fold (\<lambda>r. fold (search_step cfg e tex normal linear_depth dudv r) spiral_offsets)
                 [1 .. rough_search_radius] (disocclusion_factor, closest_uv, reprojection_uv);
          reprojection = GetContactHardenedRadianceHistory tex reprojection_uv
      in (disocclusion_factor, reprojection_uv, reprojection))"

text \<open>The third stage: the 2x2 interpolation neighbourhood, entered below the threshold.\<close>

definition PickReprojection_bilinear ::
  "config \<Rightarrow> env \<Rightarrow> textures \<Rightarrow> uint2 \<Rightarrow> float3 \<Rightarrow> real
     \<Rightarrow> real \<times> float2 \<times> float4 \<Rightarrow> real \<times> float2 \<times> float4" where
  "PickReprojection_bilinear cfg e tex screen_size normal linear_depth st =
     (case st of (disocclusion_factor, reprojection_uv, reprojection) \<Rightarrow>
      let uvx = frac (real (fst screen_size) * x2 reprojection_uv + 1/2);
          uvy = frac (real (snd screen_size) * y2 reprojection_uv + 1/2);
          reproject_texel_coords =
            (int_of_float (real (fst screen_size) * x2 reprojection_uv - 1/2),
             int_of_float (real (snd screen_size) * y2 reprojection_uv - 1/2));
          reprojection00 = GetContactHardenedRadiance e (add_int2 reproject_texel_coords (0, 0));
          reprojection10 = GetContactHardenedRadiance e (add_int2 reproject_texel_coords (1, 0));
          reprojection01 = GetContactHardenedRadiance e (add_int2 reproject_texel_coords (0, 1));
          reprojection11 = GetContactHardenedRadiance e (add_int2 reproject_texel_coords (1, 1));
          normal00 = FFX_DNSR_Reflections_LoadWorldSpaceNormalHistory tex (add_int2 reproject_texel_coords (0, 0));
          normal10 = FFX_DNSR_Reflections_LoadWorldSpaceNormalHistory tex (add_int2 reproject_texel_coords (1, 0));
          normal01 = FFX_DNSR_Reflections_LoadWorldSpaceNormalHistory tex (add_int2 reproject_texel_coords (0, 1));
          normal11 = FFX_DNSR_Reflections_LoadWorldSpaceNormalHistory tex (add_int2 reproject_texel_coords (1, 1));
          depth00 = FFX_DNSR_Reflections_GetLinearDepth e reprojection_uv
                      (FFX_DNSR_Reflections_LoadDepthHistory tex (add_int2 reproject_texel_coords (0, 0)));
          depth10 = FFX_DNSR_Reflections_GetLinearDepth e reprojection_uv
                      (FFX_DNSR_Reflections_LoadDepthHistory tex (add_int2 reproject_texel_coords (1, 0)));
          depth01 = FFX_DNSR_Reflections_GetLinearDepth e reprojection_uv
                      (FFX_DNSR_Reflections_LoadDepthHistory tex (add_int2 reproject_texel_coords (0, 1)));
          depth11 = FFX_DNSR_Reflections_GetLinearDepth e reprojection_uv
                      (FFX_DNSR_Reflections_LoadDepthHistory tex (add_int2 reproject_texel_coords (1, 1)));
          half_threshold = FFX_DNSR_REFLECTIONS_DISOCCLUSION_THRESHOLD cfg / 2;
          wx = (if FFX_DNSR_Reflections_GetDisocclusionFactor cfg normal normal00 linear_depth depth00
                     > half_threshold then 1 else 0);
          wy = (if FFX_DNSR_Reflections_GetDisocclusionFactor cfg normal normal10 linear_depth depth10
                     > half_threshold then 1 else 0);
          wz = (if FFX_DNSR_Reflections_GetDisocclusionFactor cfg normal normal01 linear_depth depth01
                     > half_threshold then 1 else 0);
          ww = (if FFX_DNSR_Reflections_GetDisocclusionFactor cfg normal normal11 linear_depth depth11
                     > half_threshold then 1 else 0);
          wx = wx * (1 - uvx) * (1 - uvy);
          wy = wy * uvx * (1 - uvy);
          wz = wz * (1 - uvx) * uvy;
          ww = ww * uvx * uvy;
          ws = max (wx + wy + wz + ww) (1 / 1000);
          wx = wx / ws;
          wy = wy / ws;
          wz = wz / ws;
          ww = ww / ws;
          reprojection = scale4 wx reprojection00 + scale4 wy reprojection10
                         + scale4 wz reprojection01 + scale4 ww reprojection11;
          history_linear_depth = depth00 * wx + depth10 * wy + depth01 * wz + depth11 * ww;
          history_normal = add3 (add3 (add3 (scale3 wx normal00) (scale3 wy normal10))
                                      (scale3 wz normal01)) (scale3 ww normal11);
          disocclusion_factor =
            FFX_DNSR_Reflections_GetDisocclusionFactor cfg normal history_normal linear_depth history_linear_depth
      in (disocclusion_factor, reprojection_uv, reprojection))"

text \<open>
  \<open>PickReprojection\<close> returns its three \<open>out\<close> parameters
  \<open>(disocclusion_factor, reprojection_uv, reprojection)\<close>. The local neighbourhood
  estimate is computed first, as in the source, and not used afterwards.
\<close>

definition FFX_DNSR_Reflections_PickReprojection ::
  "config \<Rightarrow> env \<Rightarrow> textures \<Rightarrow> shared_rp \<Rightarrow> int2 \<Rightarrow> int2 \<Rightarrow> uint2 \<Rightarrow> real \<Rightarrow> real
     \<Rightarrow> error + real \<times> float2 \<times> float4" where
  "FFX_DNSR_Reflections_PickReprojection cfg e tex sh dispatch_thread_id group_thread_id screen_size
       roughness ray_length =
     ebind (FFX_DNSR_Reflections_EstimateLocalNeighborhoodInGroup cfg sh group_thread_id)
       (\<lambda>local_neighborhood.
        case PickReprojection_choose cfg e tex dispatch_thread_id screen_size roughness ray_length of
          (st, normal, linear_depth) \<Rightarrow>
        if fst st > FFX_DNSR_REFLECTIONS_DISOCCLUSION_THRESHOLD cfg then Inr st
        else
          let st = (if fst st < FFX_DNSR_REFLECTIONS_DISOCCLUSION_THRESHOLD cfg
                    then PickReprojection_search cfg e tex screen_size roughness normal linear_depth st
                    else st);
              st = (if fst st < FFX_DNSR_REFLECTIONS_DISOCCLUSION_THRESHOLD cfg
                    then PickReprojection_bilinear cfg e tex screen_size normal linear_depth st
                    else st);
              disocclusion_factor =
                (if fst st < FFX_DNSR_REFLECTIONS_DISOCCLUSION_THRESHOLD cfg then 0 else fst st)
          in Inr (disocclusion_factor, fst (snd st), snd (snd st)))"

text \<open>
  The glossy branch of \<open>Reproject\<close> (the body of its first \<open>if\<close>): it stores the
  reprojected radiance, the variance and the sample count of the pixel and returns the
  textures with the radiance that goes into the average.
\<close>

definition Reproject_glossy ::
  "config \<Rightarrow> env \<Rightarrow> textures \<Rightarrow> shared_rp \<Rightarrow> int2 \<Rightarrow> int2 \<Rightarrow> uint2 \<Rightarrow> int
     \<Rightarrow> real \<Rightarrow> real \<Rightarrow> float4 \<Rightarrow> error + textures \<times> float4" where
  "Reproject_glossy cfg e tex sh dispatch_thread_id group_thread_id screen_size max_samples
       roughness ray_length radiance =
     ebind (FFX_DNSR_Reflections_PickReprojection cfg e tex sh dispatch_thread_id group_thread_id
              screen_size roughness ray_length)
       (\<lambda>(disocclusion_factor, reprojection_uv, reprojection).
        let prev_variance = FFX_DNSR_Reflections_SampleVarianceHistory tex reprojection_uv;
            num_samples = FFX_DNSR_Reflections_SampleNumSamplesHistory tex reprojection_uv * disocclusion_factor;
            s_max_samples = max 8 (real_of_int max_samples
                                   * FFX_DNSR_REFLECTIONS_SAMPLES_FOR_ROUGHNESS cfg roughness);
            num_samples = min s_max_samples (num_samples + SampleCountIntersection cfg);
            num_samples = max 1 num_samples;
            new_variance = FFX_DNSR_Reflections_ComputeTemporalVariance e (xyz radiance) (xyz reprojection)
        in if disocclusion_factor < FFX_DNSR_REFLECTIONS_DISOCCLUSION_THRESHOLD cfg
           then (let tex = FFX_DNSR_Reflections_StoreRadianceReprojected dispatch_thread_id (float4 0 0 0 0) tex;
                     tex = FFX_DNSR_Reflections_StoreVariance dispatch_thread_id 1 tex;
                     tex = FFX_DNSR_Reflections_StoreNumSamples dispatch_thread_id 1 tex
                 in Inr (tex, radiance))
           else (let variance_mix = lerp new_variance prev_variance (1 / num_samples);
                     tex = FFX_DNSR_Reflections_StoreRadianceReprojected dispatch_thread_id reprojection tex;
                     tex = FFX_DNSR_Reflections_StoreVariance dispatch_thread_id variance_mix tex;
                     tex = FFX_DNSR_Reflections_StoreNumSamples dispatch_thread_id num_samples tex;
                     radiance = set_xyz radiance (lerp3 (xyz radiance) (xyz reprojection) (3 / 10))
                 in Inr (tex, radiance)))"

text \<open>
  One round of the 8x8 to 1 downsampling, for the step \<open>i\<close>; the barrier that ends the
  round has the number \<open>k\<close>.
\<close>

definition Reproject_downsample ::
  "(nat \<Rightarrow> shared_rp \<Rightarrow> shared_rp) \<Rightarrow> int2 \<Rightarrow> nat \<times> int \<Rightarrow> shared_rp \<Rightarrow> error + shared_rp" where
  "Reproject_downsample barrier group_thread_id ki sh =
     (case ki of (k, i) \<Rightarrow>
      let ox = fst group_thread_id * i;
          oy = snd group_thread_id * i;
          ix = fst group_thread_id * i + i div 2;
          iy = snd group_thread_id * i + i div 2
      in ebind (if ix < 8 \<and> iy < 8
                then ebind (FFX_DNSR_Reflections_LoadFromGroupSharedMemoryRaw sh (ox, oy)) (\<lambda>rad_weight00.
                     ebind (FFX_DNSR_Reflections_LoadFromGroupSharedMemoryRaw sh (ox, iy)) (\<lambda>rad_weight10.
                     ebind (FFX_DNSR_Reflections_LoadFromGroupSharedMemoryRaw sh (ix, oy)) (\<lambda>rad_weight01.
                     ebind (FFX_DNSR_Reflections_LoadFromGroupSharedMemoryRaw sh (ix, iy)) (\<lambda>rad_weight11.
                     let sumColor = rad_weight00 + rad_weight01 + rad_weight10 + rad_weight11
                     in ebind (tile_load (g_ffx_dnsr_shared_1_rp sh) (ox, oy)) (\<lambda>w00.
                        ebind (tile_load (g_ffx_dnsr_shared_1_rp sh) (ix, oy)) (\<lambda>w01.
                        ebind (tile_load (g_ffx_dnsr_shared_1_rp sh) (ox, iy)) (\<lambda>w10.
                        ebind (tile_load (g_ffx_dnsr_shared_1_rp sh) (ix, iy)) (\<lambda>w11.
                        let sumWeight = w00 + w01 + w10 + w11
                        in FFX_DNSR_Reflections_StoreInGroupSharedMemory_rp sh (ox, oy) sumColor sumWeight))))))))
                else Inr sh)
           (\<lambda>sh. Inr (barrier k sh)))"

text \<open>Integer division of the shading language rounds towards zero.\<close>

definition int_div :: "int \<Rightarrow> int \<Rightarrow> int" where
  "int_div a b = sgn a * sgn b * (abs a div abs b)"

text \<open>
  The kernel of one thread. The loop \<open>for (i = 2; i <= 8; i = i * 2)\<close> runs for
  \<open>i = 2, 4, 8\<close>; its rounds end with the barriers 2, 3 and 4. The parameter
  \<open>temporal_stability_factor\<close> is not read by the source.
\<close>

definition FFX_DNSR_Reflections_Reproject ::
  "config \<Rightarrow> env \<Rightarrow> (nat \<Rightarrow> shared_rp \<Rightarrow> shared_rp) \<Rightarrow> textures \<Rightarrow> shared_rp
     \<Rightarrow> int2 \<Rightarrow> int2 \<Rightarrow> uint2 \<Rightarrow> real \<Rightarrow> int \<Rightarrow> error + textures \<times> shared_rp" where
  "FFX_DNSR_Reflections_Reproject cfg e barrier tex sh dispatch_thread_id group_thread_id screen_size
       temporal_stability_factor max_samples =
     ebind (FFX_DNSR_Reflections_InitializeGroupSharedMemory_rp cfg e sh dispatch_thread_id
              group_thread_id (int2_of_uint2 screen_size)) (\<lambda>sh.
     let sh = barrier 0 sh;
         group_thread_id = add_int2 group_thread_id (4, 4);
         roughness = FFX_DNSR_Reflections_LoadRoughness e dispatch_thread_id;
         normal = FFX_DNSR_Reflections_LoadWorldSpaceNormal e dispatch_thread_id;
         radiance = GetContactHardenedRadiance e dispatch_thread_id;
         ray_length = FFX_DNSR_Reflections_LoadRayLength e dispatch_thread_id
     in ebind (if FFX_DNSR_Reflections_IsGlossyReflection e roughness
               then Reproject_glossy cfg e tex sh dispatch_thread_id group_thread_id screen_size
                      max_samples roughness ray_length radiance
               else Inr (tex, radiance)) (\<lambda>(tex, radiance).
        let weight = FFX_DNSR_Reflections_GetLuminanceWeight cfg e (xyz radiance);
            radiance = set_xyz radiance (scale3 weight (xyz radiance));
            (radiance, weight) =
              (if (uint_of_int (fst dispatch_thread_id) \<ge> fst screen_size
                   \<or> uint_of_int (snd dispatch_thread_id) \<ge> snd screen_size)
                  \<or> weight > 1000
               then (float4 0 0 0 0, 0) else (radiance, weight));
            group_thread_id = sub_int2 group_thread_id (4, 4)
        in ebind (FFX_DNSR_Reflections_StoreInGroupSharedMemory_rp sh group_thread_id radiance weight) (\<lambda>sh.
           let sh = barrier 1 sh
           in ebind (efold (Reproject_downsample barrier group_thread_id) [(2, 2), (3, 4), (4, 8)] sh) (\<lambda>sh.
              if group_thread_id = (0, 0)
              then ebind (FFX_DNSR_Reflections_LoadFromGroupSharedMemoryRaw sh (0, 0)) (\<lambda>sumColor.
                   ebind (tile_load (g_ffx_dnsr_shared_1_rp sh) (0, 0)) (\<lambda>sumWeight.
                   let weight_acc = max sumWeight (1 / 1000);
                       radiance_avg = div4 sumColor weight_acc;
                       radiance_avg = float4 (x4 radiance_avg) (y4 radiance_avg) (z4 radiance_avg)
                                        (saturate (w4 radiance_avg))
                   in Inr (FFX_DNSR_Reflections_StoreAverageRadiance
                             (int_div (fst dispatch_thread_id) 8, int_div (snd dispatch_thread_id) 8)
                             radiance_avg tex, sh)))
              else Inr (tex, sh)))))"

section \<open>The moments of a neighbourhood, as the specification words them\<close>

text \<open>
  The weight of the neighbour at offset \<open>(i, j)\<close>, the accumulated weight of the
  \<open>(2R+1)\<^sup>2\<close> neighbourhood, and the average of a quantity \<open>q\<close> of the neighbours
  under these weights, normalised by the accumulated weight.
\<close>

definition kernel_weight :: "config \<Rightarrow> int \<Rightarrow> int \<Rightarrow> real" where
  "kernel_weight cfg i j =
     FFX_DNSR_Reflections_LocalNeighborhoodKernelWeight cfg i
     * FFX_DNSR_Reflections_LocalNeighborhoodKernelWeight cfg j"

definition accumulated_kernel_weight :: "config \<Rightarrow> real" where
  "accumulated_kernel_weight cfg =
     (let R = FFX_DNSR_REFLECTIONS_LOCAL_NEIGHBORHOOD_RADIUS cfg
      in (\<Sum>j \<in> {- R .. R}. \<Sum>i \<in> {- R .. R}. kernel_weight cfg i j))"

definition weighted_average :: "config \<Rightarrow> (int \<Rightarrow> int \<Rightarrow> float4) \<Rightarrow> float4" where
  "weighted_average cfg q =
     (let R = FFX_DNSR_REFLECTIONS_LOCAL_NEIGHBORHOOD_RADIUS cfg
      in div4 (\<Sum>j \<in> {- R .. R}. \<Sum>i \<in> {- R .. R}. scale4 (kernel_weight cfg i j) (q i j))
              (accumulated_kernel_weight cfg))"

section \<open>The thread group\<close>

text \<open>
  Modelled from the spec: the size of a thread group, which the entry-point shaders
  declare; they are not among the sources. A group has 8x8 threads, as the headers
  assume: the downsampling of \<open>Reproject\<close> reduces \<open>8x8 -> 1\<close> and
  \<open>InitializeGroupSharedMemory\<close> loads the 16x16 region in four 8x8 blocks. Between
  two barriers the threads of a group run in an order that is not fixed; a group run of
  \<open>InitializeGroupSharedMemory\<close> lets the threads of a list \<open>ts\<close> run one after the
  other, every thread \<open>t\<close> of the group with its own \<open>dispatch_thread_id\<close>, \<open>dtid t\<close>.
\<close>

definition thread_group :: "int2 list" where
  "thread_group = concat (map (\<lambda>y. map (\<lambda>x. (x, y)) [0 .. 7]) [0 .. 7])"

definition empty_shared_pf :: shared_pf where
  "empty_shared_pf = \<lparr>g_ffx_dnsr_shared_0_pf = [], g_ffx_dnsr_shared_1_pf = [],
                      g_ffx_dnsr_shared_depth_pf = []\<rparr>"

definition empty_shared_rp :: shared_rp where
  "empty_shared_rp = \<lparr>g_ffx_dnsr_shared_0_rp = [], g_ffx_dnsr_shared_1_rp = []\<rparr>"

definition group_Initialize_pf ::
  "config \<Rightarrow> env \<Rightarrow> (int2 \<Rightarrow> int2) \<Rightarrow> int2 \<Rightarrow> int2 list \<Rightarrow> error + shared_pf" where
  "group_Initialize_pf cfg e dtid screen_size ts =
     efold (\<lambda>t sh. FFX_DNSR_Reflections_InitializeGroupSharedMemory_pf cfg e sh (dtid t) t screen_size)
           ts empty_shared_pf"

definition group_Initialize_rp ::
  "config \<Rightarrow> env \<Rightarrow> (int2 \<Rightarrow> int2) \<Rightarrow> int2 \<Rightarrow> int2 list \<Rightarrow> error + shared_rp" where
  "group_Initialize_rp cfg e dtid screen_size ts =
     efold (\<lambda>t sh. FFX_DNSR_Reflections_InitializeGroupSharedMemory_rp cfg e sh (dtid t) t screen_size)
           ts empty_shared_rp"

text \<open>
  The stores a group run of \<open>InitializeGroupSharedMemory\<close> makes to one tile, the
  latest first, when the thread \<open>t\<close> stores \<open>val t off\<close> at \<open>t + off\<close> for each of
  the four offsets.
\<close>

definition group_stores :: "(int2 \<Rightarrow> int2 \<Rightarrow> 'a) \<Rightarrow> int2 list \<Rightarrow> 'a tile" where
  "group_stores val ts = rev (concat (map (\<lambda>t. map (\<lambda>off. (add_int2 t off, val t off)) offset) ts))"

text \<open>The indices of a 16x16 tile.\<close>

definition tile_indices :: "int2 set" where
  "tile_indices = {0 .. 15} \<times> {0 .. 15}"

section \<open>A concrete dispatch\<close>

text \<open>
  A configuration, callbacks and textures on which the kernels are run below: a 16x16
  screen whose pixels all carry the same values, with a history whose normals are
  orthogonal to the current ones (every pixel is disoccluded), and a shared memory whose
  tiles are filled. \<open>no_interference\<close> is the barrier of a thread that sees no store
  of another thread.
\<close>

definition cfg_ex :: config where
  "cfg_ex = \<lparr>DISPATCH_OFFSET = (4, 4),
     FFX_DNSR_REFLECTIONS_PREFILTER_NORMAL_SIGMA = 512,
     FFX_DNSR_REFLECTIONS_PREFILTER_DEPTH_SIGMA = 4,
     FFX_DNSR_REFLECTIONS_RADIANCE_WEIGHT_BIAS = 3 / 5,
     FFX_DNSR_REFLECTIONS_RADIANCE_WEIGHT_VARIANCE_K = 1 / 10,
     FFX_DNSR_REFLECTIONS_PREFILTER_VARIANCE_BIAS = 1 / 10,
     FFX_DNSR_REFLECTIONS_PREFILTER_VARIANCE_WEIGHT = 22 / 5,
     FFX_DNSR_REFLECTIONS_AVG_RADIANCE_LUMINANCE_WEIGHT = 3 / 10,
     FFX_DNSR_REFLECTIONS_DISOCCLUSION_NORMAL_WEIGHT = 7 / 5,
     FFX_DNSR_REFLECTIONS_DISOCCLUSION_DEPTH_WEIGHT = 1,
     FFX_DNSR_REFLECTIONS_DISOCCLUSION_THRESHOLD = 9 / 10,
     FFX_DNSR_REFLECTIONS_REPROJECTION_NORMAL_SIMILARITY_THRESHOLD = 9999 / 10000,
     FFX_DNSR_REFLECTIONS_LOCAL_NEIGHBORHOOD_RADIUS = 1,
     FFX_DNSR_REFLECTIONS_SAMPLES_FOR_ROUGHNESS = (\<lambda>r. 1 - exp (- r * 100)),
     FFX_DNSR_Reflections_LocalNeighborhoodKernelWeight = (\<lambda>i. 1 / (1 + real_of_int (i * i))),
     SampleCountIntersection = 1\<rparr>"

definition env_ex :: env where
  "env_ex = \<lparr>FFX_DNSR_Reflections_LoadRoughness = (\<lambda>p. 1 / 4),
     FFX_DNSR_Reflections_LoadNeighborhood = (\<lambda>p scr. (float4 1 1 1 1, 1 / 2, float3 0 0 1, 1)),
     FFX_DNSR_Reflections_IsGlossyReflection = (\<lambda>r. r < 3 / 5),
     FFX_DNSR_Reflections_IsMirrorReflection = (\<lambda>r. r < 1 / 10000),
     FFX_DNSR_Reflections_RoundUp8 = (\<lambda>scr. (((fst scr + 7) div 8) * 8, ((snd scr + 7) div 8) * 8)),
     FFX_DNSR_Reflections_SampleAverageRadiance = (\<lambda>uv. float4 1 1 1 1),
     FFX_DNSR_Reflections_LoadRadiance = (\<lambda>p. float4 1 1 1 1),
     FFX_DNSR_Reflections_LoadRayLength = (\<lambda>p. 1),
     FFX_DNSR_Reflections_LoadDepth = (\<lambda>p. 1 / 2),
     FFX_DNSR_Reflections_LoadWorldSpaceNormal = (\<lambda>p. float3 0 0 1),
     FFX_DNSR_Reflections_LoadMotionVector = (\<lambda>p. float2 (1 / 2) (1 / 2)),
     FFX_DNSR_Reflections_GetLinearDepth = (\<lambda>uv z. 1),
     FFX_DNSR_Reflections_Luminance = (\<lambda>v. 0),
     FFX_DNSR_Reflections_ComputeTemporalVariance = (\<lambda>a b. 0),
     InvProjectPosition = (\<lambda>v. float3 0 0 1),
     ProjectPosition = (\<lambda>v. v),
     g_vCameraPositionWs = float3 0 0 0,
     Dimensions = float2 16 16,
     InvDimensions = float2 (1 / 16) (1 / 16),
     Motion_Get = (\<lambda>v. v)\<rparr>"

text \<open>The callbacks of a pixel that is not glossy: the same, with a roughness of 9/10.\<close>

definition env_rough :: env where
  "env_rough = env_ex\<lparr>FFX_DNSR_Reflections_LoadRoughness := (\<lambda>p. 9 / 10)\<rparr>"

definition const_texture :: "'a \<Rightarrow> 'a texture" where
  "const_texture v = \<lparr>load = (\<lambda>p. v), sample = (\<lambda>uv. v)\<rparr>"

definition tex_ex :: textures where
  "tex_ex = \<lparr>radiance_history = const_texture (float4 1 1 1 1),
     variance_history = const_texture (1 / 2),
     num_samples_history = const_texture 4,
     depth_history = const_texture (1 / 2),
     normal_history = const_texture (float3 1 0 0),
     roughness_history = const_texture (1 / 4),
     radiance_reprojected = Map.empty,
     variance_out = Map.empty,
     num_samples_out = Map.empty,
     average_radiance = Map.empty,
     prefiltered_reflections = Map.empty\<rparr>"

text \<open>The same textures with a history whose normals agree with the current ones.\<close>

definition tex_agree :: textures where
  "tex_agree = tex_ex\<lparr>normal_history := const_texture (float3 0 0 1)\<rparr>"

definition tile_list :: "int2 list" where
  "tile_list = concat (map (\<lambda>y. map (\<lambda>x. (x, y)) [0 .. 15]) [0 .. 15])"

definition full_tile :: "'a \<Rightarrow> 'a tile" where
  "full_tile v = map (\<lambda>idx. (idx, v)) tile_list"

definition full_pf :: shared_pf where
  "full_pf = \<lparr>g_ffx_dnsr_shared_0_pf = full_tile (float4 1 1 1 1),
              g_ffx_dnsr_shared_1_pf = full_tile (float4 0 0 1 (1 / 2)),
              g_ffx_dnsr_shared_depth_pf = full_tile 1\<rparr>"

definition full_rp :: shared_rp where
  "full_rp = \<lparr>g_ffx_dnsr_shared_0_rp = full_tile (float4 1 1 1 1),
              g_ffx_dnsr_shared_1_rp = full_tile 0\<rparr>"

definition no_interference :: "nat \<Rightarrow> 'a \<Rightarrow> 'a" where
  "no_interference k sh = sh"

text \<open>
  A barrier after which a thread sees, behind its own stores, a store of another thread of
  the group to every entry of the tiles.
\<close>

definition others_visible_pf :: "nat \<Rightarrow> shared_pf \<Rightarrow> shared_pf" where
  "others_visible_pf k sh =
     \<lparr>g_ffx_dnsr_shared_0_pf = g_ffx_dnsr_shared_0_pf sh @ full_tile (float4 1 1 1 1),
      g_ffx_dnsr_shared_1_pf = g_ffx_dnsr_shared_1_pf sh @ full_tile (float4 0 0 1 (1 / 2)),
      g_ffx_dnsr_shared_depth_pf = g_ffx_dnsr_shared_depth_pf sh @ full_tile 1\<rparr>"

definition others_visible_rp :: "nat \<Rightarrow> shared_rp \<Rightarrow> shared_rp" where
  "others_visible_rp k sh =
     \<lparr>g_ffx_dnsr_shared_0_rp = g_ffx_dnsr_shared_0_rp sh @ full_tile (float4 1 1 1 1),
      g_ffx_dnsr_shared_1_rp = g_ffx_dnsr_shared_1_rp sh @ full_tile 0\<rparr>"

section \<open>What a run of the reprojection kernel leaves behind\<close>

text \<open>
  The three outputs of \<open>Reproject\<close> for the pixel \<open>p\<close> (reprojected radiance,
  variance, sample count), \<open>None\<close> where nothing was stored; and the number of stores
  the radiance tile has received, after \<open>InitializeGroupSharedMemory\<close> and after the
  whole kernel.
\<close>

definition pixel_outputs :: "textures \<Rightarrow> int2 \<Rightarrow> float4 option \<times> real option \<times> real option" where
  "pixel_outputs tex p = (radiance_reprojected tex p, variance_out tex p, num_samples_out tex p)"

definition Reproject_pixel_outputs ::
  "config \<Rightarrow> env \<Rightarrow> (nat \<Rightarrow> shared_rp \<Rightarrow> shared_rp) \<Rightarrow> textures \<Rightarrow> shared_rp
     \<Rightarrow> int2 \<Rightarrow> int2 \<Rightarrow> uint2 \<Rightarrow> real \<Rightarrow> int
     \<Rightarrow> error + float4 option \<times> real option \<times> real option" where
  "Reproject_pixel_outputs cfg e barrier tex sh p g scr tsf ms =
     map_sum id (\<lambda>r. pixel_outputs (fst r) p)
       (FFX_DNSR_Reflections_Reproject cfg e barrier tex sh p g scr tsf ms)"

definition stores_rp :: "shared_rp \<Rightarrow> nat" where
  "stores_rp sh = length (g_ffx_dnsr_shared_0_rp sh)"

definition Initialize_stores :: "config \<Rightarrow> env \<Rightarrow> shared_rp \<Rightarrow> int2 \<Rightarrow> int2 \<Rightarrow> uint2 \<Rightarrow> error + nat" where
  "Initialize_stores cfg e sh p g scr =
     map_sum id stores_rp
       (FFX_DNSR_Reflections_InitializeGroupSharedMemory_rp cfg e sh p g (int2_of_uint2 scr))"

definition Reproject_stores ::
  "config \<Rightarrow> env \<Rightarrow> (nat \<Rightarrow> shared_rp \<Rightarrow> shared_rp) \<Rightarrow> textures \<Rightarrow> shared_rp
     \<Rightarrow> int2 \<Rightarrow> int2 \<Rightarrow> uint2 \<Rightarrow> real \<Rightarrow> int \<Rightarrow> error + nat" where
  "Reproject_stores cfg e barrier tex sh p g scr tsf ms =
     map_sum id (\<lambda>r. stores_rp (snd r))
       (FFX_DNSR_Reflections_Reproject cfg e barrier tex sh p g scr tsf ms)"

section \<open>Auxiliary facts\<close>

lemma ebind_Inr [simp]: "ebind (Inr v) f = f v"
  by (simp add: ebind_def)

lemma ebind_Inl [simp]: "ebind (Inl x) f = Inl x"
  by (simp add: ebind_def)

lemma ebind_eq_Inr: "ebind m f = Inr r \<longleftrightarrow> (\<exists>v. m = Inr v \<and> f v = Inr r)"
  by (cases m) simp_all

lemma ebind_neq_Inl: "m \<noteq> Inl x \<Longrightarrow> (\<And>v. f v \<noteq> Inl x) \<Longrightarrow> ebind m f \<noteq> Inl x"
  by (cases m) simp_all

lemma efold_neq_Inl:
  "(\<And>a s. a \<in> set as \<Longrightarrow> f a s \<noteq> Inl x) \<Longrightarrow> efold f as s \<noteq> Inl x"
proof (induction as arbitrary: s)
  case Nil
  show ?case by simp
next
  case (Cons a as)
  have "f a s \<noteq> Inl x" using Cons.prems by simp
  moreover have "\<And>v. efold f as v \<noteq> Inl x" using Cons by simp
  ultimately show ?case by (simp add: ebind_neq_Inl)
qed

lemma tile_store_in: "in_tile idx \<Longrightarrow> tile_store t idx v = Inr ((idx, v) # t)"
  by (simp add: tile_store_def)

lemma tile_load_hd: "in_tile idx \<Longrightarrow> tile_load ((idx, v) # t) idx = Inr v"
  by (simp add: tile_load_def)

lemma tile_load_Cons:
  "in_tile idx \<Longrightarrow> tile_load ((k, v) # t) idx = (if idx = k then Inr v else tile_load t idx)"
  by (simp add: tile_load_def)

lemma tile_load_in_bounds: "in_tile idx \<Longrightarrow> tile_load t idx \<noteq> Inl (OutOfBounds j)"
  by (simp add: tile_load_def split: option.splits)

lemma set_tile_list: "idx \<in> set tile_list \<longleftrightarrow> in_tile idx"
  by (cases idx) (force simp: tile_list_def in_tile_def image_iff)

lemma tile_load_full: "in_tile idx \<Longrightarrow> tile_load (full_tile v) idx = Inr v"
proof -
  assume a: "in_tile idx"
  have "map_of (map (\<lambda>i. (i, v)) tile_list) idx = Some v"
    using a by (simp add: map_of_map_restrict set_tile_list)
  then show ?thesis using a by (simp add: tile_load_def full_tile_def)
qed

lemma exp_bound_1: "exp (- (7 / 5) :: real) < 9 / 20"
proof -
  have "1 + (7 / 5 :: real) \<le> exp (7 / 5)" by (rule exp_ge_add_one_self)
  then have "(20 / 9 :: real) < exp (7 / 5)" by simp
  then have "1 / exp (7 / 5 :: real) < 1 / (20 / 9)"
    by (intro divide_strict_left_mono) simp_all
  then show ?thesis by (simp add: exp_minus field_simps)
qed

lemma Load_pf_in_bounds:
  "in_tile idx \<Longrightarrow> FFX_DNSR_Reflections_LoadFromGroupSharedMemory_pf sh idx \<noteq> Inl (OutOfBounds j)"
  unfolding FFX_DNSR_Reflections_LoadFromGroupSharedMemory_pf_def
  by (intro ebind_neq_Inl tile_load_in_bounds) simp_all

lemma Store_pf_in:
  "in_tile idx \<Longrightarrow> FFX_DNSR_Reflections_StoreInGroupSharedMemory_pf sh idx rad var nrm dpt
     = Inr \<lparr>g_ffx_dnsr_shared_0_pf = (idx, rad) # g_ffx_dnsr_shared_0_pf sh,
            g_ffx_dnsr_shared_1_pf = (idx, float4_of nrm var) # g_ffx_dnsr_shared_1_pf sh,
            g_ffx_dnsr_shared_depth_pf = (idx, dpt) # g_ffx_dnsr_shared_depth_pf sh\<rparr>"
  by (simp add: FFX_DNSR_Reflections_StoreInGroupSharedMemory_pf_def tile_store_in)

lemma in_group_offset_in_tile:
  "0 \<le> fst t \<Longrightarrow> fst t < 8 \<Longrightarrow> 0 \<le> snd t \<Longrightarrow> snd t < 8 \<Longrightarrow> off \<in> set offset
     \<Longrightarrow> in_tile (add_int2 t off)"
  by (auto simp: offset_def in_tile_def add_int2_def)

lemma sample_offsets_range:
  "off \<in> set sample_offsets \<Longrightarrow> - 3 \<le> fst off \<and> fst off \<le> 3 \<and> - 3 \<le> snd off \<and> snd off \<le> 3"
  by (auto simp: sample_offsets_def)

lemma Init_pf_neq_oob:
  assumes "0 \<le> fst t" "fst t < 8" "0 \<le> snd t" "snd t < 8"
  shows "FFX_DNSR_Reflections_InitializeGroupSharedMemory_pf cfg e sh d t scr \<noteq> Inl (OutOfBounds j)"
  unfolding FFX_DNSR_Reflections_InitializeGroupSharedMemory_pf_def Let_def
  by (rule efold_neq_Inl) (auto simp: Store_pf_in in_group_offset_in_tile [OF assms])

lemma Resolve_step_neq_oob:
  assumes "in_tile (add_int2 g off)"
  shows "Resolve_step cfg sh g avg center vw off acc \<noteq> Inl (OutOfBounds j)"
proof -
  obtain aw ar av where acc: "acc = (aw, ar, av)" by (cases acc) auto
  show ?thesis
    unfolding Resolve_step_def acc prod.case Let_def
    by (rule ebind_neq_Inl [OF Load_pf_in_bounds [OF assms]]) simp
qed

lemma Resolve_neq_oob:
  assumes "\<And>off. off \<in> set sample_offsets \<Longrightarrow> in_tile (add_int2 g off)"
  shows "FFX_DNSR_Reflections_Resolve cfg sh g avg center \<noteq> Inl (OutOfBounds j)"
  unfolding FFX_DNSR_Reflections_Resolve_def Resolve_accumulate_def Let_def
proof (rule ebind_neq_Inl)
  show "efold (Resolve_step cfg sh g avg center
                 (max (FFX_DNSR_REFLECTIONS_PREFILTER_VARIANCE_BIAS cfg)
                      (1 - exp (- (variance_pf center * FFX_DNSR_REFLECTIONS_PREFILTER_VARIANCE_WEIGHT cfg)))))
          sample_offsets (Resolve_init cfg avg center) \<noteq> Inl (OutOfBounds j)"
    by (rule efold_neq_Inl) (simp add: Resolve_step_neq_oob assms)
next
  fix v :: "real \<times> float4 \<times> real"
  show "(case v of (accumulated_weight, accumulated_radiance, accumulated_variance) \<Rightarrow>
           Inr (div4 accumulated_radiance accumulated_weight,
                accumulated_variance / (accumulated_weight * accumulated_weight)))
        \<noteq> Inl (OutOfBounds j)"
    by (simp split: prod.splits)
qed

lemma Estimate_ex:
  "\<exists>m. FFX_DNSR_Reflections_EstimateLocalNeighborhoodInGroup cfg_ex full_rp (4, 4) = Inr m"
  by (simp add: FFX_DNSR_Reflections_EstimateLocalNeighborhoodInGroup_def cfg_ex_def upto.simps
      Estimate_step_def FFX_DNSR_Reflections_LoadFromGroupSharedMemory_rp_def full_rp_def
      tile_load_full in_tile_def add_int2_def Let_def)

section \<open>The shared tiles of the prefilter\<close>

text \<open>
  C4. For every index inside the 16x16 tiles and every radiance, variance, normal and
  depth, the prefilter's \<open>StoreInGroupSharedMemory\<close> succeeds and
  \<open>LoadFromGroupSharedMemory\<close> at the same index then returns exactly the stored
  radiance, variance, normal and depth: packing the normal and the variance into one
  \<open>float4\<close> loses nothing.
\<close>

theorem store_load_roundtrip_pf:
  assumes "in_tile idx"
  shows "\<exists>sh'. FFX_DNSR_Reflections_StoreInGroupSharedMemory_pf sh idx rad var nrm dpt = Inr sh'
           \<and> FFX_DNSR_Reflections_LoadFromGroupSharedMemory_pf sh' idx
               = Inr \<lparr>radiance_pf = rad, variance_pf = var, normal_pf = nrm, depth_pf = dpt\<rparr>"
  using assms
  by (simp add: FFX_DNSR_Reflections_StoreInGroupSharedMemory_pf_def
      FFX_DNSR_Reflections_LoadFromGroupSharedMemory_pf_def tile_store_in tile_load_hd
      float4_of_def xyz_def)

theorem store_load_roundtrip_pf_witness:
  "in_tile (3, 5) \<and>
   (\<exists>sh'. FFX_DNSR_Reflections_StoreInGroupSharedMemory_pf empty_shared_pf (3, 5)
             (float4 1 2 3 4) 5 (float3 0 0 1) 7 = Inr sh'
           \<and> FFX_DNSR_Reflections_LoadFromGroupSharedMemory_pf sh' (3, 5)
               = Inr \<lparr>radiance_pf = float4 1 2 3 4, variance_pf = 5, normal_pf = float3 0 0 1, depth_pf = 7\<rparr>)"
proof -
  have h: "in_tile (3, 5)" by (simp add: in_tile_def)
  show ?thesis using h store_load_roundtrip_pf [OF h] by simp
qed

text \<open>
  C9. For every group thread id in \<open>[0,8)\<^sup>2\<close>, after the \<open>+4\<close> centering the index of
  the center and the indices of the 15 samples of \<open>Resolve\<close>, whose offsets have
  components in \<open>[-3,3]\<close>, lie in \<open>[1,14]\<^sup>2\<close>, inside the 16x16 tiles; and the prefilter
  kernel of such a thread never accesses shared memory out of bounds.
\<close>

theorem Prefilter_shared_indices_in_bounds:
  assumes "0 \<le> fst t" "fst t < 8" "0 \<le> snd t" "snd t < 8"
  shows "(\<forall>off \<in> set ((0, 0) # sample_offsets).
            (- 3 \<le> fst off \<and> fst off \<le> 3 \<and> - 3 \<le> snd off \<and> snd off \<le> 3)
            \<and> (1 \<le> fst (add_int2 (add_int2 t (4, 4)) off) \<and> fst (add_int2 (add_int2 t (4, 4)) off) \<le> 14
               \<and> 1 \<le> snd (add_int2 (add_int2 t (4, 4)) off) \<and> snd (add_int2 (add_int2 t (4, 4)) off) \<le> 14)
            \<and> in_tile (add_int2 (add_int2 t (4, 4)) off))
         \<and> FFX_DNSR_Reflections_Prefilter cfg e barrier tex sh d t scr \<noteq> Inl (OutOfBounds j)"
proof -
  have rng: "\<And>off. off \<in> set ((0, 0) # sample_offsets) \<Longrightarrow>
               - 3 \<le> fst off \<and> fst off \<le> 3 \<and> - 3 \<le> snd off \<and> snd off \<le> 3"
    using sample_offsets_range by auto
  have idx: "\<And>off. off \<in> set ((0, 0) # sample_offsets) \<Longrightarrow>
               1 \<le> fst (add_int2 (add_int2 t (4, 4)) off) \<and> fst (add_int2 (add_int2 t (4, 4)) off) \<le> 14
               \<and> 1 \<le> snd (add_int2 (add_int2 t (4, 4)) off) \<and> snd (add_int2 (add_int2 t (4, 4)) off) \<le> 14"
    using rng assms by (fastforce simp: add_int2_def)
  have tile: "\<And>off. off \<in> set ((0, 0) # sample_offsets) \<Longrightarrow> in_tile (add_int2 (add_int2 t (4, 4)) off)"
    using idx by (fastforce simp: in_tile_def)
  have center: "in_tile (add_int2 t (4, 4))"
    using tile [of "(0, 0)"] by (simp add: add_int2_def)
  have "FFX_DNSR_Reflections_Prefilter cfg e barrier tex sh d t scr \<noteq> Inl (OutOfBounds j)"
    unfolding FFX_DNSR_Reflections_Prefilter_def Let_def
    by (intro ebind_neq_Inl Init_pf_neq_oob [OF assms] Load_pf_in_bounds [OF center])
       (simp_all add: Resolve_neq_oob tile split: prod.splits)
  then show ?thesis using rng idx tile by blast
qed

theorem Prefilter_shared_indices_in_bounds_witness:
  "(0::int) \<le> fst (7, 7) \<and> fst (7, 7) < (8::int) \<and> (0::int) \<le> snd (7, 7) \<and> snd (7, 7) < (8::int)
   \<and> (3, - 1) \<in> set ((0, 0) # sample_offsets)
   \<and> add_int2 (add_int2 (7, 7) (4, 4)) (3, - 1) = (14, 10)
   \<and> in_tile (add_int2 (add_int2 (7, 7) (4, 4)) (3, - 1))
   \<and> FFX_DNSR_Reflections_Prefilter cfg_ex env_ex no_interference tex_ex full_pf (7, 7) (7, 7) (16, 16)
        \<noteq> Inl (OutOfBounds (0, 0))"
proof -
  have m: "(3, - 1) \<in> set ((0, 0) # sample_offsets)"
    by (simp add: sample_offsets_def)
  have "(0::int) \<le> fst (7, 7)" "fst (7, 7) < (8::int)" "(0::int) \<le> snd (7, 7)" "snd (7, 7) < (8::int)"
    by simp_all
  from Prefilter_shared_indices_in_bounds [OF this, of cfg_ex env_ex no_interference tex_ex full_pf
      "(7, 7)" "(16, 16)" "(0, 0)"] m
  show ?thesis by (simp add: add_int2_def in_tile_def)
qed

section \<open>The disocclusion factor\<close>

lemma PickReprojection_unfolded:
  assumes "FFX_DNSR_Reflections_EstimateLocalNeighborhoodInGroup cfg sh g = Inr m"
  shows "FFX_DNSR_Reflections_PickReprojection cfg e tex sh p g scr roughness ray_length
     = Inr (let c = fst (PickReprojection_choose cfg e tex p scr roughness ray_length);
                n = fst (snd (PickReprojection_choose cfg e tex p scr roughness ray_length));
                l = snd (snd (PickReprojection_choose cfg e tex p scr roughness ray_length));
                s = (if fst c < FFX_DNSR_REFLECTIONS_DISOCCLUSION_THRESHOLD cfg
                     then PickReprojection_search cfg e tex scr roughness n l c else c);
                b = (if fst s < FFX_DNSR_REFLECTIONS_DISOCCLUSION_THRESHOLD cfg
                     then PickReprojection_bilinear cfg e tex scr n l s else s);
                pre = (if FFX_DNSR_REFLECTIONS_DISOCCLUSION_THRESHOLD cfg < fst c then c else b)
            in (if fst pre < FFX_DNSR_REFLECTIONS_DISOCCLUSION_THRESHOLD cfg then 0 else fst pre,
                fst (snd pre), snd (snd pre)))"
proof -
  obtain st n l where c: "PickReprojection_choose cfg e tex p scr roughness ray_length = (st, n, l)"
    by (metis prod_cases3)
  show ?thesis
    unfolding FFX_DNSR_Reflections_PickReprojection_def assms ebind_Inr c prod.case Let_def
    by (cases st) auto
qed

text \<open>
  C10. Whenever the shared memory can be read, \<open>PickReprojection\<close> returns, and the
  disocclusion factor it returns is never strictly between 0 and
  \<open>FFX_DNSR_REFLECTIONS_DISOCCLUSION_THRESHOLD\<close>: it is 0 or at least the threshold.
  The returned factor is the factor the function has computed before its last statement
  (the first one when it takes the early out, the one of the search and of the 2x2
  neighbourhood otherwise), set to 0 when it is below the threshold and unchanged when
  it is at or above it.
\<close>

theorem PickReprojection_factor_zero_or_above_threshold:
  assumes "FFX_DNSR_Reflections_EstimateLocalNeighborhoodInGroup cfg sh g = Inr m"
  shows "\<exists>d uv r. FFX_DNSR_Reflections_PickReprojection cfg e tex sh p g scr roughness ray_length
                     = Inr (d, uv, r)
           \<and> \<not> (0 < d \<and> d < FFX_DNSR_REFLECTIONS_DISOCCLUSION_THRESHOLD cfg)
           \<and> (d = 0 \<or> FFX_DNSR_REFLECTIONS_DISOCCLUSION_THRESHOLD cfg \<le> d)
           \<and> (let c = fst (PickReprojection_choose cfg e tex p scr roughness ray_length);
                    n = fst (snd (PickReprojection_choose cfg e tex p scr roughness ray_length));
                    l = snd (snd (PickReprojection_choose cfg e tex p scr roughness ray_length));
                    s = (if fst c < FFX_DNSR_REFLECTIONS_DISOCCLUSION_THRESHOLD cfg
                         then PickReprojection_search cfg e tex scr roughness n l c else c);
                    b = (if fst s < FFX_DNSR_REFLECTIONS_DISOCCLUSION_THRESHOLD cfg
                         then PickReprojection_bilinear cfg e tex scr n l s else s);
                    pre = (if FFX_DNSR_REFLECTIONS_DISOCCLUSION_THRESHOLD cfg < fst c then c else b)
                in d = (if fst pre < FFX_DNSR_REFLECTIONS_DISOCCLUSION_THRESHOLD cfg then 0 else fst pre)
                   \<and> uv = fst (snd pre) \<and> r = snd (snd pre))"
  unfolding PickReprojection_unfolded [OF assms] Let_def
  by auto

section \<open>The accumulated weight of the prefilter\<close>

lemma efold_invariant:
  assumes "P s" and "efold f as s = Inr s'"
    and "\<And>a u u'. a \<in> set as \<Longrightarrow> P u \<Longrightarrow> f a u = Inr u' \<Longrightarrow> P u'"
  shows "P s'"
  using assms
proof (induction as arbitrary: s)
  case Nil
  then show ?case by simp
next
  case (Cons a as)
  from Cons.prems(2) obtain u where u: "f a s = Inr u" and rest: "efold f as u = Inr s'"
    by (auto simp: ebind_eq_Inr)
  have "P u" using Cons.prems(1,3) u by auto
  then show ?case using Cons.IH [OF _ rest] Cons.prems(3) by auto
qed

lemma efold_returns:
  assumes "\<And>a u. a \<in> set as \<Longrightarrow> \<exists>u'. f a u = Inr u'"
  shows "\<exists>s'. efold f as s = Inr s'"
  using assms
proof (induction as arbitrary: s)
  case Nil
  show ?case by simp
next
  case (Cons a as)
  obtain u where u: "f a s = Inr u" using Cons.prems by fastforce
  obtain s' where "efold f as u = Inr s'" using Cons.IH Cons.prems by fastforce
  then show ?case using u by simp
qed

lemma RadianceWeight_lower: "1 / 100 \<le> FFX_DNSR_Reflections_GetRadianceWeight cfg a b v"
  by (simp add: FFX_DNSR_Reflections_GetRadianceWeight_def)

lemma NormalWeight_nonneg: "0 \<le> FFX_DNSR_Reflections_GetEdgeStoppingNormalWeight cfg p q"
  by (simp add: FFX_DNSR_Reflections_GetEdgeStoppingNormalWeight_def)

lemma DepthWeight_pos: "0 < FFX_DNSR_Reflections_GetEdgeStoppingDepthWeight cfg c n"
  by (simp add: FFX_DNSR_Reflections_GetEdgeStoppingDepthWeight_def)

lemma Resolve_step_weight:
  assumes "0 \<le> vw" and "Resolve_step cfg sh g avg center vw off u = Inr u'"
  shows "fst u \<le> fst u'"
proof (cases "FFX_DNSR_Reflections_LoadFromGroupSharedMemory_pf sh (add_int2 g off)")
  case (Inl x)
  then show ?thesis using assms(2) by (cases u) (simp add: Resolve_step_def Let_def)
next
  case (Inr n)
  have "0 \<le> FFX_DNSR_Reflections_GetRadianceWeight cfg avg (radiance_pf n) (variance_pf center)"
    using RadianceWeight_lower [of cfg avg "radiance_pf n" "variance_pf center"] by simp
  then have "0 \<le> FFX_DNSR_Reflections_GetEdgeStoppingNormalWeight cfg (normal_pf center) (normal_pf n)
                  * FFX_DNSR_Reflections_GetEdgeStoppingDepthWeight cfg (depth_pf center) (depth_pf n)
                  * FFX_DNSR_Reflections_GetRadianceWeight cfg avg (radiance_pf n) (variance_pf center)
                  * vw"
    using assms(1) NormalWeight_nonneg [of cfg "normal_pf center" "normal_pf n"]
      DepthWeight_pos [of cfg "depth_pf center" "depth_pf n"]
    by (intro mult_nonneg_nonneg) simp_all
  moreover have "fst u' = fst u
                  + FFX_DNSR_Reflections_GetEdgeStoppingNormalWeight cfg (normal_pf center) (normal_pf n)
                  * FFX_DNSR_Reflections_GetEdgeStoppingDepthWeight cfg (depth_pf center) (depth_pf n)
                  * FFX_DNSR_Reflections_GetRadianceWeight cfg avg (radiance_pf n) (variance_pf center)
                  * vw"
    using assms(2) Inr by (cases u) (auto simp: Resolve_step_def Let_def)
  ultimately show ?thesis by simp
qed

lemma Resolve_step_returns:
  assumes "FFX_DNSR_Reflections_LoadFromGroupSharedMemory_pf sh (add_int2 g off) = Inr n"
  shows "\<exists>u'. Resolve_step cfg sh g avg center vw off u = Inr u'"
  using assms by (cases u) (simp add: Resolve_step_def Let_def)

lemma Load_pf_full:
  "in_tile idx \<Longrightarrow> FFX_DNSR_Reflections_LoadFromGroupSharedMemory_pf full_pf idx
     = Inr \<lparr>radiance_pf = float4 1 1 1 1, variance_pf = 1 / 2, normal_pf = float3 0 0 1, depth_pf = 1\<rparr>"
  by (simp add: FFX_DNSR_Reflections_LoadFromGroupSharedMemory_pf_def full_pf_def tile_load_full xyz_def)

text \<open>
  C8. In \<open>Resolve\<close> the accumulated weight is at least \<open>1.0e-2\<close>: the center weight
  from \<open>GetRadianceWeight\<close> is clamped to at least \<open>1.0e-2\<close> and every weight the loop
  adds is nonnegative, so the two final divisions do not divide by zero. The loop adds
  \<open>variance_weight\<close>, which is at least \<open>FFX_DNSR_REFLECTIONS_PREFILTER_VARIANCE_BIAS\<close>;
  that constant of the missing header is taken to be nonnegative. When the 15 samples
  can be loaded, \<open>Resolve\<close> returns the two quotients.
\<close>

theorem Resolve_accumulated_weight_lower_bound:
  assumes "0 \<le> FFX_DNSR_REFLECTIONS_PREFILTER_VARIANCE_BIAS cfg"
    and "\<And>off. off \<in> set sample_offsets
           \<Longrightarrow> \<exists>n. FFX_DNSR_Reflections_LoadFromGroupSharedMemory_pf sh (add_int2 g off) = Inr n"
  shows "\<exists>aw ar av. Resolve_accumulate cfg sh g avg center = Inr (aw, ar, av)
           \<and> 1 / 100 \<le> aw \<and> aw \<noteq> 0 \<and> aw * aw \<noteq> 0
           \<and> FFX_DNSR_Reflections_Resolve cfg sh g avg center = Inr (div4 ar aw, av / (aw * aw))"
proof -
  define vw where "vw = max (FFX_DNSR_REFLECTIONS_PREFILTER_VARIANCE_BIAS cfg)
     (1 - exp (- (variance_pf center * FFX_DNSR_REFLECTIONS_PREFILTER_VARIANCE_WEIGHT cfg)))"
  have vw: "0 \<le> vw" using assms(1) by (simp add: vw_def)
  have acc: "Resolve_accumulate cfg sh g avg center
               = efold (Resolve_step cfg sh g avg center vw) sample_offsets (Resolve_init cfg avg center)"
    by (simp add: Resolve_accumulate_def vw_def)
  obtain u where u: "efold (Resolve_step cfg sh g avg center vw) sample_offsets
                       (Resolve_init cfg avg center) = Inr u"
    using efold_returns [of sample_offsets "Resolve_step cfg sh g avg center vw"]
      assms(2) Resolve_step_returns by metis
  obtain aw ar av where uu: "u = (aw, ar, av)" by (cases u) auto
  have init: "1 / 100 \<le> fst (Resolve_init cfg avg center)"
    using RadianceWeight_lower [of cfg avg "radiance_pf center" "variance_pf center"]
    by (simp add: Resolve_init_def Let_def)
  have "1 / 100 \<le> fst u"
  proof (rule efold_invariant [where P = "\<lambda>u. 1 / 100 \<le> fst u", OF init u])
    fix a and v v' :: "real \<times> float4 \<times> real"
    assume "1 / 100 \<le> fst v" and s: "Resolve_step cfg sh g avg center vw a v = Inr v'"
    moreover have "fst v \<le> fst v'"
      using Resolve_step_weight [OF vw s] .
    ultimately show "1 / 100 \<le> fst v'" by simp
  qed
  then have aw: "1 / 100 \<le> aw" using uu by simp
  have "FFX_DNSR_Reflections_Resolve cfg sh g avg center = Inr (div4 ar aw, av / (aw * aw))"
    by (simp add: FFX_DNSR_Reflections_Resolve_def acc u uu Let_def)
  then show ?thesis using acc u uu aw by auto
qed

theorem Resolve_accumulated_weight_lower_bound_witness:
  "0 \<le> FFX_DNSR_REFLECTIONS_PREFILTER_VARIANCE_BIAS cfg_ex
   \<and> (\<exists>n. FFX_DNSR_Reflections_LoadFromGroupSharedMemory_pf full_pf (add_int2 (4, 4) (- 3, 3)) = Inr n)
   \<and> (\<exists>aw ar av. Resolve_accumulate cfg_ex full_pf (4, 4) (float4 1 1 1 1)
                     \<lparr>radiance_pf = float4 1 1 1 1, variance_pf = 1 / 2,
                      normal_pf = float3 0 0 1, depth_pf = 1\<rparr> = Inr (aw, ar, av)
           \<and> 1 / 100 \<le> aw \<and> aw \<noteq> 0 \<and> aw * aw \<noteq> 0
           \<and> FFX_DNSR_Reflections_Resolve cfg_ex full_pf (4, 4) (float4 1 1 1 1)
                \<lparr>radiance_pf = float4 1 1 1 1, variance_pf = 1 / 2,
                 normal_pf = float3 0 0 1, depth_pf = 1\<rparr> = Inr (div4 ar aw, av / (aw * aw)))"
proof -
  have b: "0 \<le> FFX_DNSR_REFLECTIONS_PREFILTER_VARIANCE_BIAS cfg_ex"
    by (simp add: cfg_ex_def)
  have l: "\<exists>n. FFX_DNSR_Reflections_LoadFromGroupSharedMemory_pf full_pf (add_int2 (4, 4) off) = Inr n"
    if "off \<in> set sample_offsets" for off
  proof -
    have "in_tile (add_int2 (4, 4) off)"
      using sample_offsets_range [OF that] by (simp add: in_tile_def add_int2_def)
    then show ?thesis using Load_pf_full by blast
  qed
  have l1: "\<exists>n. FFX_DNSR_Reflections_LoadFromGroupSharedMemory_pf full_pf (add_int2 (4, 4) (- 3, 3)) = Inr n"
    by (rule l) (simp add: sample_offsets_def)
  show ?thesis
    using b l1 Resolve_accumulated_weight_lower_bound [OF b l, of "float4 1 1 1 1"
        "\<lparr>radiance_pf = float4 1 1 1 1, variance_pf = 1 / 2, normal_pf = float3 0 0 1, depth_pf = 1\<rparr>"]
    by simp
qed

section \<open>The moments of the local neighbourhood\<close>

lemma efold_sums:
  fixes fw :: "'a \<Rightarrow> real" and fm fv :: "'a \<Rightarrow> float4"
  assumes "\<And>a w m v. a \<in> set as \<Longrightarrow> f a (w, m, v) = Inr (w + fw a, m + fm a, v + fv a)"
  shows "efold f as (w, m, v)
           = Inr (w + sum_list (map fw as), m + sum_list (map fm as), v + sum_list (map fv as))"
  using assms
proof (induction as arbitrary: w m v)
  case Nil
  show ?case by simp
next
  case (Cons a as)
  have "f a (w, m, v) = Inr (w + fw a, m + fm a, v + fv a)" using Cons.prems by simp
  moreover have "efold f as (w + fw a, m + fm a, v + fv a)
      = Inr (w + fw a + sum_list (map fw as), m + fm a + sum_list (map fm as),
             v + fv a + sum_list (map fv as))"
    using Cons.IH Cons.prems by simp
  ultimately show ?case by (simp add: add.assoc)
qed

lemma sum_list_upto:
  fixes f :: "int \<Rightarrow> 'b::comm_monoid_add"
  shows "sum_list (map f [a .. b]) = sum f {a .. b}"
  by (simp add: sum_list_distinct_conv_sum_set)

lemma Estimate_step_loaded:
  assumes "FFX_DNSR_Reflections_LoadFromGroupSharedMemory_rp sh (add_int2 g (i, j)) = Inr \<lparr>radiance_rp = r\<rparr>"
  shows "Estimate_step cfg sh g j i (w, m, v)
           = Inr (w + kernel_weight cfg i j, m + scale4 (kernel_weight cfg i j) r,
                  v + scale4 (kernel_weight cfg i j) (mul4 r r))"
  using assms by (simp add: Estimate_step_def kernel_weight_def Let_def)

lemma Load_rp_full:
  "in_tile idx \<Longrightarrow> FFX_DNSR_Reflections_LoadFromGroupSharedMemory_rp full_rp idx
     = Inr \<lparr>radiance_rp = float4 1 1 1 1\<rparr>"
  by (simp add: FFX_DNSR_Reflections_LoadFromGroupSharedMemory_rp_def full_rp_def tile_load_full)

text \<open>
  C6. \<open>EstimateLocalNeighborhoodInGroup\<close> reads shared memory only and returns a value:
  when the \<open>(2R+1)\<^sup>2\<close> neighbours of \<open>group_thread_id\<close> can be loaded, with radiance
  \<open>rad i j\<close> at offset \<open>(i, j)\<close>, its mean is the kernel-weighted average of these
  radiances, normalised by the accumulated kernel weight, and its variance is
  \<open>|E[r\<^sup>2] - mean\<^sup>2|\<close> under the same weights, so no component of it is negative.
  The function has no result but the moments: it returns no shared memory and no texture.
\<close>

theorem EstimateLocalNeighborhoodInGroup_moments:
  assumes "\<And>i j. i \<in> {- FFX_DNSR_REFLECTIONS_LOCAL_NEIGHBORHOOD_RADIUS cfg .. FFX_DNSR_REFLECTIONS_LOCAL_NEIGHBORHOOD_RADIUS cfg}
             \<Longrightarrow> j \<in> {- FFX_DNSR_REFLECTIONS_LOCAL_NEIGHBORHOOD_RADIUS cfg .. FFX_DNSR_REFLECTIONS_LOCAL_NEIGHBORHOOD_RADIUS cfg}
             \<Longrightarrow> FFX_DNSR_Reflections_LoadFromGroupSharedMemory_rp sh (add_int2 g (i, j))
                   = Inr \<lparr>radiance_rp = rad i j\<rparr>"
  shows "\<exists>est. FFX_DNSR_Reflections_EstimateLocalNeighborhoodInGroup cfg sh g = Inr est
           \<and> mean est = weighted_average cfg rad
           \<and> variance est = abs4 (sub4 (weighted_average cfg (\<lambda>i j. mul4 (rad i j) (rad i j)))
                                        (mul4 (mean est) (mean est)))
           \<and> 0 \<le> x4 (variance est) \<and> 0 \<le> y4 (variance est)
           \<and> 0 \<le> z4 (variance est) \<and> 0 \<le> w4 (variance est)"
proof -
  define R where "R = FFX_DNSR_REFLECTIONS_LOCAL_NEIGHBORHOOD_RADIUS cfg"
  have inner: "efold (Estimate_step cfg sh g j) [- R .. R] (w, m, v)
      = Inr (w + (\<Sum>i \<in> {- R .. R}. kernel_weight cfg i j),
             m + (\<Sum>i \<in> {- R .. R}. scale4 (kernel_weight cfg i j) (rad i j)),
             v + (\<Sum>i \<in> {- R .. R}. scale4 (kernel_weight cfg i j) (mul4 (rad i j) (rad i j))))"
    if "j \<in> set [- R .. R]" for j w m v
  proof -
    have "efold (Estimate_step cfg sh g j) [- R .. R] (w, m, v)
      = Inr (w + sum_list (map (\<lambda>i. kernel_weight cfg i j) [- R .. R]),
             m + sum_list (map (\<lambda>i. scale4 (kernel_weight cfg i j) (rad i j)) [- R .. R]),
             v + sum_list (map (\<lambda>i. scale4 (kernel_weight cfg i j) (mul4 (rad i j) (rad i j))) [- R .. R]))"
      using that assms by (intro efold_sums Estimate_step_loaded) (simp add: R_def)
    then show ?thesis by (simp only: sum_list_upto)
  qed
  have "efold (\<lambda>j. efold (Estimate_step cfg sh g j) [- R .. R]) [- R .. R] (0, 0, 0)
      = Inr (0 + sum_list (map (\<lambda>j. \<Sum>i \<in> {- R .. R}. kernel_weight cfg i j) [- R .. R]),
             0 + sum_list (map (\<lambda>j. \<Sum>i \<in> {- R .. R}. scale4 (kernel_weight cfg i j) (rad i j)) [- R .. R]),
             0 + sum_list (map (\<lambda>j. \<Sum>i \<in> {- R .. R}. scale4 (kernel_weight cfg i j) (mul4 (rad i j) (rad i j))) [- R .. R]))"
    by (intro efold_sums inner)
  then have outer: "efold (\<lambda>j. efold (Estimate_step cfg sh g j) [- R .. R]) [- R .. R] (0, 0, 0)
      = Inr (accumulated_kernel_weight cfg,
             (\<Sum>j \<in> {- R .. R}. \<Sum>i \<in> {- R .. R}. scale4 (kernel_weight cfg i j) (rad i j)),
             (\<Sum>j \<in> {- R .. R}. \<Sum>i \<in> {- R .. R}. scale4 (kernel_weight cfg i j) (mul4 (rad i j) (rad i j))))"
    by (simp only: sum_list_upto add_0_left accumulated_kernel_weight_def Let_def R_def)
  have "FFX_DNSR_Reflections_EstimateLocalNeighborhoodInGroup cfg sh g
      = Inr \<lparr>mean = weighted_average cfg rad,
             variance = abs4 (sub4 (weighted_average cfg (\<lambda>i j. mul4 (rad i j) (rad i j)))
                                   (mul4 (weighted_average cfg rad) (weighted_average cfg rad)))\<rparr>"
    unfolding FFX_DNSR_Reflections_EstimateLocalNeighborhoodInGroup_def Let_def
    using outer by (simp add: R_def weighted_average_def Let_def)
  then show ?thesis by (simp add: abs4_def)
qed

theorem EstimateLocalNeighborhoodInGroup_moments_witness:
  "FFX_DNSR_Reflections_LoadFromGroupSharedMemory_rp full_rp (add_int2 (4, 4) (1, - 1))
     = Inr \<lparr>radiance_rp = float4 1 1 1 1\<rparr>
   \<and> (\<exists>est. FFX_DNSR_Reflections_EstimateLocalNeighborhoodInGroup cfg_ex full_rp (4, 4) = Inr est
           \<and> mean est = weighted_average cfg_ex (\<lambda>i j. float4 1 1 1 1)
           \<and> variance est = abs4 (sub4 (weighted_average cfg_ex
                                            (\<lambda>i j. mul4 (float4 1 1 1 1) (float4 1 1 1 1)))
                                        (mul4 (mean est) (mean est)))
           \<and> 0 \<le> x4 (variance est) \<and> 0 \<le> y4 (variance est)
           \<and> 0 \<le> z4 (variance est) \<and> 0 \<le> w4 (variance est))"
proof -
  have l: "FFX_DNSR_Reflections_LoadFromGroupSharedMemory_rp full_rp (add_int2 (4, 4) (i, j))
             = Inr \<lparr>radiance_rp = float4 1 1 1 1\<rparr>"
    if "i \<in> {- FFX_DNSR_REFLECTIONS_LOCAL_NEIGHBORHOOD_RADIUS cfg_ex .. FFX_DNSR_REFLECTIONS_LOCAL_NEIGHBORHOOD_RADIUS cfg_ex}"
       "j \<in> {- FFX_DNSR_REFLECTIONS_LOCAL_NEIGHBORHOOD_RADIUS cfg_ex .. FFX_DNSR_REFLECTIONS_LOCAL_NEIGHBORHOOD_RADIUS cfg_ex}"
    for i j
    using that by (intro Load_rp_full) (simp add: cfg_ex_def in_tile_def add_int2_def)
  have l1: "FFX_DNSR_Reflections_LoadFromGroupSharedMemory_rp full_rp (add_int2 (4, 4) (1, - 1))
             = Inr \<lparr>radiance_rp = float4 1 1 1 1\<rparr>"
    by (rule l) (simp_all add: cfg_ex_def)
  show ?thesis
    using l1 EstimateLocalNeighborhoodInGroup_moments
                [of cfg_ex full_rp "(4, 4)" "\<lambda>i j. float4 1 1 1 1", OF l]
    by simp
qed

section \<open>The group run of InitializeGroupSharedMemory\<close>

lemma in_thread_group:
  "t \<in> set thread_group \<longleftrightarrow> 0 \<le> fst t \<and> fst t < 8 \<and> 0 \<le> snd t \<and> snd t < 8"
  by (cases t) (force simp: thread_group_def image_iff)

lemma group_stores_Cons:
  "group_stores val (t # ts)
     = group_stores val ts @ rev (map (\<lambda>off. (add_int2 t off, val t off)) offset)"
  by (simp add: group_stores_def)

lemma group_stores_keys:
  "map fst (group_stores val ts) = rev (concat (map (\<lambda>t. map (add_int2 t) offset) ts))"
  by (simp add: group_stores_def rev_map [symmetric] map_concat comp_def)

lemma add_offset_inj:
  assumes "t \<in> set thread_group" "t' \<in> set thread_group" "off \<in> set offset" "off' \<in> set offset"
    and "add_int2 t off = add_int2 t' off'"
  shows "t = t' \<and> off = off'"
  using assms unfolding in_thread_group
  by (cases t; cases t') (auto simp: offset_def add_int2_def)

lemma distinct_group_keys:
  assumes "distinct ts" and "set ts \<subseteq> set thread_group"
  shows "distinct (concat (map (\<lambda>t. map (add_int2 t) offset) ts))"
proof (rule distinct_concat)
  show "distinct (map (\<lambda>t. map (add_int2 t) offset) ts)"
  proof (subst distinct_map, intro conjI assms(1) inj_onI)
    fix t t' assume "t \<in> set ts" "t' \<in> set ts" "map (add_int2 t) offset = map (add_int2 t') offset"
    then have "add_int2 t (0, 0) = add_int2 t' (0, 0)" by (simp add: offset_def)
    then show "t = t'" by (cases t; cases t') (simp add: add_int2_def)
  qed
next
  fix ys assume "ys \<in> set (map (\<lambda>t. map (add_int2 t) offset) ts)"
  then obtain t where "ys = map (add_int2 t) offset" by auto
  then show "distinct ys"
    by (cases t) (simp add: offset_def add_int2_def)
next
  fix ys zs
  assume "ys \<in> set (map (\<lambda>t. map (add_int2 t) offset) ts)"
    and "zs \<in> set (map (\<lambda>t. map (add_int2 t) offset) ts)" and ne: "ys \<noteq> zs"
  then obtain t t' where t: "t \<in> set ts" "ys = map (add_int2 t) offset"
    and t': "t' \<in> set ts" "zs = map (add_int2 t') offset" by auto
  show "set ys \<inter> set zs = {}"
  proof (rule ccontr)
    assume "set ys \<inter> set zs \<noteq> {}"
    then obtain k where "k \<in> set ys" "k \<in> set zs" by auto
    then obtain off off' where "off \<in> set offset" "off' \<in> set offset"
      "k = add_int2 t off" "k = add_int2 t' off'"
      using t t' by auto
    then have "t = t'" using add_offset_inj [of t t' off off'] t t' assms(2) by auto
    then show False using ne t t' by simp
  qed
qed

lemma distinct_group_stores:
  "distinct ts \<Longrightarrow> set ts \<subseteq> set thread_group \<Longrightarrow> distinct (map fst (group_stores val ts))"
  by (simp add: group_stores_keys distinct_group_keys)

lemma group_stores_key_set:
  assumes "set ts = set thread_group"
  shows "fst ` set (group_stores val ts) = tile_indices"
proof -
  have "fst ` set (group_stores val ts) = set (map fst (group_stores val ts))" by simp
  also have "\<dots> = (\<Union>t \<in> set thread_group. add_int2 t ` set offset)"
    by (simp only: group_stores_keys set_rev set_concat set_map assms image_image)
  also have "\<dots> = tile_indices"
  proof (intro set_eqI iffI)
    fix k assume "k \<in> (\<Union>t \<in> set thread_group. add_int2 t ` set offset)"
    then show "k \<in> tile_indices"
      by (auto simp: in_thread_group offset_def add_int2_def tile_indices_def)
  next
    fix k :: int2 assume k: "k \<in> tile_indices"
    obtain a b where ab: "k = (a, b)" by (cases k)
    define t :: int2 where "t = (if a < 8 then a else a - 8, if b < 8 then b else b - 8)"
    define off :: int2 where "off = (if a < 8 then 0 else 8, if b < 8 then 0 else 8)"
    have "t \<in> set thread_group" using k ab by (auto simp: in_thread_group t_def tile_indices_def)
    moreover have "off \<in> set offset" by (auto simp: off_def offset_def)
    moreover have "k = add_int2 t off" by (auto simp: ab t_def off_def add_int2_def)
    ultimately show "k \<in> (\<Union>t \<in> set thread_group. add_int2 t ` set offset)" by blast
  qed
  finally show ?thesis .
qed

lemma group_stores_lookup:
  assumes "distinct ts" "set ts \<subseteq> set thread_group" "t \<in> set ts" "off \<in> set offset"
  shows "map_of (group_stores val ts) (add_int2 t off) = Some (val t off)"
proof (rule map_of_is_SomeI)
  show "distinct (map fst (group_stores val ts))"
    using assms(1,2) by (rule distinct_group_stores)
  show "(add_int2 t off, val t off) \<in> set (group_stores val ts)"
    using assms(3,4) by (auto simp: group_stores_def)
qed

lemma group_stores_load:
  assumes "distinct ts" "set ts \<subseteq> set thread_group" "t \<in> set ts" "off \<in> set offset"
  shows "tile_load (group_stores val ts) (add_int2 t off) = Inr (val t off)"
proof -
  have "in_tile (add_int2 t off)"
    using assms(2,3,4) in_group_offset_in_tile [of t off] by (auto simp: in_thread_group)
  then show ?thesis using group_stores_lookup [OF assms, where val = val] by (simp add: tile_load_def)
qed

lemma Store_rp_in:
  "in_tile idx \<Longrightarrow> FFX_DNSR_Reflections_StoreInGroupSharedMemory_rp sh idx rad wt
     = Inr \<lparr>g_ffx_dnsr_shared_0_rp = (idx, rad) # g_ffx_dnsr_shared_0_rp sh,
            g_ffx_dnsr_shared_1_rp = (idx, wt) # g_ffx_dnsr_shared_1_rp sh\<rparr>"
  by (simp add: FFX_DNSR_Reflections_StoreInGroupSharedMemory_rp_def tile_store_in)

lemma Init_pf_stores:
  assumes "t \<in> set thread_group"
  shows "FFX_DNSR_Reflections_InitializeGroupSharedMemory_pf cfg e sh d t scr
    = Inr \<lparr>g_ffx_dnsr_shared_0_pf =
             rev (map (\<lambda>off. (add_int2 t off,
                    fst (FFX_DNSR_Reflections_LoadNeighborhood e
                           (add_int2 (sub_int2 d (DISPATCH_OFFSET cfg)) off) scr))) offset)
             @ g_ffx_dnsr_shared_0_pf sh,
           g_ffx_dnsr_shared_1_pf =
             rev (map (\<lambda>off. (add_int2 t off,
                    float4_of (fst (snd (snd (FFX_DNSR_Reflections_LoadNeighborhood e
                                                (add_int2 (sub_int2 d (DISPATCH_OFFSET cfg)) off) scr))))
                              (fst (snd (FFX_DNSR_Reflections_LoadNeighborhood e
                                           (add_int2 (sub_int2 d (DISPATCH_OFFSET cfg)) off) scr))))) offset)
             @ g_ffx_dnsr_shared_1_pf sh,
           g_ffx_dnsr_shared_depth_pf =
             rev (map (\<lambda>off. (add_int2 t off,
                    snd (snd (snd (FFX_DNSR_Reflections_LoadNeighborhood e
                                     (add_int2 (sub_int2 d (DISPATCH_OFFSET cfg)) off) scr))))) offset)
             @ g_ffx_dnsr_shared_depth_pf sh\<rparr>"
proof -
  have "in_tile (add_int2 t (0, 0))" "in_tile (add_int2 t (8, 0))"
       "in_tile (add_int2 t (0, 8))" "in_tile (add_int2 t (8, 8))"
    using assms by (auto simp: in_thread_group in_tile_def add_int2_def)
  then show ?thesis
    by (simp add: FFX_DNSR_Reflections_InitializeGroupSharedMemory_pf_def offset_def Let_def
        Store_pf_in split: prod.splits)
qed

lemma Init_rp_stores:
  assumes "t \<in> set thread_group"
  shows "FFX_DNSR_Reflections_InitializeGroupSharedMemory_rp cfg e sh d t scr
    = Inr \<lparr>g_ffx_dnsr_shared_0_rp =
             rev (map (\<lambda>off. (add_int2 t off,
                    FFX_DNSR_Reflections_LoadRadiance e
                      (add_int2 (sub_int2 d (DISPATCH_OFFSET cfg)) off))) offset)
             @ g_ffx_dnsr_shared_0_rp sh,
           g_ffx_dnsr_shared_1_rp =
             rev (map (\<lambda>off. (add_int2 t off, 0)) offset) @ g_ffx_dnsr_shared_1_rp sh\<rparr>"
proof -
  have "in_tile (add_int2 t (0, 0))" "in_tile (add_int2 t (8, 0))"
       "in_tile (add_int2 t (0, 8))" "in_tile (add_int2 t (8, 8))"
    using assms by (auto simp: in_thread_group in_tile_def add_int2_def)
  then show ?thesis
    by (simp add: FFX_DNSR_Reflections_InitializeGroupSharedMemory_rp_def offset_def Let_def
        Store_rp_in)
qed

lemma group_Init_pf_stores:
  assumes "set ts \<subseteq> set thread_group"
  shows "efold (\<lambda>t sh. FFX_DNSR_Reflections_InitializeGroupSharedMemory_pf cfg e sh (dtid t) t scr) ts sh
    = Inr \<lparr>g_ffx_dnsr_shared_0_pf =
             group_stores (\<lambda>t off. fst (FFX_DNSR_Reflections_LoadNeighborhood e
                           (add_int2 (sub_int2 (dtid t) (DISPATCH_OFFSET cfg)) off) scr)) ts
             @ g_ffx_dnsr_shared_0_pf sh,
           g_ffx_dnsr_shared_1_pf =
             group_stores (\<lambda>t off.
                    float4_of (fst (snd (snd (FFX_DNSR_Reflections_LoadNeighborhood e
                                                (add_int2 (sub_int2 (dtid t) (DISPATCH_OFFSET cfg)) off) scr))))
                              (fst (snd (FFX_DNSR_Reflections_LoadNeighborhood e
                                           (add_int2 (sub_int2 (dtid t) (DISPATCH_OFFSET cfg)) off) scr)))) ts
             @ g_ffx_dnsr_shared_1_pf sh,
           g_ffx_dnsr_shared_depth_pf =
             group_stores (\<lambda>t off.
                    snd (snd (snd (FFX_DNSR_Reflections_LoadNeighborhood e
                                     (add_int2 (sub_int2 (dtid t) (DISPATCH_OFFSET cfg)) off) scr)))) ts
             @ g_ffx_dnsr_shared_depth_pf sh\<rparr>"
  using assms
proof (induction ts arbitrary: sh)
  case Nil
  show ?case by (simp add: group_stores_def)
next
  case (Cons t ts)
  have t: "t \<in> set thread_group" and ts: "set ts \<subseteq> set thread_group" using Cons.prems by auto
  show ?case
    by (simp add: Init_pf_stores [OF t] Cons.IH [OF ts] group_stores_Cons)
qed

lemma group_Init_rp_stores:
  assumes "set ts \<subseteq> set thread_group"
  shows "efold (\<lambda>t sh. FFX_DNSR_Reflections_InitializeGroupSharedMemory_rp cfg e sh (dtid t) t scr) ts sh
    = Inr \<lparr>g_ffx_dnsr_shared_0_rp =
             group_stores (\<lambda>t off. FFX_DNSR_Reflections_LoadRadiance e
                      (add_int2 (sub_int2 (dtid t) (DISPATCH_OFFSET cfg)) off)) ts
             @ g_ffx_dnsr_shared_0_rp sh,
           g_ffx_dnsr_shared_1_rp = group_stores (\<lambda>t off. 0) ts @ g_ffx_dnsr_shared_1_rp sh\<rparr>"
  using assms
proof (induction ts arbitrary: sh)
  case Nil
  show ?case by (simp add: group_stores_def)
next
  case (Cons t ts)
  have t: "t \<in> set thread_group" and ts: "set ts \<subseteq> set thread_group" using Cons.prems by auto
  show ?case
    by (simp add: Init_rp_stores [OF t] Cons.IH [OF ts] group_stores_Cons)
qed

lemma distinct_thread_group: "distinct thread_group"
  unfolding thread_group_def
  by (rule distinct_concat) (auto simp: distinct_map inj_on_def)

text \<open>
  C2. When the 8x8 threads of a group run \<open>InitializeGroupSharedMemory\<close>, in any order,
  each with the four block offsets (0,0), (8,0), (0,8), (8,8), every entry of each 16x16
  shared tile of the prefilter and of the reprojection is written exactly once, and the
  entry at \<open>group_thread_id + offset\<close> holds what was loaded for the pixel
  \<open>(dispatch_thread_id - DISPATCH_OFFSET) + offset\<close>: the neighbourhood value in the
  prefilter, the radiance (with the weight 0) in the reprojection.
\<close>

theorem group_Initialize_writes_each_entry_once:
  assumes "distinct ts" and "set ts = set thread_group"
  shows "\<exists>shp shr.
      group_Initialize_pf cfg e dtid scr ts = Inr shp
    \<and> group_Initialize_rp cfg e dtid scr ts = Inr shr
    \<and> distinct (map fst (g_ffx_dnsr_shared_0_pf shp))
    \<and> fst ` set (g_ffx_dnsr_shared_0_pf shp) = tile_indices
    \<and> distinct (map fst (g_ffx_dnsr_shared_1_pf shp))
    \<and> fst ` set (g_ffx_dnsr_shared_1_pf shp) = tile_indices
    \<and> distinct (map fst (g_ffx_dnsr_shared_depth_pf shp))
    \<and> fst ` set (g_ffx_dnsr_shared_depth_pf shp) = tile_indices
    \<and> distinct (map fst (g_ffx_dnsr_shared_0_rp shr))
    \<and> fst ` set (g_ffx_dnsr_shared_0_rp shr) = tile_indices
    \<and> distinct (map fst (g_ffx_dnsr_shared_1_rp shr))
    \<and> fst ` set (g_ffx_dnsr_shared_1_rp shr) = tile_indices
    \<and> (\<forall>t \<in> set thread_group. \<forall>off \<in> set offset.
          FFX_DNSR_Reflections_LoadFromGroupSharedMemory_pf shp (add_int2 t off)
            = Inr (case FFX_DNSR_Reflections_LoadNeighborhood e
                          (add_int2 (sub_int2 (dtid t) (DISPATCH_OFFSET cfg)) off) scr of
                     (rad, var, nrm, dpt) \<Rightarrow>
                       \<lparr>radiance_pf = rad, variance_pf = var, normal_pf = nrm, depth_pf = dpt\<rparr>)
        \<and> FFX_DNSR_Reflections_LoadFromGroupSharedMemory_rp shr (add_int2 t off)
            = Inr \<lparr>radiance_rp = FFX_DNSR_Reflections_LoadRadiance e
                                    (add_int2 (sub_int2 (dtid t) (DISPATCH_OFFSET cfg)) off)\<rparr>
        \<and> tile_load (g_ffx_dnsr_shared_1_rp shr) (add_int2 t off) = Inr 0)"
proof -
  have sub: "set ts \<subseteq> set thread_group" using assms(2) by simp
  note d = distinct_group_stores [OF assms(1) sub]
  note k = group_stores_key_set [OF assms(2)]
  have ld: "\<And>t off. t \<in> set thread_group \<Longrightarrow> off \<in> set offset \<Longrightarrow>
               tile_load (group_stores val ts) (add_int2 t off) = Inr (val t off)" for val :: "int2 \<Rightarrow> int2 \<Rightarrow> 'b"
    using group_stores_load [OF assms(1) sub] assms(2) by blast
  define shp where "shp = \<lparr>g_ffx_dnsr_shared_0_pf =
             group_stores (\<lambda>t off. fst (FFX_DNSR_Reflections_LoadNeighborhood e
                           (add_int2 (sub_int2 (dtid t) (DISPATCH_OFFSET cfg)) off) scr)) ts,
           g_ffx_dnsr_shared_1_pf =
             group_stores (\<lambda>t off.
                    float4_of (fst (snd (snd (FFX_DNSR_Reflections_LoadNeighborhood e
                                                (add_int2 (sub_int2 (dtid t) (DISPATCH_OFFSET cfg)) off) scr))))
                              (fst (snd (FFX_DNSR_Reflections_LoadNeighborhood e
                                           (add_int2 (sub_int2 (dtid t) (DISPATCH_OFFSET cfg)) off) scr)))) ts,
           g_ffx_dnsr_shared_depth_pf =
             group_stores (\<lambda>t off.
                    snd (snd (snd (FFX_DNSR_Reflections_LoadNeighborhood e
                                     (add_int2 (sub_int2 (dtid t) (DISPATCH_OFFSET cfg)) off) scr)))) ts\<rparr>"
  define shr where "shr = \<lparr>g_ffx_dnsr_shared_0_rp =
             group_stores (\<lambda>t off. FFX_DNSR_Reflections_LoadRadiance e
                      (add_int2 (sub_int2 (dtid t) (DISPATCH_OFFSET cfg)) off)) ts,
           g_ffx_dnsr_shared_1_rp = group_stores (\<lambda>t off. 0 :: real) ts\<rparr>"
  have p: "group_Initialize_pf cfg e dtid scr ts = Inr shp"
    unfolding group_Initialize_pf_def group_Init_pf_stores [OF sub]
    by (simp add: shp_def empty_shared_pf_def)
  have r: "group_Initialize_rp cfg e dtid scr ts = Inr shr"
    unfolding group_Initialize_rp_def group_Init_rp_stores [OF sub]
    by (simp add: shr_def empty_shared_rp_def)
  have once: "distinct (map fst (g_ffx_dnsr_shared_0_pf shp))"
      "fst ` set (g_ffx_dnsr_shared_0_pf shp) = tile_indices"
      "distinct (map fst (g_ffx_dnsr_shared_1_pf shp))"
      "fst ` set (g_ffx_dnsr_shared_1_pf shp) = tile_indices"
      "distinct (map fst (g_ffx_dnsr_shared_depth_pf shp))"
      "fst ` set (g_ffx_dnsr_shared_depth_pf shp) = tile_indices"
      "distinct (map fst (g_ffx_dnsr_shared_0_rp shr))"
      "fst ` set (g_ffx_dnsr_shared_0_rp shr) = tile_indices"
      "distinct (map fst (g_ffx_dnsr_shared_1_rp shr))"
      "fst ` set (g_ffx_dnsr_shared_1_rp shr) = tile_indices"
    by (simp_all add: shp_def shr_def d k)
  have vals: "FFX_DNSR_Reflections_LoadFromGroupSharedMemory_pf shp (add_int2 t off)
            = Inr (case FFX_DNSR_Reflections_LoadNeighborhood e
                          (add_int2 (sub_int2 (dtid t) (DISPATCH_OFFSET cfg)) off) scr of
                     (rad, var, nrm, dpt) \<Rightarrow>
                       \<lparr>radiance_pf = rad, variance_pf = var, normal_pf = nrm, depth_pf = dpt\<rparr>)
        \<and> FFX_DNSR_Reflections_LoadFromGroupSharedMemory_rp shr (add_int2 t off)
            = Inr \<lparr>radiance_rp = FFX_DNSR_Reflections_LoadRadiance e
                                    (add_int2 (sub_int2 (dtid t) (DISPATCH_OFFSET cfg)) off)\<rparr>
        \<and> tile_load (g_ffx_dnsr_shared_1_rp shr) (add_int2 t off) = Inr 0"
    if "t \<in> set thread_group" "off \<in> set offset" for t off
    using that
    by (simp add: shp_def shr_def ld
          FFX_DNSR_Reflections_LoadFromGroupSharedMemory_pf_def
          FFX_DNSR_Reflections_LoadFromGroupSharedMemory_rp_def
          float4_of_def xyz_def split: prod.splits)
  show ?thesis
    apply (rule exI [of _ shp], rule exI [of _ shr])
    apply (simp only: p r once simp_thms)
    apply (intro ballI)
    apply (rule vals)
     apply assumption+
    done
qed

theorem group_Initialize_writes_each_entry_once_witness:
  "distinct thread_group \<and> set thread_group = set thread_group
   \<and> (\<exists>shp shr.
      group_Initialize_pf cfg_ex env_ex (add_int2 (8, 8)) (16, 16) thread_group = Inr shp
    \<and> group_Initialize_rp cfg_ex env_ex (add_int2 (8, 8)) (16, 16) thread_group = Inr shr
    \<and> distinct (map fst (g_ffx_dnsr_shared_0_pf shp))
    \<and> fst ` set (g_ffx_dnsr_shared_0_pf shp) = tile_indices
    \<and> distinct (map fst (g_ffx_dnsr_shared_0_rp shr))
    \<and> fst ` set (g_ffx_dnsr_shared_0_rp shr) = tile_indices
    \<and> FFX_DNSR_Reflections_LoadFromGroupSharedMemory_rp shr (add_int2 (3, 5) (8, 0))
         = Inr \<lparr>radiance_rp = FFX_DNSR_Reflections_LoadRadiance env_ex
                  (add_int2 (sub_int2 (add_int2 (8, 8) (3, 5)) (DISPATCH_OFFSET cfg_ex)) (8, 0))\<rparr>)"
proof -
  have t: "(3, 5) \<in> set thread_group" by (simp add: in_thread_group)
  have o: "(8, 0) \<in> set offset" by (simp add: offset_def)
  show ?thesis
    using distinct_thread_group t o
      group_Initialize_writes_each_entry_once [OF distinct_thread_group refl,
        of cfg_ex env_ex "add_int2 (8, 8)" "(16, 16)"]
    by fast
qed

section \<open>The kernels on the concrete dispatch\<close>

lemma exp_bound_2: "exp (- (7 / 5) :: real) * exp (- (99 / 100)) < 9 / 10"
proof -
  have "exp (- (7 / 5) :: real) * exp (- (99 / 100)) \<le> exp (- (7 / 5))"
    by (rule mult_left_le) simp_all
  then show ?thesis using exp_bound_1 by linarith
qed

lemma cfg_ex_simps:
  "DISPATCH_OFFSET cfg_ex = (4, 4)"
  "FFX_DNSR_REFLECTIONS_AVG_RADIANCE_LUMINANCE_WEIGHT cfg_ex = 3 / 10"
  "FFX_DNSR_REFLECTIONS_DISOCCLUSION_NORMAL_WEIGHT cfg_ex = 7 / 5"
  "FFX_DNSR_REFLECTIONS_DISOCCLUSION_DEPTH_WEIGHT cfg_ex = 1"
  "FFX_DNSR_REFLECTIONS_DISOCCLUSION_THRESHOLD cfg_ex = 9 / 10"
  "FFX_DNSR_REFLECTIONS_REPROJECTION_NORMAL_SIMILARITY_THRESHOLD cfg_ex = 9999 / 10000"
  "FFX_DNSR_REFLECTIONS_LOCAL_NEIGHBORHOOD_RADIUS cfg_ex = 1"
  "FFX_DNSR_REFLECTIONS_SAMPLES_FOR_ROUGHNESS cfg_ex = (\<lambda>r. 1 - exp (- r * 100))"
  "SampleCountIntersection cfg_ex = 1"
  by (simp_all add: cfg_ex_def)

lemma env_ex_simps:
  "FFX_DNSR_Reflections_LoadRoughness env_ex = (\<lambda>p. 1 / 4)"
  "FFX_DNSR_Reflections_LoadNeighborhood env_ex = (\<lambda>p scr. (float4 1 1 1 1, 1 / 2, float3 0 0 1, 1))"
  "FFX_DNSR_Reflections_IsGlossyReflection env_ex = (\<lambda>r. r < 3 / 5)"
  "FFX_DNSR_Reflections_IsMirrorReflection env_ex = (\<lambda>r. r < 1 / 10000)"
  "FFX_DNSR_Reflections_SampleAverageRadiance env_ex = (\<lambda>uv. float4 1 1 1 1)"
  "FFX_DNSR_Reflections_LoadRadiance env_ex = (\<lambda>p. float4 1 1 1 1)"
  "FFX_DNSR_Reflections_LoadRayLength env_ex = (\<lambda>p. 1)"
  "FFX_DNSR_Reflections_LoadDepth env_ex = (\<lambda>p. 1 / 2)"
  "FFX_DNSR_Reflections_LoadWorldSpaceNormal env_ex = (\<lambda>p. float3 0 0 1)"
  "FFX_DNSR_Reflections_LoadMotionVector env_ex = (\<lambda>p. float2 (1 / 2) (1 / 2))"
  "FFX_DNSR_Reflections_GetLinearDepth env_ex = (\<lambda>uv z. 1)"
  "FFX_DNSR_Reflections_Luminance env_ex = (\<lambda>v. 0)"
  "FFX_DNSR_Reflections_ComputeTemporalVariance env_ex = (\<lambda>a b. 0)"
  "InvProjectPosition env_ex = (\<lambda>v. float3 0 0 1)"
  "ProjectPosition env_ex = (\<lambda>v. v)"
  "g_vCameraPositionWs env_ex = float3 0 0 0"
  "Dimensions env_ex = float2 16 16"
  "InvDimensions env_ex = float2 (1 / 16) (1 / 16)"
  "Motion_Get env_ex = (\<lambda>v. v)"
  by (simp_all add: env_ex_def)

lemma env_rough_simps:
  "FFX_DNSR_Reflections_LoadRoughness env_rough = (\<lambda>p. 9 / 10)"
  "FFX_DNSR_Reflections_IsGlossyReflection env_rough = (\<lambda>r. r < 3 / 5)"
  "FFX_DNSR_Reflections_LoadRadiance env_rough = (\<lambda>p. float4 1 1 1 1)"
  "FFX_DNSR_Reflections_LoadRayLength env_rough = (\<lambda>p. 1)"
  "FFX_DNSR_Reflections_LoadWorldSpaceNormal env_rough = (\<lambda>p. float3 0 0 1)"
  "FFX_DNSR_Reflections_Luminance env_rough = (\<lambda>v. 0)"
  by (simp_all add: env_rough_def env_ex_def)

lemma tex_ex_simps:
  "sample (radiance_history tex_ex) = (\<lambda>uv. float4 1 1 1 1)"
  "sample (variance_history tex_ex) = (\<lambda>uv. 1 / 2)"
  "sample (num_samples_history tex_ex) = (\<lambda>uv. 4)"
  "sample (depth_history tex_ex) = (\<lambda>uv. 1 / 2)"
  "sample (normal_history tex_ex) = (\<lambda>uv. float3 1 0 0)"
  "sample (roughness_history tex_ex) = (\<lambda>uv. 1 / 4)"
  "load (normal_history tex_ex) = (\<lambda>p. float3 1 0 0)"
  "load (depth_history tex_ex) = (\<lambda>p. 1 / 2)"
  by (simp_all add: tex_ex_def const_texture_def)

lemmas history_defs =
  FFX_DNSR_Reflections_SampleRadianceHistory_def FFX_DNSR_Reflections_SampleVarianceHistory_def
  FFX_DNSR_Reflections_SampleNumSamplesHistory_def FFX_DNSR_Reflections_SampleDepthHistory_def
  FFX_DNSR_Reflections_SampleWorldSpaceNormalHistory_def FFX_DNSR_Reflections_SampleRoughnessHistory_def
  FFX_DNSR_Reflections_LoadWorldSpaceNormalHistory_def FFX_DNSR_Reflections_LoadDepthHistory_def
  GetContactHardenedRadianceHistory_def GetContactHardenedRadiance_def

lemma factor_ex:
  "FFX_DNSR_Reflections_GetDisocclusionFactor cfg_ex (float3 0 0 1) (float3 1 0 0) 1 1 = exp (- (7 / 5))"
  by (simp add: FFX_DNSR_Reflections_GetDisocclusionFactor_def cfg_ex_simps dot_def saturate_def Let_def)

lemma factor_ex_zero:
  "FFX_DNSR_Reflections_GetDisocclusionFactor cfg_ex (float3 0 0 1) (float3 0 0 0) 1 0
     = exp (- (7 / 5)) * exp (- (99 / 100))"
  by (simp add: FFX_DNSR_Reflections_GetDisocclusionFactor_def cfg_ex_simps dot_def saturate_def Let_def)

lemma choose_ex:
  "PickReprojection_choose cfg_ex env_ex tex_ex (0, 0) (16, 16) (1 / 4) 1
     = ((exp (- (7 / 5)), float2 (1 / 2) (1 / 2), float4 1 1 1 1), float3 0 0 1, 1)"
  by (simp add: PickReprojection_choose_def history_defs tex_ex_simps env_ex_simps cfg_ex_simps
      FFX_DNSR_Reflections_GetHitPositionReprojection_def normalize_def length3_def dot_def
      factor_ex Let_def)

lemma search_step_ex:
  "search_step cfg_ex env_ex tex_ex (float3 0 0 1) 1 dudv r off (exp (- (7 / 5)), c, uv)
     = (exp (- (7 / 5)), c, uv)"
  by (simp add: search_step_def history_defs tex_ex_simps env_ex_simps factor_ex Let_def)

lemma search_ex:
  "PickReprojection_search cfg_ex env_ex tex_ex (16, 16) (1 / 4) (float3 0 0 1) 1
     (exp (- (7 / 5)), float2 (1 / 2) (1 / 2), float4 1 1 1 1)
     = (exp (- (7 / 5)), float2 (1 / 2) (1 / 2), float4 1 1 1 1)"
  by (simp add: PickReprojection_search_def spiral_offsets_def search_step_ex upto.simps
      history_defs tex_ex_simps Let_def)

lemma bilinear_ex:
  "PickReprojection_bilinear cfg_ex env_ex tex_ex (16, 16) (float3 0 0 1) 1
     (exp (- (7 / 5)), float2 (1 / 2) (1 / 2), float4 1 1 1 1)
     = (exp (- (7 / 5)) * exp (- (99 / 100)), float2 (1 / 2) (1 / 2), float4 0 0 0 0)"
  using exp_bound_1
  by (simp add: PickReprojection_bilinear_def history_defs tex_ex_simps env_ex_simps cfg_ex_simps
      factor_ex factor_ex_zero Let_def scale4_def plus_float4_def scale3_def add3_def)

lemma Pick_ex:
  "FFX_DNSR_Reflections_PickReprojection cfg_ex env_ex tex_ex sh (0, 0) g (16, 16) (1 / 4) 1
     = ebind (FFX_DNSR_Reflections_EstimateLocalNeighborhoodInGroup cfg_ex sh g)
         (\<lambda>m. Inr (0, float2 (1 / 2) (1 / 2), float4 0 0 0 0))"
  using exp_bound_1 exp_bound_2
  by (simp add: FFX_DNSR_Reflections_PickReprojection_def choose_ex search_ex bilinear_ex
      cfg_ex_simps Let_def)

lemma length_tile_list: "length tile_list = 256"
  by (simp add: tile_list_def length_concat comp_def sum_list_triv)

lemma Init_ex:
  "FFX_DNSR_Reflections_InitializeGroupSharedMemory_rp cfg_ex env_ex full_rp (0, 0) (0, 0) scr
     = Inr \<lparr>g_ffx_dnsr_shared_0_rp =
              ((8, 8), float4 1 1 1 1) # ((0, 8), float4 1 1 1 1) # ((8, 0), float4 1 1 1 1)
              # ((0, 0), float4 1 1 1 1) # full_tile (float4 1 1 1 1),
            g_ffx_dnsr_shared_1_rp =
              ((8, 8), 0) # ((0, 8), 0) # ((8, 0), 0) # ((0, 0), 0) # full_tile 0\<rparr>"
  by (simp add: Init_rp_stores in_thread_group offset_def env_ex_simps add_int2_def full_rp_def)

lemmas shared_eval =
  tile_load_Cons tile_load_full in_tile_def Store_rp_in add_int2_def sub_int2_def
  FFX_DNSR_Reflections_LoadFromGroupSharedMemory_rp_def FFX_DNSR_Reflections_LoadFromGroupSharedMemoryRaw_def

lemma Estimate_ex_own:
  "FFX_DNSR_Reflections_EstimateLocalNeighborhoodInGroup cfg_ex
     \<lparr>g_ffx_dnsr_shared_0_rp =
              ((8, 8), float4 1 1 1 1) # ((0, 8), float4 1 1 1 1) # ((8, 0), float4 1 1 1 1)
              # ((0, 0), float4 1 1 1 1) # full_tile (float4 1 1 1 1),
      g_ffx_dnsr_shared_1_rp = ws'\<rparr> (4, 4)
       = Inr \<lparr>mean = float4 1 1 1 1, variance = float4 0 0 0 0\<rparr>"
  by (simp add: FFX_DNSR_Reflections_EstimateLocalNeighborhoodInGroup_def cfg_ex_def upto.simps
      Estimate_step_def shared_eval Let_def scale4_def mul4_def plus_float4_def zero_float4_def
      div4_def sub4_def abs4_def)

lemma glossy_ex:
  "Reproject_glossy cfg_ex env_ex tex_ex
     \<lparr>g_ffx_dnsr_shared_0_rp =
              ((8, 8), float4 1 1 1 1) # ((0, 8), float4 1 1 1 1) # ((8, 0), float4 1 1 1 1)
              # ((0, 0), float4 1 1 1 1) # full_tile (float4 1 1 1 1),
      g_ffx_dnsr_shared_1_rp = ws'\<rparr> (0, 0) (4, 4) (16, 16) ms (1 / 4) 1 rad
   = Inr (FFX_DNSR_Reflections_StoreNumSamples (0, 0) 1
           (FFX_DNSR_Reflections_StoreVariance (0, 0) 1
             (FFX_DNSR_Reflections_StoreRadianceReprojected (0, 0) (float4 0 0 0 0) tex_ex)), rad)"
  by (simp add: Reproject_glossy_def Pick_ex Estimate_ex_own cfg_ex_simps Let_def)


lemma length_full_tile: "length (full_tile v) = 256"
  by (simp add: full_tile_def length_tile_list)

lemma Reproject_stores_ex:
  "Reproject_stores cfg_ex env_ex no_interference tex_ex full_rp (0, 0) (0, 0) (16, 16) 0 32 = Inr 264"
  by (simp add: Reproject_stores_def FFX_DNSR_Reflections_Reproject_def Init_ex glossy_ex
      no_interference_def env_ex_simps cfg_ex_simps GetContactHardenedRadiance_def
      FFX_DNSR_Reflections_GetLuminanceWeight_def Reproject_downsample_def shared_eval
      Let_def xyz_def set_xyz_def scale3_def uint_of_int_def stores_rp_def length_full_tile)

section \<open>What the kernels store\<close>

lemma add_sub_center: "sub_int2 (add_int2 g (4, 4)) (4, 4) = g"
  by (cases g) (simp add: add_int2_def sub_int2_def)

lemma Reproject_glossy_Inr:
  assumes "Reproject_glossy cfg e tex sh p g scr ms roughness ray_length rad = Inr (texg, rad')"
  shows "\<exists>d uv r. FFX_DNSR_Reflections_PickReprojection cfg e tex sh p g scr roughness ray_length
                     = Inr (d, uv, r)
           \<and> (if d < FFX_DNSR_REFLECTIONS_DISOCCLUSION_THRESHOLD cfg
               then texg = FFX_DNSR_Reflections_StoreNumSamples p 1
                             (FFX_DNSR_Reflections_StoreVariance p 1
                               (FFX_DNSR_Reflections_StoreRadianceReprojected p (float4 0 0 0 0) tex))
                    \<and> rad' = rad
               else (\<exists>vm ns. texg = FFX_DNSR_Reflections_StoreNumSamples p ns
                                      (FFX_DNSR_Reflections_StoreVariance p vm
                                        (FFX_DNSR_Reflections_StoreRadianceReprojected p r tex))))"
proof -
  from assms obtain v where
    pick: "FFX_DNSR_Reflections_PickReprojection cfg e tex sh p g scr roughness ray_length = Inr v"
    unfolding Reproject_glossy_def ebind_eq_Inr by blast
  obtain d uv r where v: "v = (d, uv, r)" by (cases v) auto
  show ?thesis
    using assms unfolding Reproject_glossy_def pick v ebind_Inr prod.case Let_def
    by (auto split: if_splits)
qed

lemma Reproject_Inr:
  assumes "FFX_DNSR_Reflections_Reproject cfg e barrier tex sh p g scr tsf ms = Inr (tex', sh')"
  shows "\<exists>sh1 texg rad rw wt sh2.
      FFX_DNSR_Reflections_InitializeGroupSharedMemory_rp cfg e sh p g (int2_of_uint2 scr) = Inr sh1
    \<and> (if FFX_DNSR_Reflections_IsGlossyReflection e (FFX_DNSR_Reflections_LoadRoughness e p)
        then Reproject_glossy cfg e tex (barrier 0 sh1) p (add_int2 g (4, 4)) scr ms
               (FFX_DNSR_Reflections_LoadRoughness e p) (FFX_DNSR_Reflections_LoadRayLength e p)
               (GetContactHardenedRadiance e p)
        else Inr (tex, GetContactHardenedRadiance e p)) = Inr (texg, rad)
    \<and> FFX_DNSR_Reflections_StoreInGroupSharedMemory_rp (barrier 0 sh1) g rw wt = Inr sh2
    \<and> efold (Reproject_downsample barrier g) [(2, 2), (3, 4), (4, 8)] (barrier 1 sh2) = Inr sh'
    \<and> (tex' = texg \<or> (\<exists>q v. tex' = FFX_DNSR_Reflections_StoreAverageRadiance q v texg))"
proof -
  from assms obtain sh1 where
    init: "FFX_DNSR_Reflections_InitializeGroupSharedMemory_rp cfg e sh p g (int2_of_uint2 scr) = Inr sh1"
    unfolding FFX_DNSR_Reflections_Reproject_def ebind_eq_Inr by blast
  note run = assms [unfolded FFX_DNSR_Reflections_Reproject_def init ebind_Inr Let_def add_sub_center]
  from run obtain tr where
    br: "(if FFX_DNSR_Reflections_IsGlossyReflection e (FFX_DNSR_Reflections_LoadRoughness e p)
        then Reproject_glossy cfg e tex (barrier 0 sh1) p (add_int2 g (4, 4)) scr ms
               (FFX_DNSR_Reflections_LoadRoughness e p) (FFX_DNSR_Reflections_LoadRayLength e p)
               (GetContactHardenedRadiance e p)
        else Inr (tex, GetContactHardenedRadiance e p)) = Inr tr"
    unfolding ebind_eq_Inr by blast
  obtain texg rad where tr: "tr = (texg, rad)" by (cases tr) auto
  note run2 = run [unfolded br tr ebind_Inr prod.case]
  obtain rw wt where rwwt: "(rw, wt) =
      (if (uint_of_int (fst p) \<ge> fst scr \<or> uint_of_int (snd p) \<ge> snd scr)
          \<or> FFX_DNSR_Reflections_GetLuminanceWeight cfg e (xyz rad) > 1000
       then (float4 0 0 0 0, 0)
       else (set_xyz rad (scale3 (FFX_DNSR_Reflections_GetLuminanceWeight cfg e (xyz rad)) (xyz rad)),
             FFX_DNSR_Reflections_GetLuminanceWeight cfg e (xyz rad)))"
    by (rule prod.exhaust [of "if (uint_of_int (fst p) \<ge> fst scr \<or> uint_of_int (snd p) \<ge> snd scr)
          \<or> FFX_DNSR_Reflections_GetLuminanceWeight cfg e (xyz rad) > 1000
       then (float4 0 0 0 0, 0)
       else (set_xyz rad (scale3 (FFX_DNSR_Reflections_GetLuminanceWeight cfg e (xyz rad)) (xyz rad)),
             FFX_DNSR_Reflections_GetLuminanceWeight cfg e (xyz rad))"]) simp
  note run3 = run2 [folded rwwt, unfolded prod.case]
  from run3 obtain sh2 where
    st: "FFX_DNSR_Reflections_StoreInGroupSharedMemory_rp (barrier 0 sh1) g rw wt = Inr sh2"
    unfolding ebind_eq_Inr by blast
  note run4 = run3 [unfolded st ebind_Inr]
  from run4 obtain sh3 where
    ds: "efold (Reproject_downsample barrier g) [(2, 2), (3, 4), (4, 8)] (barrier 1 sh2) = Inr sh3"
    unfolding ebind_eq_Inr by blast
  note run5 = run4 [unfolded ds ebind_Inr]
  have fin: "sh' = sh3 \<and> (tex' = texg \<or> (\<exists>q v. tex' = FFX_DNSR_Reflections_StoreAverageRadiance q v texg))"
    using run5 by (auto simp: ebind_eq_Inr split: if_splits)
  show ?thesis using init br tr st ds fin by blast
qed

lemma Prefilter_Inr:
  assumes "FFX_DNSR_Reflections_Prefilter cfg e barrier tex sh p g scr = Inr (tex', sh')"
  shows "\<exists>sh1 rad var.
      FFX_DNSR_Reflections_InitializeGroupSharedMemory_pf cfg e sh p g (int2_of_uint2 scr) = Inr sh1
    \<and> sh' = barrier 0 sh1
    \<and> tex' = FFX_DNSR_Reflections_StorePrefilteredReflections p rad var tex"
  using assms unfolding FFX_DNSR_Reflections_Prefilter_def Let_def
  by (auto simp: ebind_eq_Inr split: prod.splits)


lemma ebind_InrE:
  assumes "ebind m f = Inr r"
  obtains v where "m = Inr v" and "f v = Inr r"
  using assms by (auto simp: ebind_eq_Inr)

lemma Store_rp_Inr_both:
  "FFX_DNSR_Reflections_StoreInGroupSharedMemory_rp sh idx rad wt = Inr sh'
     \<Longrightarrow> g_ffx_dnsr_shared_0_rp sh' = (idx, rad) # g_ffx_dnsr_shared_0_rp sh
       \<and> g_ffx_dnsr_shared_1_rp sh' = (idx, wt) # g_ffx_dnsr_shared_1_rp sh"
  by (auto simp: FFX_DNSR_Reflections_StoreInGroupSharedMemory_rp_def tile_store_def ebind_eq_Inr
      split: if_splits)

lemma Reproject_Inr_shared:
  assumes "FFX_DNSR_Reflections_Reproject cfg e barrier tex sh p g scr tsf ms = Inr (tex', sh')"
  shows "\<exists>sh1 texg rad rw wt sh2.
      FFX_DNSR_Reflections_InitializeGroupSharedMemory_rp cfg e sh p g (int2_of_uint2 scr) = Inr sh1
    \<and> (if FFX_DNSR_Reflections_IsGlossyReflection e (FFX_DNSR_Reflections_LoadRoughness e p)
        then Reproject_glossy cfg e tex (barrier 0 sh1) p (add_int2 g (4, 4)) scr ms
               (FFX_DNSR_Reflections_LoadRoughness e p) (FFX_DNSR_Reflections_LoadRayLength e p)
               (GetContactHardenedRadiance e p)
        else Inr (tex, GetContactHardenedRadiance e p)) = Inr (texg, rad)
    \<and> (rw, wt) =
        (if (uint_of_int (fst p) \<ge> fst scr \<or> uint_of_int (snd p) \<ge> snd scr)
            \<or> FFX_DNSR_Reflections_GetLuminanceWeight cfg e (xyz rad) > 1000
         then (float4 0 0 0 0, 0)
         else (set_xyz rad (scale3 (FFX_DNSR_Reflections_GetLuminanceWeight cfg e (xyz rad)) (xyz rad)),
               FFX_DNSR_Reflections_GetLuminanceWeight cfg e (xyz rad)))
    \<and> g_ffx_dnsr_shared_0_rp sh2 = (g, rw) # g_ffx_dnsr_shared_0_rp (barrier 0 sh1)
    \<and> g_ffx_dnsr_shared_1_rp sh2 = (g, wt) # g_ffx_dnsr_shared_1_rp (barrier 0 sh1)
    \<and> efold (Reproject_downsample barrier g) [(2, 2), (3, 4), (4, 8)] (barrier 1 sh2) = Inr sh'"
proof -
  from assms obtain sh1 where
    init: "FFX_DNSR_Reflections_InitializeGroupSharedMemory_rp cfg e sh p g (int2_of_uint2 scr) = Inr sh1"
    unfolding FFX_DNSR_Reflections_Reproject_def ebind_eq_Inr by blast
  note run = assms [unfolded FFX_DNSR_Reflections_Reproject_def init ebind_Inr Let_def add_sub_center]
  from run obtain tr where
    br: "(if FFX_DNSR_Reflections_IsGlossyReflection e (FFX_DNSR_Reflections_LoadRoughness e p)
        then Reproject_glossy cfg e tex (barrier 0 sh1) p (add_int2 g (4, 4)) scr ms
               (FFX_DNSR_Reflections_LoadRoughness e p) (FFX_DNSR_Reflections_LoadRayLength e p)
               (GetContactHardenedRadiance e p)
        else Inr (tex, GetContactHardenedRadiance e p)) = Inr tr"
    unfolding ebind_eq_Inr by blast
  obtain texg rad where tr: "tr = (texg, rad)" by (cases tr) auto
  note run2 = run [unfolded br tr ebind_Inr prod.case]
  obtain rw wt where rwwt: "(rw, wt) =
      (if (uint_of_int (fst p) \<ge> fst scr \<or> uint_of_int (snd p) \<ge> snd scr)
          \<or> FFX_DNSR_Reflections_GetLuminanceWeight cfg e (xyz rad) > 1000
       then (float4 0 0 0 0, 0)
       else (set_xyz rad (scale3 (FFX_DNSR_Reflections_GetLuminanceWeight cfg e (xyz rad)) (xyz rad)),
             FFX_DNSR_Reflections_GetLuminanceWeight cfg e (xyz rad)))"
    by (rule prod.exhaust [of "if (uint_of_int (fst p) \<ge> fst scr \<or> uint_of_int (snd p) \<ge> snd scr)
          \<or> FFX_DNSR_Reflections_GetLuminanceWeight cfg e (xyz rad) > 1000
       then (float4 0 0 0 0, 0)
       else (set_xyz rad (scale3 (FFX_DNSR_Reflections_GetLuminanceWeight cfg e (xyz rad)) (xyz rad)),
             FFX_DNSR_Reflections_GetLuminanceWeight cfg e (xyz rad))"]) simp
  note run3 = run2 [folded rwwt, unfolded prod.case]
  from run3 obtain sh2 where
    st: "FFX_DNSR_Reflections_StoreInGroupSharedMemory_rp (barrier 0 sh1) g rw wt = Inr sh2"
    unfolding ebind_eq_Inr by blast
  note run4 = run3 [unfolded st ebind_Inr]
  from run4 obtain sh3 where
    ds: "efold (Reproject_downsample barrier g) [(2, 2), (3, 4), (4, 8)] (barrier 1 sh2) = Inr sh3"
    unfolding ebind_eq_Inr by blast
  note run5 = run4 [unfolded ds ebind_Inr]
  have fin: "sh' = sh3"
    using run5 by (auto simp: ebind_eq_Inr split: if_splits)
  show ?thesis using init br tr rwwt Store_rp_Inr_both [OF st] ds fin by blast
qed

lemma Reproject_downsample_round:
  assumes "Reproject_downsample barrier g (k, i) s = Inr s'"
  shows "if fst g * i + i div 2 < 8 \<and> snd g * i + i div 2 < 8
         then (\<exists>c w s''. g_ffx_dnsr_shared_0_rp s'' = ((fst g * i, snd g * i), c) # g_ffx_dnsr_shared_0_rp s
                       \<and> g_ffx_dnsr_shared_1_rp s'' = ((fst g * i, snd g * i), w) # g_ffx_dnsr_shared_1_rp s
                       \<and> s' = barrier k s'')
         else s' = barrier k s"
proof (cases "fst g * i + i div 2 < 8 \<and> snd g * i + i div 2 < 8")
  case True
  have "\<exists>c w s''. FFX_DNSR_Reflections_StoreInGroupSharedMemory_rp s (fst g * i, snd g * i) c w = Inr s''
                  \<and> s' = barrier k s''"
    using True assms unfolding Reproject_downsample_def prod.case Let_def
    by (simp only: if_True simp_thms) (elim ebind_InrE, fastforce)
  then obtain c w s'' where
    st: "FFX_DNSR_Reflections_StoreInGroupSharedMemory_rp s (fst g * i, snd g * i) c w = Inr s''"
    and s': "s' = barrier k s''" by blast
  from Store_rp_Inr_both [OF st] s' True show ?thesis by auto
next
  case False
  then show ?thesis
    using assms unfolding Reproject_downsample_def prod.case Let_def
    by (simp only: if_False ebind_Inr) simp
qed

text \<open>
  C3, as the code has it. In the prefilter no operation after
  \<open>InitializeGroupSharedMemory\<close> writes a shared tile: the kernel ends with the shared
  memory it saw at the barrier. The reprojection kernel writes the tiles again, whatever
  the other threads of the group do: after the first barrier every thread stores, at
  \<open>group_thread_id\<close>, its weighted radiance in the radiance tile and its weight in the
  weight tile (both zero off screen or for a weight above 1000), and runs the three
  rounds of the 8x8 to 1 downsampling on the result. A round stores one entry of both
  tiles, at \<open>group_thread_id * i\<close>, when \<open>group_thread_id * i + i / 2\<close> is below 8 in
  both coordinates, and nothing otherwise.
\<close>

theorem shared_tiles_after_Initialize:
  assumes "FFX_DNSR_Reflections_Prefilter cfg e barrier tex sh p g scr = Inr (texp, shp)"
    and "FFX_DNSR_Reflections_Reproject cfg e barrier' tex shr0 q h scr' tsf ms = Inr (texr, shr)"
  shows "(\<exists>sh1. FFX_DNSR_Reflections_InitializeGroupSharedMemory_pf cfg e sh p g (int2_of_uint2 scr) = Inr sh1
            \<and> shp = barrier 0 sh1)
       \<and> (\<exists>sh1 texg rad rw wt sh2.
              FFX_DNSR_Reflections_InitializeGroupSharedMemory_rp cfg e shr0 q h (int2_of_uint2 scr') = Inr sh1
            \<and> (if FFX_DNSR_Reflections_IsGlossyReflection e (FFX_DNSR_Reflections_LoadRoughness e q)
                then Reproject_glossy cfg e tex (barrier' 0 sh1) q (add_int2 h (4, 4)) scr' ms
                       (FFX_DNSR_Reflections_LoadRoughness e q) (FFX_DNSR_Reflections_LoadRayLength e q)
                       (GetContactHardenedRadiance e q)
                else Inr (tex, GetContactHardenedRadiance e q)) = Inr (texg, rad)
            \<and> (rw, wt) =
                (if (uint_of_int (fst q) \<ge> fst scr' \<or> uint_of_int (snd q) \<ge> snd scr')
                    \<or> FFX_DNSR_Reflections_GetLuminanceWeight cfg e (xyz rad) > 1000
                 then (float4 0 0 0 0, 0)
                 else (set_xyz rad (scale3 (FFX_DNSR_Reflections_GetLuminanceWeight cfg e (xyz rad)) (xyz rad)),
                       FFX_DNSR_Reflections_GetLuminanceWeight cfg e (xyz rad)))
            \<and> g_ffx_dnsr_shared_0_rp sh2 = (h, rw) # g_ffx_dnsr_shared_0_rp (barrier' 0 sh1)
            \<and> g_ffx_dnsr_shared_1_rp sh2 = (h, wt) # g_ffx_dnsr_shared_1_rp (barrier' 0 sh1)
            \<and> efold (Reproject_downsample barrier' h) [(2, 2), (3, 4), (4, 8)] (barrier' 1 sh2) = Inr shr)
       \<and> (\<forall>k i s s'. Reproject_downsample barrier' h (k, i) s = Inr s' \<longrightarrow>
             (if fst h * i + i div 2 < 8 \<and> snd h * i + i div 2 < 8
              then (\<exists>c w s''. g_ffx_dnsr_shared_0_rp s'' = ((fst h * i, snd h * i), c) # g_ffx_dnsr_shared_0_rp s
                            \<and> g_ffx_dnsr_shared_1_rp s'' = ((fst h * i, snd h * i), w) # g_ffx_dnsr_shared_1_rp s
                            \<and> s' = barrier' k s'')
              else s' = barrier' k s))"
proof (intro conjI)
  show "\<exists>sh1. FFX_DNSR_Reflections_InitializeGroupSharedMemory_pf cfg e sh p g (int2_of_uint2 scr) = Inr sh1
            \<and> shp = barrier 0 sh1"
    using Prefilter_Inr [OF assms(1)] by blast
next
  show "\<exists>sh1 texg rad rw wt sh2.
              FFX_DNSR_Reflections_InitializeGroupSharedMemory_rp cfg e shr0 q h (int2_of_uint2 scr') = Inr sh1
            \<and> (if FFX_DNSR_Reflections_IsGlossyReflection e (FFX_DNSR_Reflections_LoadRoughness e q)
                then Reproject_glossy cfg e tex (barrier' 0 sh1) q (add_int2 h (4, 4)) scr' ms
                       (FFX_DNSR_Reflections_LoadRoughness e q) (FFX_DNSR_Reflections_LoadRayLength e q)
                       (GetContactHardenedRadiance e q)
                else Inr (tex, GetContactHardenedRadiance e q)) = Inr (texg, rad)
            \<and> (rw, wt) =
                (if (uint_of_int (fst q) \<ge> fst scr' \<or> uint_of_int (snd q) \<ge> snd scr')
                    \<or> FFX_DNSR_Reflections_GetLuminanceWeight cfg e (xyz rad) > 1000
                 then (float4 0 0 0 0, 0)
                 else (set_xyz rad (scale3 (FFX_DNSR_Reflections_GetLuminanceWeight cfg e (xyz rad)) (xyz rad)),
                       FFX_DNSR_Reflections_GetLuminanceWeight cfg e (xyz rad)))
            \<and> g_ffx_dnsr_shared_0_rp sh2 = (h, rw) # g_ffx_dnsr_shared_0_rp (barrier' 0 sh1)
            \<and> g_ffx_dnsr_shared_1_rp sh2 = (h, wt) # g_ffx_dnsr_shared_1_rp (barrier' 0 sh1)
            \<and> efold (Reproject_downsample barrier' h) [(2, 2), (3, 4), (4, 8)] (barrier' 1 sh2) = Inr shr"
    by (rule Reproject_Inr_shared [OF assms(2)])
next
  show "\<forall>k i s s'. Reproject_downsample barrier' h (k, i) s = Inr s' \<longrightarrow>
             (if fst h * i + i div 2 < 8 \<and> snd h * i + i div 2 < 8
              then (\<exists>c w s''. g_ffx_dnsr_shared_0_rp s'' = ((fst h * i, snd h * i), c) # g_ffx_dnsr_shared_0_rp s
                            \<and> g_ffx_dnsr_shared_1_rp s'' = ((fst h * i, snd h * i), w) # g_ffx_dnsr_shared_1_rp s
                            \<and> s' = barrier' k s'')
              else s' = barrier' k s)"
    using Reproject_downsample_round by blast
qed

lemmas store_defs =
  FFX_DNSR_Reflections_StoreRadianceReprojected_def FFX_DNSR_Reflections_StoreVariance_def
  FFX_DNSR_Reflections_StoreNumSamples_def FFX_DNSR_Reflections_StoreAverageRadiance_def
  FFX_DNSR_Reflections_StorePrefilteredReflections_def

text \<open>
  C1. For a glossy pixel whose disocclusion factor, as \<open>PickReprojection\<close> returns it
  after all its searches, is below \<open>FFX_DNSR_REFLECTIONS_DISOCCLUSION_THRESHOLD\<close>,
  \<open>Reproject\<close> discards the history: when the kernel completes, the pixel holds the
  reprojected radiance zero, the variance 1 and the sample count 1.
\<close>

theorem Reproject_discards_history_on_disocclusion:
  assumes "FFX_DNSR_Reflections_IsGlossyReflection e (FFX_DNSR_Reflections_LoadRoughness e p)"
    and "FFX_DNSR_Reflections_InitializeGroupSharedMemory_rp cfg e sh p g (int2_of_uint2 scr) = Inr sh1"
    and "FFX_DNSR_Reflections_PickReprojection cfg e tex (barrier 0 sh1) p (add_int2 g (4, 4)) scr
           (FFX_DNSR_Reflections_LoadRoughness e p) (FFX_DNSR_Reflections_LoadRayLength e p)
           = Inr (d, uv, r)"
    and "d < FFX_DNSR_REFLECTIONS_DISOCCLUSION_THRESHOLD cfg"
    and "FFX_DNSR_Reflections_Reproject cfg e barrier tex sh p g scr tsf ms = Inr (tex', sh')"
  shows "radiance_reprojected tex' p = Some (float4 0 0 0 0)
       \<and> variance_out tex' p = Some 1
       \<and> num_samples_out tex' p = Some 1"
proof -
  from Reproject_Inr [OF assms(5)] obtain sh1' texg rad where
    init: "FFX_DNSR_Reflections_InitializeGroupSharedMemory_rp cfg e sh p g (int2_of_uint2 scr) = Inr sh1'"
    and br: "(if FFX_DNSR_Reflections_IsGlossyReflection e (FFX_DNSR_Reflections_LoadRoughness e p)
        then Reproject_glossy cfg e tex (barrier 0 sh1') p (add_int2 g (4, 4)) scr ms
               (FFX_DNSR_Reflections_LoadRoughness e p) (FFX_DNSR_Reflections_LoadRayLength e p)
               (GetContactHardenedRadiance e p)
        else Inr (tex, GetContactHardenedRadiance e p)) = Inr (texg, rad)"
    and fin: "tex' = texg \<or> (\<exists>q v. tex' = FFX_DNSR_Reflections_StoreAverageRadiance q v texg)"
    by blast
  have "sh1' = sh1" using init assms(2) by simp
  then have gl: "Reproject_glossy cfg e tex (barrier 0 sh1) p (add_int2 g (4, 4)) scr ms
           (FFX_DNSR_Reflections_LoadRoughness e p) (FFX_DNSR_Reflections_LoadRayLength e p)
           (GetContactHardenedRadiance e p) = Inr (texg, rad)"
    using br assms(1) by simp
  from Reproject_glossy_Inr [OF gl] assms(3,4)
  have "texg = FFX_DNSR_Reflections_StoreNumSamples p 1
                 (FFX_DNSR_Reflections_StoreVariance p 1
                   (FFX_DNSR_Reflections_StoreRadianceReprojected p (float4 0 0 0 0) tex))"
    by auto
  then show ?thesis using fin by (auto simp: store_defs)
qed

text \<open>
  C7, as the code has it. Every invocation of \<open>Prefilter\<close> that completes has stored a
  radiance and a variance for its pixel. An invocation of \<open>Reproject\<close> that completes
  has stored a reprojected radiance, a variance and a sample count for its pixel when the
  pixel is a glossy reflection; for any other pixel it leaves these three outputs as
  they were.
\<close>

theorem kernels_store_outputs:
  assumes "FFX_DNSR_Reflections_Prefilter cfg e barrier tex sh p g scr = Inr (texp, shp)"
    and "FFX_DNSR_Reflections_Reproject cfg e barrier' tex shr0 q h scr' tsf ms = Inr (texr, shr)"
  shows "(\<exists>rad var. prefiltered_reflections texp p = Some (rad, var))
       \<and> (if FFX_DNSR_Reflections_IsGlossyReflection e (FFX_DNSR_Reflections_LoadRoughness e q)
           then (\<exists>rr vo ns. pixel_outputs texr q = (Some rr, Some vo, Some ns))
           else pixel_outputs texr q = pixel_outputs tex q)"
proof
  show "\<exists>rad var. prefiltered_reflections texp p = Some (rad, var)"
    using Prefilter_Inr [OF assms(1)] by (auto simp: store_defs)
next
  from Reproject_Inr [OF assms(2)] obtain sh1 texg rad where
    br: "(if FFX_DNSR_Reflections_IsGlossyReflection e (FFX_DNSR_Reflections_LoadRoughness e q)
        then Reproject_glossy cfg e tex (barrier' 0 sh1) q (add_int2 h (4, 4)) scr' ms
               (FFX_DNSR_Reflections_LoadRoughness e q) (FFX_DNSR_Reflections_LoadRayLength e q)
               (GetContactHardenedRadiance e q)
        else Inr (tex, GetContactHardenedRadiance e q)) = Inr (texg, rad)"
    and fin: "texr = texg \<or> (\<exists>q v. texr = FFX_DNSR_Reflections_StoreAverageRadiance q v texg)"
    by blast
  have same: "pixel_outputs texr q = pixel_outputs texg q"
    using fin by (auto simp: pixel_outputs_def store_defs)
  show "if FFX_DNSR_Reflections_IsGlossyReflection e (FFX_DNSR_Reflections_LoadRoughness e q)
        then (\<exists>rr vo ns. pixel_outputs texr q = (Some rr, Some vo, Some ns))
        else pixel_outputs texr q = pixel_outputs tex q"
  proof (cases "FFX_DNSR_Reflections_IsGlossyReflection e (FFX_DNSR_Reflections_LoadRoughness e q)")
    case True
    with br have "Reproject_glossy cfg e tex (barrier' 0 sh1) q (add_int2 h (4, 4)) scr' ms
               (FFX_DNSR_Reflections_LoadRoughness e q) (FFX_DNSR_Reflections_LoadRayLength e q)
               (GetContactHardenedRadiance e q) = Inr (texg, rad)" by simp
    from Reproject_glossy_Inr [OF this]
    have "\<exists>rr vo ns. texg = FFX_DNSR_Reflections_StoreNumSamples q ns
                                      (FFX_DNSR_Reflections_StoreVariance q vo
                                        (FFX_DNSR_Reflections_StoreRadianceReprojected q rr tex))"
      by (auto split: if_splits)
    then have "\<exists>rr vo ns. pixel_outputs texg q = (Some rr, Some vo, Some ns)"
      by (auto simp: pixel_outputs_def store_defs)
    then show ?thesis using True same by simp
  next
    case False
    with br have "texg = tex" by simp
    then show ?thesis using False same by simp
  qed
qed

text \<open>
  C5. Both kernels only read the history textures (radiance, variance, sample count,
  depth, normal, roughness): a completed \<open>Prefilter\<close> has changed nothing but the
  prefiltered reflections, a completed \<open>Reproject\<close> nothing but the reprojected
  radiance, the variance, the sample count and the average radiance.
\<close>

theorem kernels_leave_history_untouched:
  assumes "FFX_DNSR_Reflections_Prefilter cfg e barrier tex sh p g scr = Inr (texp, shp)"
    and "FFX_DNSR_Reflections_Reproject cfg e barrier' tex shr0 q h scr' tsf ms = Inr (texr, shr)"
  shows "(radiance_history texp = radiance_history tex \<and> variance_history texp = variance_history tex
          \<and> num_samples_history texp = num_samples_history tex \<and> depth_history texp = depth_history tex
          \<and> normal_history texp = normal_history tex \<and> roughness_history texp = roughness_history tex
          \<and> radiance_reprojected texp = radiance_reprojected tex \<and> variance_out texp = variance_out tex
          \<and> num_samples_out texp = num_samples_out tex \<and> average_radiance texp = average_radiance tex)
       \<and> (radiance_history texr = radiance_history tex \<and> variance_history texr = variance_history tex
          \<and> num_samples_history texr = num_samples_history tex \<and> depth_history texr = depth_history tex
          \<and> normal_history texr = normal_history tex \<and> roughness_history texr = roughness_history tex
          \<and> prefiltered_reflections texr = prefiltered_reflections tex)"
proof
  show "radiance_history texp = radiance_history tex \<and> variance_history texp = variance_history tex
          \<and> num_samples_history texp = num_samples_history tex \<and> depth_history texp = depth_history tex
          \<and> normal_history texp = normal_history tex \<and> roughness_history texp = roughness_history tex
          \<and> radiance_reprojected texp = radiance_reprojected tex \<and> variance_out texp = variance_out tex
          \<and> num_samples_out texp = num_samples_out tex \<and> average_radiance texp = average_radiance tex"
    using Prefilter_Inr [OF assms(1)] by (auto simp: store_defs)
next
  from Reproject_Inr [OF assms(2)] obtain sh1 texg rad where
    br: "(if FFX_DNSR_Reflections_IsGlossyReflection e (FFX_DNSR_Reflections_LoadRoughness e q)
        then Reproject_glossy cfg e tex (barrier' 0 sh1) q (add_int2 h (4, 4)) scr' ms
               (FFX_DNSR_Reflections_LoadRoughness e q) (FFX_DNSR_Reflections_LoadRayLength e q)
               (GetContactHardenedRadiance e q)
        else Inr (tex, GetContactHardenedRadiance e q)) = Inr (texg, rad)"
    and fin: "texr = texg \<or> (\<exists>q v. texr = FFX_DNSR_Reflections_StoreAverageRadiance q v texg)"
    by blast
  have "texg = tex \<or> (\<exists>rr vo ns. texg = FFX_DNSR_Reflections_StoreNumSamples q ns
                                      (FFX_DNSR_Reflections_StoreVariance q vo
                                        (FFX_DNSR_Reflections_StoreRadianceReprojected q rr tex)))"
  proof (cases "FFX_DNSR_Reflections_IsGlossyReflection e (FFX_DNSR_Reflections_LoadRoughness e q)")
    case True
    with br have "Reproject_glossy cfg e tex (barrier' 0 sh1) q (add_int2 h (4, 4)) scr' ms
               (FFX_DNSR_Reflections_LoadRoughness e q) (FFX_DNSR_Reflections_LoadRayLength e q)
               (GetContactHardenedRadiance e q) = Inr (texg, rad)" by simp
    from Reproject_glossy_Inr [OF this] show ?thesis by (auto split: if_splits)
  next
    case False
    with br show ?thesis by simp
  qed
  then show "radiance_history texr = radiance_history tex \<and> variance_history texr = variance_history tex
          \<and> num_samples_history texr = num_samples_history tex \<and> depth_history texr = depth_history tex
          \<and> normal_history texr = normal_history tex \<and> roughness_history texr = roughness_history tex
          \<and> prefiltered_reflections texr = prefiltered_reflections tex"
    using fin by (auto simp: store_defs)
qed

section \<open>Runs of the kernels on the concrete dispatch\<close>

lemma map_sum_Inr: "map_sum id f x = Inr y \<Longrightarrow> \<exists>v. x = Inr v"
  by (cases x) simp_all

lemma Reproject_ex:
  "\<exists>texr shr. FFX_DNSR_Reflections_Reproject cfg_ex env_ex no_interference tex_ex full_rp
                 (0, 0) (0, 0) (16, 16) 0 32 = Inr (texr, shr)"
  using map_sum_Inr [OF Reproject_stores_ex [unfolded Reproject_stores_def]] by auto

lemma Initialize_stores_ex:
  "Initialize_stores cfg_ex env_ex full_rp (0, 0) (0, 0) (16, 16) = Inr 260"
  by (simp add: Initialize_stores_def Init_ex stores_rp_def length_full_tile)

text \<open>
  The shared tiles are not populated once only in \<open>Reproject\<close>: for the thread (0,0)
  of the concrete dispatch, which sees no store of another thread, the radiance tile has
  received 260 stores when \<open>InitializeGroupSharedMemory\<close> returns and 264 when the
  kernel returns.
\<close>

theorem shared_tiles_written_after_Initialize_counterexample:
  "Initialize_stores cfg_ex env_ex full_rp (0, 0) (0, 0) (16, 16) = Inr 260
   \<and> Reproject_stores cfg_ex env_ex no_interference tex_ex full_rp (0, 0) (0, 0) (16, 16) 0 32 = Inr 264"
  using Initialize_stores_ex Reproject_stores_ex by simp

lemma Init_rough:
  "FFX_DNSR_Reflections_InitializeGroupSharedMemory_rp cfg_ex env_rough full_rp (0, 0) (0, 0) scr
     = Inr \<lparr>g_ffx_dnsr_shared_0_rp =
              ((8, 8), float4 1 1 1 1) # ((0, 8), float4 1 1 1 1) # ((8, 0), float4 1 1 1 1)
              # ((0, 0), float4 1 1 1 1) # full_tile (float4 1 1 1 1),
            g_ffx_dnsr_shared_1_rp =
              ((8, 8), 0) # ((0, 8), 0) # ((8, 0), 0) # ((0, 0), 0) # full_tile 0\<rparr>"
  by (simp add: Init_rp_stores in_thread_group offset_def env_rough_simps add_int2_def full_rp_def)

text \<open>
  \<open>Reproject\<close> does not store its three outputs on every invocation: for a pixel of
  roughness 9/10, which is not a glossy reflection, the kernel returns and the pixel has
  no reprojected radiance, no variance and no sample count.
\<close>

theorem Reproject_stores_nothing_for_rough_pixel_counterexample:
  "Reproject_pixel_outputs cfg_ex env_rough no_interference tex_ex full_rp (0, 0) (0, 0) (16, 16) 0 32
     = Inr (None, None, None)"
  by (simp add: Reproject_pixel_outputs_def FFX_DNSR_Reflections_Reproject_def Init_rough
      no_interference_def env_rough_simps cfg_ex_simps GetContactHardenedRadiance_def
      FFX_DNSR_Reflections_GetLuminanceWeight_def Reproject_downsample_def shared_eval
      Let_def xyz_def set_xyz_def scale3_def uint_of_int_def pixel_outputs_def store_defs tex_ex_def)

theorem Reproject_discards_history_on_disocclusion_witness:
  "\<exists>sh1 d uv r tex' sh'.
      FFX_DNSR_Reflections_IsGlossyReflection env_ex (FFX_DNSR_Reflections_LoadRoughness env_ex (0, 0))
    \<and> FFX_DNSR_Reflections_InitializeGroupSharedMemory_rp cfg_ex env_ex full_rp (0, 0) (0, 0)
          (int2_of_uint2 (16, 16)) = Inr sh1
    \<and> FFX_DNSR_Reflections_PickReprojection cfg_ex env_ex tex_ex (no_interference 0 sh1) (0, 0)
          (add_int2 (0, 0) (4, 4)) (16, 16)
          (FFX_DNSR_Reflections_LoadRoughness env_ex (0, 0)) (FFX_DNSR_Reflections_LoadRayLength env_ex (0, 0))
          = Inr (d, uv, r)
    \<and> d < FFX_DNSR_REFLECTIONS_DISOCCLUSION_THRESHOLD cfg_ex
    \<and> FFX_DNSR_Reflections_Reproject cfg_ex env_ex no_interference tex_ex full_rp
          (0, 0) (0, 0) (16, 16) 0 32 = Inr (tex', sh')
    \<and> radiance_reprojected tex' (0, 0) = Some (float4 0 0 0 0)
    \<and> variance_out tex' (0, 0) = Some 1
    \<and> num_samples_out tex' (0, 0) = Some 1"
proof -
  have gl: "FFX_DNSR_Reflections_IsGlossyReflection env_ex (FFX_DNSR_Reflections_LoadRoughness env_ex (0, 0))"
    by (simp add: env_ex_simps)
  note init = Init_ex [of "int2_of_uint2 (16, 16)"]
  have pick: "FFX_DNSR_Reflections_PickReprojection cfg_ex env_ex tex_ex
          (no_interference 0 \<lparr>g_ffx_dnsr_shared_0_rp =
              ((8, 8), float4 1 1 1 1) # ((0, 8), float4 1 1 1 1) # ((8, 0), float4 1 1 1 1)
              # ((0, 0), float4 1 1 1 1) # full_tile (float4 1 1 1 1),
            g_ffx_dnsr_shared_1_rp =
              ((8, 8), 0) # ((0, 8), 0) # ((8, 0), 0) # ((0, 0), 0) # full_tile 0\<rparr>) (0, 0)
          (add_int2 (0, 0) (4, 4)) (16, 16)
          (FFX_DNSR_Reflections_LoadRoughness env_ex (0, 0)) (FFX_DNSR_Reflections_LoadRayLength env_ex (0, 0))
          = Inr (0, float2 (1 / 2) (1 / 2), float4 0 0 0 0)"
    by (simp add: env_ex_simps no_interference_def add_int2_def Pick_ex Estimate_ex_own)
  have below: "0 < FFX_DNSR_REFLECTIONS_DISOCCLUSION_THRESHOLD cfg_ex" by (simp add: cfg_ex_simps)
  obtain tex' sh' where run: "FFX_DNSR_Reflections_Reproject cfg_ex env_ex no_interference tex_ex full_rp
          (0, 0) (0, 0) (16, 16) 0 32 = Inr (tex', sh')"
    using Reproject_ex by blast
  from Reproject_discards_history_on_disocclusion [OF gl init pick below run] gl init pick below run
  show ?thesis by blast
qed


lemma Resolve_returns:
  assumes "\<And>off. off \<in> set sample_offsets
             \<Longrightarrow> \<exists>n. FFX_DNSR_Reflections_LoadFromGroupSharedMemory_pf sh (add_int2 g off) = Inr n"
  shows "\<exists>res. FFX_DNSR_Reflections_Resolve cfg sh g avg center = Inr res"
proof -
  have "\<exists>u. Resolve_accumulate cfg sh g avg center = Inr u"
    unfolding Resolve_accumulate_def Let_def
    using assms Resolve_step_returns by (intro efold_returns) metis
  then show ?thesis
    by (auto simp: FFX_DNSR_Reflections_Resolve_def Let_def split: prod.splits)
qed

lemma Init_pf_ex:
  "FFX_DNSR_Reflections_InitializeGroupSharedMemory_pf cfg_ex env_ex full_pf (0, 0) (0, 0) scr
     = Inr \<lparr>g_ffx_dnsr_shared_0_pf =
              ((8, 8), float4 1 1 1 1) # ((0, 8), float4 1 1 1 1) # ((8, 0), float4 1 1 1 1)
              # ((0, 0), float4 1 1 1 1) # full_tile (float4 1 1 1 1),
            g_ffx_dnsr_shared_1_pf =
              ((8, 8), float4 0 0 1 (1 / 2)) # ((0, 8), float4 0 0 1 (1 / 2)) # ((8, 0), float4 0 0 1 (1 / 2))
              # ((0, 0), float4 0 0 1 (1 / 2)) # full_tile (float4 0 0 1 (1 / 2)),
            g_ffx_dnsr_shared_depth_pf =
              ((8, 8), 1) # ((0, 8), 1) # ((8, 0), 1) # ((0, 0), 1) # full_tile 1\<rparr>"
  by (simp add: Init_pf_stores in_thread_group offset_def env_ex_simps add_int2_def full_pf_def
      float4_of_def)

lemma Load_pf_ex:
  assumes "in_tile idx"
  shows "FFX_DNSR_Reflections_LoadFromGroupSharedMemory_pf
     \<lparr>g_ffx_dnsr_shared_0_pf =
              ((8, 8), float4 1 1 1 1) # ((0, 8), float4 1 1 1 1) # ((8, 0), float4 1 1 1 1)
              # ((0, 0), float4 1 1 1 1) # full_tile (float4 1 1 1 1),
            g_ffx_dnsr_shared_1_pf =
              ((8, 8), float4 0 0 1 (1 / 2)) # ((0, 8), float4 0 0 1 (1 / 2)) # ((8, 0), float4 0 0 1 (1 / 2))
              # ((0, 0), float4 0 0 1 (1 / 2)) # full_tile (float4 0 0 1 (1 / 2)),
            g_ffx_dnsr_shared_depth_pf =
              ((8, 8), 1) # ((0, 8), 1) # ((8, 0), 1) # ((0, 0), 1) # full_tile 1\<rparr> idx
     = Inr \<lparr>radiance_pf = float4 1 1 1 1, variance_pf = 1 / 2, normal_pf = float3 0 0 1, depth_pf = 1\<rparr>"
  using assms
  by (simp add: FFX_DNSR_Reflections_LoadFromGroupSharedMemory_pf_def tile_load_Cons tile_load_full xyz_def)

lemma Prefilter_ex:
  "\<exists>texp shp. FFX_DNSR_Reflections_Prefilter cfg_ex env_ex no_interference tex_ex full_pf
                 (0, 0) (0, 0) (16, 16) = Inr (texp, shp)"
proof -
  define sh1 where "sh1 = \<lparr>g_ffx_dnsr_shared_0_pf =
              ((8, 8), float4 1 1 1 1) # ((0, 8), float4 1 1 1 1) # ((8, 0), float4 1 1 1 1)
              # ((0, 0), float4 1 1 1 1) # full_tile (float4 1 1 1 1),
            g_ffx_dnsr_shared_1_pf =
              ((8, 8), float4 0 0 1 (1 / 2)) # ((0, 8), float4 0 0 1 (1 / 2)) # ((8, 0), float4 0 0 1 (1 / 2))
              # ((0, 0), float4 0 0 1 (1 / 2)) # full_tile (float4 0 0 1 (1 / 2)),
            g_ffx_dnsr_shared_depth_pf =
              ((8, 8), 1) # ((0, 8), 1) # ((8, 0), 1) # ((0, 0), 1) # full_tile (1 :: real)\<rparr>"
  have ld: "FFX_DNSR_Reflections_LoadFromGroupSharedMemory_pf sh1 idx
     = Inr \<lparr>radiance_pf = float4 1 1 1 1, variance_pf = 1 / 2, normal_pf = float3 0 0 1, depth_pf = 1\<rparr>"
    if "in_tile idx" for idx
    unfolding sh1_def using that by (rule Load_pf_ex)
  have "\<exists>n. FFX_DNSR_Reflections_LoadFromGroupSharedMemory_pf sh1 (add_int2 (4, 4) off) = Inr n"
    if "off \<in> set sample_offsets" for off
  proof -
    have "in_tile (add_int2 (4, 4) off)"
      using sample_offsets_range [OF that] by (simp add: in_tile_def add_int2_def)
    then show ?thesis using ld by blast
  qed
  from Resolve_returns [of sh1 "(4, 4)", OF this]
  obtain res where res: "FFX_DNSR_Reflections_Resolve cfg_ex sh1 (4, 4) (float4 1 1 1 1)
      \<lparr>radiance_pf = float4 1 1 1 1, variance_pf = 1 / 2, normal_pf = float3 0 0 1, depth_pf = 1\<rparr> = Inr res"
    by blast
  have c: "in_tile (4, 4)" by (simp add: in_tile_def)
  show ?thesis
    by (simp add: FFX_DNSR_Reflections_Prefilter_def Init_pf_ex sh1_def [symmetric] no_interference_def
        add_int2_def ld [OF c] env_ex_simps res Let_def split: prod.splits)
qed


theorem kernels_store_outputs_witness:
  "\<exists>texp shp texr shr.
      FFX_DNSR_Reflections_Prefilter cfg_ex env_ex no_interference tex_ex full_pf (0, 0) (0, 0) (16, 16)
        = Inr (texp, shp)
    \<and> FFX_DNSR_Reflections_Reproject cfg_ex env_ex no_interference tex_ex full_rp (0, 0) (0, 0) (16, 16) 0 32
        = Inr (texr, shr)
    \<and> FFX_DNSR_Reflections_IsGlossyReflection env_ex (FFX_DNSR_Reflections_LoadRoughness env_ex (0, 0))
    \<and> (\<exists>rad var. prefiltered_reflections texp (0, 0) = Some (rad, var))
    \<and> (\<exists>rr vo ns. pixel_outputs texr (0, 0) = (Some rr, Some vo, Some ns))"
proof -
  obtain texp shp where pf: "FFX_DNSR_Reflections_Prefilter cfg_ex env_ex no_interference tex_ex full_pf
      (0, 0) (0, 0) (16, 16) = Inr (texp, shp)"
    using Prefilter_ex by blast
  obtain texr shr where rp: "FFX_DNSR_Reflections_Reproject cfg_ex env_ex no_interference tex_ex full_rp
      (0, 0) (0, 0) (16, 16) 0 32 = Inr (texr, shr)"
    using Reproject_ex by blast
  have gl: "FFX_DNSR_Reflections_IsGlossyReflection env_ex (FFX_DNSR_Reflections_LoadRoughness env_ex (0, 0))"
    by (simp add: env_ex_simps)
  from kernels_store_outputs [OF pf rp] gl
  have "(\<exists>rad var. prefiltered_reflections texp (0, 0) = Some (rad, var))
      \<and> (\<exists>rr vo ns. pixel_outputs texr (0, 0) = (Some rr, Some vo, Some ns))"
    by simp
  then show ?thesis using pf rp gl by blast
qed

theorem kernels_leave_history_untouched_witness:
  "\<exists>texp shp texr shr.
      FFX_DNSR_Reflections_Prefilter cfg_ex env_ex no_interference tex_ex full_pf (0, 0) (0, 0) (16, 16)
        = Inr (texp, shp)
    \<and> FFX_DNSR_Reflections_Reproject cfg_ex env_ex no_interference tex_ex full_rp (0, 0) (0, 0) (16, 16) 0 32
        = Inr (texr, shr)
    \<and> (radiance_history texp = radiance_history tex_ex \<and> variance_history texp = variance_history tex_ex
          \<and> num_samples_history texp = num_samples_history tex_ex \<and> depth_history texp = depth_history tex_ex
          \<and> normal_history texp = normal_history tex_ex \<and> roughness_history texp = roughness_history tex_ex
          \<and> radiance_reprojected texp = radiance_reprojected tex_ex \<and> variance_out texp = variance_out tex_ex
          \<and> num_samples_out texp = num_samples_out tex_ex \<and> average_radiance texp = average_radiance tex_ex)
    \<and> (radiance_history texr = radiance_history tex_ex \<and> variance_history texr = variance_history tex_ex
          \<and> num_samples_history texr = num_samples_history tex_ex \<and> depth_history texr = depth_history tex_ex
          \<and> normal_history texr = normal_history tex_ex \<and> roughness_history texr = roughness_history tex_ex
          \<and> prefiltered_reflections texr = prefiltered_reflections tex_ex)"
proof -
  obtain texp shp where pf: "FFX_DNSR_Reflections_Prefilter cfg_ex env_ex no_interference tex_ex full_pf
      (0, 0) (0, 0) (16, 16) = Inr (texp, shp)"
    using Prefilter_ex by blast
  obtain texr shr where rp: "FFX_DNSR_Reflections_Reproject cfg_ex env_ex no_interference tex_ex full_rp
      (0, 0) (0, 0) (16, 16) 0 32 = Inr (texr, shr)"
    using Reproject_ex by blast
  from kernels_leave_history_untouched [OF pf rp] pf rp show ?thesis by blast
qed

lemma tex_agree_simps:
  "sample (radiance_history tex_agree) = (\<lambda>uv. float4 1 1 1 1)"
  "sample (depth_history tex_agree) = (\<lambda>uv. 1 / 2)"
  "sample (normal_history tex_agree) = (\<lambda>uv. float3 0 0 1)"
  "sample (roughness_history tex_agree) = (\<lambda>uv. 1 / 4)"
  by (simp_all add: tex_agree_def tex_ex_def const_texture_def)

lemma factor_agree:
  "FFX_DNSR_Reflections_GetDisocclusionFactor cfg_ex (float3 0 0 1) (float3 0 0 1) 1 1 = 1"
  by (simp add: FFX_DNSR_Reflections_GetDisocclusionFactor_def cfg_ex_simps dot_def saturate_def Let_def)

lemma choose_agree:
  "PickReprojection_choose cfg_ex env_ex tex_agree (0, 0) (16, 16) (1 / 4) 1
     = ((1, float2 (1 / 32) (1 / 32), float4 1 1 1 1), float3 0 0 1, 1)"
  by (simp add: PickReprojection_choose_def history_defs tex_agree_simps env_ex_simps cfg_ex_simps
      FFX_DNSR_Reflections_GetHitPositionReprojection_def normalize_def length3_def dot_def
      factor_agree Let_def add3_def scale3_def mul2_def add2_def)

theorem PickReprojection_factor_zero_or_above_threshold_witness:
  "(\<exists>m. FFX_DNSR_Reflections_EstimateLocalNeighborhoodInGroup cfg_ex full_rp (4, 4) = Inr m)
   \<and> FFX_DNSR_Reflections_PickReprojection cfg_ex env_ex tex_agree full_rp (0, 0) (4, 4) (16, 16) (1 / 4) 1
       = Inr (1, float2 (1 / 32) (1 / 32), float4 1 1 1 1)
   \<and> FFX_DNSR_Reflections_PickReprojection cfg_ex env_ex tex_ex full_rp (0, 0) (4, 4) (16, 16) (1 / 4) 1
       = Inr (0, float2 (1 / 2) (1 / 2), float4 0 0 0 0)
   \<and> FFX_DNSR_REFLECTIONS_DISOCCLUSION_THRESHOLD cfg_ex = 9 / 10"
proof -
  obtain m where h: "FFX_DNSR_Reflections_EstimateLocalNeighborhoodInGroup cfg_ex full_rp (4, 4) = Inr m"
    using Estimate_ex by blast
  have a: "FFX_DNSR_Reflections_PickReprojection cfg_ex env_ex tex_agree full_rp (0, 0) (4, 4) (16, 16) (1 / 4) 1
       = Inr (1, float2 (1 / 32) (1 / 32), float4 1 1 1 1)"
    using PickReprojection_factor_zero_or_above_threshold
            [OF h, of env_ex tex_agree "(0, 0)" "(16, 16)" "1 / 4" 1]
    by (simp add: choose_agree cfg_ex_simps Let_def)
  have b: "FFX_DNSR_Reflections_PickReprojection cfg_ex env_ex tex_ex full_rp (0, 0) (4, 4) (16, 16) (1 / 4) 1
       = Inr (0, float2 (1 / 2) (1 / 2), float4 0 0 0 0)"
    using PickReprojection_factor_zero_or_above_threshold
            [OF h, of env_ex tex_ex "(0, 0)" "(16, 16)" "1 / 4" 1] exp_bound_1 exp_bound_2
    by (simp add: choose_ex search_ex bilinear_ex cfg_ex_simps Let_def)
  show ?thesis using h a b by (simp add: cfg_ex_simps)
qed

lemma tile_load_full_append: "in_tile idx \<Longrightarrow> tile_load (full_tile v @ t) idx = Inr v"
proof -
  assume a: "in_tile idx"
  have "map_of (map (\<lambda>i. (i, v)) tile_list) idx = Some v"
    using a by (simp add: map_of_map_restrict set_tile_list)
  then show ?thesis using a by (simp add: tile_load_def full_tile_def)
qed

lemma Init_rp_empty:
  "FFX_DNSR_Reflections_InitializeGroupSharedMemory_rp cfg_ex env_ex empty_shared_rp (0, 0) (0, 0) scr
     = Inr \<lparr>g_ffx_dnsr_shared_0_rp =
              [((8, 8), float4 1 1 1 1), ((0, 8), float4 1 1 1 1), ((8, 0), float4 1 1 1 1),
               ((0, 0), float4 1 1 1 1)],
            g_ffx_dnsr_shared_1_rp = [((8, 8), 0), ((0, 8), 0), ((8, 0), 0), ((0, 0), 0)]\<rparr>"
  by (simp add: Init_rp_stores in_thread_group offset_def env_ex_simps add_int2_def empty_shared_rp_def)

lemma Reproject_group_ex:
  "\<exists>texr shr. FFX_DNSR_Reflections_Reproject cfg_ex env_ex others_visible_rp tex_ex empty_shared_rp
                 (0, 0) (0, 0) (16, 16) 0 32 = Inr (texr, shr)"
  by (simp add: FFX_DNSR_Reflections_Reproject_def Init_rp_empty glossy_ex
      others_visible_rp_def env_ex_simps cfg_ex_simps GetContactHardenedRadiance_def
      FFX_DNSR_Reflections_GetLuminanceWeight_def Reproject_downsample_def shared_eval
      tile_load_full_append Let_def xyz_def set_xyz_def scale3_def uint_of_int_def)

lemma Init_pf_empty:
  "FFX_DNSR_Reflections_InitializeGroupSharedMemory_pf cfg_ex env_ex empty_shared_pf (0, 0) (0, 0) scr
     = Inr \<lparr>g_ffx_dnsr_shared_0_pf =
              [((8, 8), float4 1 1 1 1), ((0, 8), float4 1 1 1 1), ((8, 0), float4 1 1 1 1),
               ((0, 0), float4 1 1 1 1)],
            g_ffx_dnsr_shared_1_pf =
              [((8, 8), float4 0 0 1 (1 / 2)), ((0, 8), float4 0 0 1 (1 / 2)), ((8, 0), float4 0 0 1 (1 / 2)),
               ((0, 0), float4 0 0 1 (1 / 2))],
            g_ffx_dnsr_shared_depth_pf = [((8, 8), 1), ((0, 8), 1), ((8, 0), 1), ((0, 0), 1)]\<rparr>"
  by (simp add: Init_pf_stores in_thread_group offset_def env_ex_simps add_int2_def empty_shared_pf_def
      float4_of_def)

lemma Prefilter_group_ex:
  "\<exists>texp shp. FFX_DNSR_Reflections_Prefilter cfg_ex env_ex others_visible_pf tex_ex empty_shared_pf
                 (0, 0) (0, 0) (16, 16) = Inr (texp, shp)"
proof -
  define sh1 where "sh1 = \<lparr>g_ffx_dnsr_shared_0_pf =
              ((8, 8), float4 1 1 1 1) # ((0, 8), float4 1 1 1 1) # ((8, 0), float4 1 1 1 1)
              # ((0, 0), float4 1 1 1 1) # full_tile (float4 1 1 1 1),
            g_ffx_dnsr_shared_1_pf =
              ((8, 8), float4 0 0 1 (1 / 2)) # ((0, 8), float4 0 0 1 (1 / 2)) # ((8, 0), float4 0 0 1 (1 / 2))
              # ((0, 0), float4 0 0 1 (1 / 2)) # full_tile (float4 0 0 1 (1 / 2)),
            g_ffx_dnsr_shared_depth_pf =
              ((8, 8), 1) # ((0, 8), 1) # ((8, 0), 1) # ((0, 0), 1) # full_tile (1 :: real)\<rparr>"
  have ld: "FFX_DNSR_Reflections_LoadFromGroupSharedMemory_pf sh1 idx
     = Inr \<lparr>radiance_pf = float4 1 1 1 1, variance_pf = 1 / 2, normal_pf = float3 0 0 1, depth_pf = 1\<rparr>"
    if "in_tile idx" for idx
    unfolding sh1_def using that by (rule Load_pf_ex)
  have "\<exists>n. FFX_DNSR_Reflections_LoadFromGroupSharedMemory_pf sh1 (add_int2 (4, 4) off) = Inr n"
    if "off \<in> set sample_offsets" for off
  proof -
    have "in_tile (add_int2 (4, 4) off)"
      using sample_offsets_range [OF that] by (simp add: in_tile_def add_int2_def)
    then show ?thesis using ld by blast
  qed
  from Resolve_returns [of sh1 "(4, 4)", OF this]
  obtain res where res: "FFX_DNSR_Reflections_Resolve cfg_ex sh1 (4, 4) (float4 1 1 1 1)
      \<lparr>radiance_pf = float4 1 1 1 1, variance_pf = 1 / 2, normal_pf = float3 0 0 1, depth_pf = 1\<rparr> = Inr res"
    by blast
  have c: "in_tile (4, 4)" by (simp add: in_tile_def)
  have b: "others_visible_pf 0 \<lparr>g_ffx_dnsr_shared_0_pf =
              [((8, 8), float4 1 1 1 1), ((0, 8), float4 1 1 1 1), ((8, 0), float4 1 1 1 1),
               ((0, 0), float4 1 1 1 1)],
            g_ffx_dnsr_shared_1_pf =
              [((8, 8), float4 0 0 1 (1 / 2)), ((0, 8), float4 0 0 1 (1 / 2)), ((8, 0), float4 0 0 1 (1 / 2)),
               ((0, 0), float4 0 0 1 (1 / 2))],
            g_ffx_dnsr_shared_depth_pf = [((8, 8), 1), ((0, 8), 1), ((8, 0), 1), ((0, 0), 1)]\<rparr> = sh1"
    by (simp add: others_visible_pf_def sh1_def)
  show ?thesis
    by (simp add: FFX_DNSR_Reflections_Prefilter_def Init_pf_empty b
        add_int2_def ld [OF c] env_ex_simps res Let_def split: prod.splits)
qed

theorem shared_tiles_after_Initialize_witness:
  "\<exists>texp shp texr shr.
      FFX_DNSR_Reflections_Prefilter cfg_ex env_ex others_visible_pf tex_ex empty_shared_pf (0, 0) (0, 0) (16, 16)
        = Inr (texp, shp)
    \<and> FFX_DNSR_Reflections_Reproject cfg_ex env_ex others_visible_rp tex_ex empty_shared_rp (0, 0) (0, 0)
        (16, 16) 0 32 = Inr (texr, shr)
    \<and> (\<exists>sh1. FFX_DNSR_Reflections_InitializeGroupSharedMemory_pf cfg_ex env_ex empty_shared_pf (0, 0) (0, 0)
                 (int2_of_uint2 (16, 16)) = Inr sh1
            \<and> shp = others_visible_pf 0 sh1)
    \<and> (\<exists>sh1 rw wt sh2.
            FFX_DNSR_Reflections_InitializeGroupSharedMemory_rp cfg_ex env_ex empty_shared_rp (0, 0) (0, 0)
              (int2_of_uint2 (16, 16)) = Inr sh1
          \<and> g_ffx_dnsr_shared_0_rp sh2 = ((0, 0), rw) # g_ffx_dnsr_shared_0_rp (others_visible_rp 0 sh1)
          \<and> g_ffx_dnsr_shared_1_rp sh2 = ((0, 0), wt) # g_ffx_dnsr_shared_1_rp (others_visible_rp 0 sh1)
          \<and> efold (Reproject_downsample others_visible_rp (0, 0)) [(2, 2), (3, 4), (4, 8)]
               (others_visible_rp 1 sh2) = Inr shr)"
proof -
  obtain texp shp where pf: "FFX_DNSR_Reflections_Prefilter cfg_ex env_ex others_visible_pf tex_ex
      empty_shared_pf (0, 0) (0, 0) (16, 16) = Inr (texp, shp)"
    using Prefilter_group_ex by blast
  obtain texr shr where rp: "FFX_DNSR_Reflections_Reproject cfg_ex env_ex others_visible_rp tex_ex
      empty_shared_rp (0, 0) (0, 0) (16, 16) 0 32 = Inr (texr, shr)"
    using Reproject_group_ex by blast
  from shared_tiles_after_Initialize [OF pf rp] pf rp show ?thesis by blast
qed

end
